theory Spec2Isabelle
  imports Complex_Main "HOL-Library.AList"
begin

section \<open>Remote Browser Isolation server: shallow embedding\<close>

text \<open>
  Conventions of the embedding.
  \<^item> A JavaScript \<open>Map\<close> is an association list in insertion order: \<open>map_of\<close> is
    \<open>get\<close>, \<open>AList.update\<close> is \<open>set\<close> (in place for a present key, appended for a
    new one), \<open>AList.delete\<close> is \<open>delete\<close>, \<open>length\<close> is \<open>size\<close>.
  \<^item> \<open>Date.now()\<close> is a parameter \<open>now\<close> (milliseconds, an \<open>int\<close>).
  \<^item> Every \<open>async\<close> method is run to completion as one step; what the outside world
    answers (a browser launch, a CDP command, \<open>page.close()\<close>) is a field of \<open>env\<close>.
  \<^item> A \<open>throw\<close> is the \<open>Inl\<close> branch of a sum; \<open>emit\<close> appends to an event log.
    Where a component listens to an event that its own method causes (the page's
    \<open>close\<close> listener in \<open>closePage\<close>, the engine's \<open>connectionClosed\<close> listener in
    \<open>closeStream\<close>), the listener's work is part of that method's step.
  \<^item> JavaScript numbers that the code multiplies by fractions (bitrates, frame intervals)
    are exact rationals.
\<close>

type_synonym id = string

datatype error =
    ResourceLimitError
  | NotFoundError
  | TypeError
  | Error string

subsection \<open>Configuration (utils/config)\<close>

record browser_config =
  maxBrowsers :: nat
  maxPagesPerBrowser :: nat
  restartBrowserAfterPages :: nat
  restartBrowserAfterTime :: int

text \<open>\<open>maxBrowsers\<close> comes from the environment (default 5); the rest are literals.\<close>

definition BROWSER_CONFIG :: "nat \<Rightarrow> browser_config" where
  "BROWSER_CONFIG envMaxBrowsers =
     \<lparr> maxBrowsers = envMaxBrowsers, maxPagesPerBrowser = 5,
       restartBrowserAfterPages = 50, restartBrowserAfterTime = 60 * 60 * 1000 \<rparr>"

record session_config =
  maxConcurrentSessions :: nat
  sessionTimeout :: rat

definition SESSION_CONFIG :: session_config where
  "SESSION_CONFIG = \<lparr> maxConcurrentSessions = 2, sessionTimeout = 5 \<rparr>"

definition sessionTimeoutMs :: "session_config \<Rightarrow> rat" where
  "sessionTimeoutMs cfg = sessionTimeout cfg * 60 * 1000"

subsection \<open>The outside world\<close>

record launched =
  l_pages :: nat
  l_process :: bool

record env =
  launch :: "id \<Rightarrow> launched option"
  newPage_ok :: "id \<Rightarrow> bool"
  pageSetup_ok :: "id \<Rightarrow> bool"
  cdp_send_ok :: "id \<Rightarrow> bool"
  page_close_ok :: "id \<Rightarrow> bool"
  browser_close_ok :: "id \<Rightarrow> bool"
  pages_is_promise :: bool

text \<open>
  \<open>launch b\<close> is what \<open>puppeteer.launch\<close> answers for the browser that will be stored
  under \<open>b\<close>: \<open>None\<close> when it rejects, else how many pages the fresh instance already
  reports and whether \<open>browser.process()\<close> is non-null. \<open>pages_is_promise\<close> says whether
  \<open>browser.pages()\<close> returns a promise of the page array (as Puppeteer's does, and as
  \<open>getOrCreateBrowser\<close> assumes when it awaits it) rather than the array itself.
\<close>

subsection \<open>Browser pool (core/browser-pool)\<close>

record browser =
  createdAt :: int
  pagesCreated :: nat
  livePages :: nat
  hasProcess :: bool

record page_info =
  pg_browserId :: id
  pg_createdAt :: int
  pg_lastActivityAt :: int
  pg_screencastRunning :: bool
  pg_client :: bool

datatype pool_event =
    BrowserCreated id
  | BrowserDisconnected id
  | BrowserClosed id
  | PageCreated id
  | PageClosed id
  | ScreencastStarted id
  | ScreencastStopped id

record pool =
  browsers :: "(id \<times> browser) list"
  pages :: "(id \<times> page_info) list"
  pool_events :: "pool_event list"

definition new_pool :: pool where
  "new_pool = \<lparr> browsers = [], pages = [], pool_events = [] \<rparr>"

definition emit_pool :: "pool_event \<Rightarrow> pool \<Rightarrow> pool" where
  "emit_pool e p = p\<lparr> pool_events := pool_events p @ [e] \<rparr>"

text \<open>\<open>options.x || uuidv4()\<close>: an absent or empty string is falsy.\<close>

definition or_uuid :: "id option \<Rightarrow> id \<Rightarrow> id" where
  "or_uuid opt uuid = (case opt of None \<Rightarrow> uuid | Some s \<Rightarrow> if s = [] then uuid else s)"

text \<open>\<open>getPage\<close>: looks the page up and, when present, stamps its last activity.\<close>

definition getPage :: "id \<Rightarrow> int \<Rightarrow> pool \<Rightarrow> page_info option \<times> pool" where
  "getPage pageId now p =
     (case map_of (pages p) pageId of
        None \<Rightarrow> (None, p)
      | Some info \<Rightarrow>
          (let info' = info\<lparr> pg_lastActivityAt := now \<rparr>
           in (Some info', p\<lparr> pages := AList.update pageId info' (pages p) \<rparr>)))"

definition set_page :: "id \<Rightarrow> (page_info \<Rightarrow> page_info) \<Rightarrow> pool \<Rightarrow> pool" where
  "set_page pageId f p = p\<lparr> pages := AList.map_entry pageId f (pages p) \<rparr>"

text \<open>
  \<open>stopScreencast\<close>. The \<open>catch\<close> branch is reached when the CDP command rejects; it
  looks the page up again, clears the running flag and answers \<open>false\<close>.
\<close>

definition stopScreencast :: "env \<Rightarrow> id \<Rightarrow> int \<Rightarrow> pool \<Rightarrow> bool \<times> pool" where
  "stopScreencast ev pageId now p =
     (case getPage pageId now p of
        (None, p1) \<Rightarrow> (False, p1)
      | (Some info, p1) \<Rightarrow>
          if \<not> pg_screencastRunning info then (True, p1)
          else if pg_client info \<and> \<not> cdp_send_ok ev pageId then
            (case getPage pageId now p1 of
               (None, p2) \<Rightarrow> (False, p2)
             | (Some _, p2) \<Rightarrow>
                 (False, set_page pageId (\<lambda>q. q\<lparr> pg_screencastRunning := False \<rparr>) p2))
          else
            (True,
             emit_pool (ScreencastStopped pageId)
               (set_page pageId
                  (\<lambda>q. q\<lparr> pg_client := False, pg_screencastRunning := False \<rparr>) p1)))"

text \<open>
  \<open>closePage\<close>. When \<open>page.close()\<close> resolves, the engine page leaves its browser and the
  page's own \<open>close\<close> listener (registered in \<open>createPage\<close>) has already deleted the entry
  and emitted \<open>pageClosed\<close> once; the method then deletes and emits again. When it
  rejects, the \<open>catch\<close> branch deletes and emits and answers \<open>false\<close>.
\<close>

definition closePage :: "env \<Rightarrow> id \<Rightarrow> int \<Rightarrow> pool \<Rightarrow> bool \<times> pool" where
  "closePage ev pageId now p =
     (case getPage pageId now p of
        (None, p1) \<Rightarrow> (False, p1)
      | (Some info, p1) \<Rightarrow>
          (let p2 = (if pg_screencastRunning info
                     then snd (stopScreencast ev pageId now p1) else p1)
           in if page_close_ok ev pageId then
                (let p3 = p2\<lparr> browsers :=
                             AList.map_entry (pg_browserId info)
                               (\<lambda>b. b\<lparr> livePages := livePages b - 1 \<rparr>) (browsers p2) \<rparr>;
                     p4 = emit_pool (PageClosed pageId)
                            (p3\<lparr> pages := AList.delete pageId (pages p3) \<rparr>);
                     p5 = emit_pool (PageClosed pageId)
                            (p4\<lparr> pages := AList.delete pageId (pages p4) \<rparr>)
                 in (True, p5))
              else
                (False,
                 emit_pool (PageClosed pageId)
                   (p2\<lparr> pages := AList.delete pageId (pages p2) \<rparr>))))"

text \<open>
  \<open>startScreencast\<close>; \<open>cdp_send_ok\<close> also stands for opening the CDP session. The
  \<open>catch\<close> branch clears the running flag and rethrows.
\<close>

definition startScreencast :: "env \<Rightarrow> id \<Rightarrow> int \<Rightarrow> pool \<Rightarrow> (error + bool) \<times> pool" where
  "startScreencast ev pageId now p =
     (case getPage pageId now p of
        (None, p1) \<Rightarrow> (Inl NotFoundError, p1)
      | (Some info, p1) \<Rightarrow>
          if pg_screencastRunning info then (Inr True, p1)
          else if \<not> cdp_send_ok ev pageId then
            (Inl (Error ''Page.startScreencast failed''),
             set_page pageId (\<lambda>q. q\<lparr> pg_screencastRunning := False \<rparr>)
               (snd (getPage pageId now p1)))
          else
            (Inr True,
             emit_pool (ScreencastStarted pageId)
               (set_page pageId
                  (\<lambda>q. q\<lparr> pg_client := True, pg_screencastRunning := True \<rparr>) p1)))"

text \<open>
  \<open>createBrowser\<close>. The cap is tested first, then the id is chosen, then an instance
  already stored under that id is handed back as it is; only otherwise is a browser
  launched and stored. Results carry the pool, since a failing call may already have
  changed it.
\<close>

definition createBrowser ::
  "browser_config \<Rightarrow> env \<Rightarrow> id option \<Rightarrow> id \<Rightarrow> int \<Rightarrow> pool
     \<Rightarrow> (error + id \<times> browser) \<times> pool" where
  "createBrowser cfg ev optBrowserId uuid now p =
     (if length (browsers p) \<ge> maxBrowsers cfg then (Inl ResourceLimitError, p)
      else
        (let browserId = or_uuid optBrowserId uuid
         in case map_of (browsers p) browserId of
              Some b \<Rightarrow> (Inr (browserId, b), p)
            | None \<Rightarrow>
                (case launch ev browserId of
                   None \<Rightarrow> (Inl (Error ''launch failed''), p)
                 | Some l \<Rightarrow>
                     (let b = \<lparr> createdAt = now, pagesCreated = 0,
                                livePages = l_pages l, hasProcess = l_process l \<rparr>
                      in (Inr (browserId, b),
                          emit_pool (BrowserCreated browserId)
                            (p\<lparr> browsers := AList.update browserId b (browsers p) \<rparr>))))))"

text \<open>The \<open>disconnected\<close> listener that \<open>createBrowser\<close> registers on the instance.\<close>

definition onBrowserDisconnected :: "id \<Rightarrow> pool \<Rightarrow> pool" where
  "onBrowserDisconnected browserId p =
     emit_pool (BrowserDisconnected browserId)
       (p\<lparr> browsers := AList.delete browserId (browsers p) \<rparr>)"

text \<open>
  The search loop of \<open>getOrCreateBrowser\<close>: \<open>minPages\<close> starts at \<open>Infinity\<close>
  (\<open>None\<close>); an instance replaces the best one so far when it has strictly fewer pages
  and is strictly under the per-instance cap.
\<close>

fun fewestPages ::
  "browser_config \<Rightarrow> (id \<times> browser) list \<Rightarrow> (id \<times> browser) option \<Rightarrow> nat option
     \<Rightarrow> (id \<times> browser) option" where
  "fewestPages cfg [] bestBrowser minPages = bestBrowser"
| "fewestPages cfg ((browserId, b) # rest) bestBrowser minPages =
     (let pageCount = livePages b
      in if (case minPages of None \<Rightarrow> True | Some m \<Rightarrow> pageCount < m) \<and>
            pageCount < maxPagesPerBrowser cfg
         then fewestPages cfg rest (Some (browserId, b)) (Some pageCount)
         else fewestPages cfg rest bestBrowser minPages)"

definition getOrCreateBrowser ::
  "browser_config \<Rightarrow> env \<Rightarrow> id option \<Rightarrow> id \<Rightarrow> int \<Rightarrow> pool
     \<Rightarrow> (error + id \<times> browser) \<times> pool" where
  "getOrCreateBrowser cfg ev optBrowserId uuid now p =
     (if length (browsers p) = 0 then createBrowser cfg ev optBrowserId uuid now p
      else
        (case fewestPages cfg (browsers p) None None of
           Some bestBrowser \<Rightarrow> (Inr bestBrowser, p)
         | None \<Rightarrow> createBrowser cfg ev optBrowserId uuid now p))"

text \<open>
  The options of \<open>createPage\<close> that decide what the pool does: the page id and
  \<open>browserOptions.browserId\<close>. Viewport settings go to the engine page only.
\<close>

record page_options =
  po_pageId :: "id option"
  po_browserId :: "id option"

text \<open>
  \<open>createPage\<close>: the browser is acquired first; only then is the page id chosen and
  looked up. \<open>uuidB\<close> and \<open>uuidP\<close> are what \<open>uuidv4()\<close> would answer for the browser and
  for the page.
\<close>

definition createPage ::
  "browser_config \<Rightarrow> env \<Rightarrow> page_options \<Rightarrow> id \<Rightarrow> id \<Rightarrow> int \<Rightarrow> pool
     \<Rightarrow> (error + id \<times> page_info) \<times> pool" where
  "createPage cfg ev options uuidB uuidP now p =
     (case getOrCreateBrowser cfg ev (po_browserId options) uuidB now p of
        (Inl e, p1) \<Rightarrow> (Inl e, p1)
      | (Inr (browserId, b), p1) \<Rightarrow>
          (let pageId = or_uuid (po_pageId options) uuidP
           in case map_of (pages p1) pageId of
                Some info \<Rightarrow> (Inr (pageId, info), p1)
              | None \<Rightarrow>
                  if \<not> newPage_ok ev pageId then (Inl (Error ''newPage failed''), p1)
                  else
                    (let p2 = p1\<lparr> browsers :=
                                 AList.map_entry browserId
                                   (\<lambda>b. b\<lparr> livePages := livePages b + 1,
                                            pagesCreated := pagesCreated b + 1 \<rparr>)
                                   (browsers p1) \<rparr>
                     in if \<not> pageSetup_ok ev pageId
                        then (Inl (Error ''page setup failed''), p2)
                        else
                          (let info = \<lparr> pg_browserId = browserId, pg_createdAt = now,
                                         pg_lastActivityAt = now,
                                         pg_screencastRunning = False, pg_client = False \<rparr>
                           in (Inr (pageId, info),
                               emit_pool (PageCreated pageId)
                                 (p2\<lparr> pages := AList.update pageId info (pages p2) \<rparr>))))))"

text \<open>
  \<open>closeBrowser\<close>. The loop over \<open>this.pages\<close> closes the pages of this browser;
  \<open>closePage\<close> deletes only the entry being visited, so the loop visits exactly the
  pages that belonged to the browser when it started. When \<open>browser.close()\<close> resolves
  the instance's \<open>disconnected\<close> listener has run.
\<close>

fun closePages :: "env \<Rightarrow> int \<Rightarrow> id list \<Rightarrow> pool \<Rightarrow> pool" where
  "closePages ev now [] p = p"
| "closePages ev now (pageId # rest) p = closePages ev now rest (snd (closePage ev pageId now p))"

definition closeBrowser :: "env \<Rightarrow> id \<Rightarrow> int \<Rightarrow> pool \<Rightarrow> bool \<times> pool" where
  "closeBrowser ev browserId now p =
     (case map_of (browsers p) browserId of
        None \<Rightarrow> (False, p)
      | Some b \<Rightarrow>
          (let own = map fst (filter (\<lambda>(pageId, info). pg_browserId info = browserId) (pages p));
               p1 = closePages ev now own p
           in if browser_close_ok ev browserId then
                (let p2 = onBrowserDisconnected browserId p1
                 in (True,
                     emit_pool (BrowserClosed browserId)
                       (p2\<lparr> browsers := AList.delete browserId (browsers p2) \<rparr>)))
              else
                (False,
                 emit_pool (BrowserClosed browserId)
                   (p1\<lparr> browsers := AList.delete browserId (browsers p1) \<rparr>))))"

text \<open>\<open>restartBrowser\<close>: close, then create again under the same id; a failing launch is rethrown.\<close>

definition restartBrowser ::
  "browser_config \<Rightarrow> env \<Rightarrow> id \<Rightarrow> id \<Rightarrow> int \<Rightarrow> pool
     \<Rightarrow> (error + (id \<times> browser) option) \<times> pool" where
  "restartBrowser cfg ev browserId uuid now p =
     (case map_of (browsers p) browserId of
        None \<Rightarrow> (Inr None, p)
      | Some b \<Rightarrow>
          (let p1 = snd (closeBrowser ev browserId now p)
           in case createBrowser cfg ev (Some browserId) uuid now p1 of
                (Inl e, p2) \<Rightarrow> (Inl e, p2)
              | (Inr newBrowser, p2) \<Rightarrow> (Inr (Some newBrowser), p2)))"

text \<open>
  The health loop, \<open>monitorMemoryUsage\<close>. Its first test reads \<open>.length\<close> off what
  \<open>browser.pages()\<close> returns without awaiting it: a number when that is the array,
  \<open>undefined\<close> (\<open>None\<close>) when it is a promise.
\<close>

definition pagesLengthUnawaited :: "env \<Rightarrow> browser \<Rightarrow> nat option" where
  "pagesLengthUnawaited ev b = (if pages_is_promise ev then None else Some (livePages b))"

datatype monitor_action = Skip | Keep | CloseIdle | Restart

definition monitorAction :: "browser_config \<Rightarrow> env \<Rightarrow> int \<Rightarrow> browser \<Rightarrow> monitor_action" where
  "monitorAction cfg ev now b =
     (if \<not> hasProcess b then Skip
      else if pagesLengthUnawaited ev b = Some 0 then CloseIdle
      else if pagesCreated b \<ge> restartBrowserAfterPages cfg then Restart
      else if now - createdAt b \<ge> restartBrowserAfterTime cfg then Restart
      else Keep)"

text \<open>
  One turn of the loop body for the entry \<open>(browserId, b)\<close>; an error thrown by
  \<open>restartBrowser\<close> is caught and logged, which the model records in the returned list.
\<close>

definition monitorBrowser ::
  "browser_config \<Rightarrow> env \<Rightarrow> id \<Rightarrow> int \<Rightarrow> id \<Rightarrow> browser \<Rightarrow> pool \<Rightarrow> error list \<times> pool" where
  "monitorBrowser cfg ev uuid now browserId b p =
     (case monitorAction cfg ev now b of
        Skip \<Rightarrow> ([], p)
      | Keep \<Rightarrow> ([], p)
      | CloseIdle \<Rightarrow> ([], snd (closeBrowser ev browserId now p))
      | Restart \<Rightarrow>
          (case restartBrowser cfg ev browserId uuid now p of
             (Inl e, p') \<Rightarrow> ([e], p')
           | (Inr _, p') \<Rightarrow> ([], p')))"

text \<open>
  The loop itself iterates \<open>this.browsers.entries()\<close> while its body deletes the entry
  being visited (and, on a restart, appends a new one under the same key): the iterator
  then finds the next entry at the same position, and reaches the appended entry later
  in the same tick. The loop need not end (a restart threshold of zero restarts every
  replacement again), so it is a partial function: \<open>None\<close> is a tick that never returns.
\<close>

partial_function (option) monitorLoop ::
  "browser_config \<Rightarrow> env \<Rightarrow> id \<Rightarrow> int \<Rightarrow> nat \<Rightarrow> error list \<times> pool
     \<Rightarrow> (error list \<times> pool) option" where
  "monitorLoop cfg ev uuid now i st =
     (if i \<ge> length (browsers (snd st)) then Some st
      else
        (let (browserId, b) = browsers (snd st) ! i;
             (errs, p') = monitorBrowser cfg ev uuid now browserId b (snd st);
             i' = (case monitorAction cfg ev now b of
                     Skip \<Rightarrow> i + 1 | Keep \<Rightarrow> i + 1 | CloseIdle \<Rightarrow> i | Restart \<Rightarrow> i)
         in monitorLoop cfg ev uuid now i' (fst st @ errs, p')))"

definition monitorMemoryUsage ::
  "browser_config \<Rightarrow> env \<Rightarrow> id \<Rightarrow> int \<Rightarrow> pool \<Rightarrow> (error list \<times> pool) option" where
  "monitorMemoryUsage cfg ev uuid now p = monitorLoop cfg ev uuid now 0 ([], p)"

subsection \<open>Session manager (core/session-manager)\<close>

record session =
  s_createdAt :: int
  s_lastActivityAt :: int
  s_browserId :: "id option"
  s_pageId :: "id option"
  s_webrtcId :: "id option"
  s_status :: string
  s_frameCount :: nat
  s_bytesSent :: nat
  s_bytesReceived :: nat

datatype session_event =
    SessionCreated id
  | SessionUpdated id
  | SessionClosed id string

text \<open>
  \<open>sessionTimeouts\<close> maps a session to its pending timer, kept as the instant at which
  the timer fires. \<open>sm_hasBrowserPool\<close> says whether \<open>this.browserPool\<close> is set; the
  pool itself is shared with the streaming engine, so the one method that uses it,
  \<open>closeSession\<close>, takes the pool and returns it.
\<close>

record session_manager =
  sessions :: "(id \<times> session) list"
  sessionTimeouts :: "(id \<times> rat) list"
  sm_hasBrowserPool :: bool
  sm_events :: "session_event list"

definition new_session_manager :: "bool \<Rightarrow> session_manager" where
  "new_session_manager hasPool =
     \<lparr> sessions = [], sessionTimeouts = [], sm_hasBrowserPool = hasPool, sm_events = [] \<rparr>"

definition emit_sm :: "session_event \<Rightarrow> session_manager \<Rightarrow> session_manager" where
  "emit_sm e sm = sm\<lparr> sm_events := sm_events sm @ [e] \<rparr>"

definition clearSessionTimeout :: "id \<Rightarrow> session_manager \<Rightarrow> session_manager" where
  "clearSessionTimeout sessionId sm =
     (case map_of (sessionTimeouts sm) sessionId of
        None \<Rightarrow> sm
      | Some _ \<Rightarrow> sm\<lparr> sessionTimeouts := AList.delete sessionId (sessionTimeouts sm) \<rparr>)"

definition resetSessionTimeout ::
  "session_config \<Rightarrow> id \<Rightarrow> int \<Rightarrow> session_manager \<Rightarrow> session_manager" where
  "resetSessionTimeout cfg sessionId now sm =
     (let sm1 = clearSessionTimeout sessionId sm
      in sm1\<lparr> sessionTimeouts :=
               AList.update sessionId (of_int now + sessionTimeoutMs cfg)
                 (sessionTimeouts sm1) \<rparr>)"

definition getSession ::
  "session_config \<Rightarrow> id \<Rightarrow> int \<Rightarrow> session_manager \<Rightarrow> session option \<times> session_manager" where
  "getSession cfg sessionId now sm =
     (case map_of (sessions sm) sessionId of
        None \<Rightarrow> (None, sm)
      | Some s \<Rightarrow>
          (let s' = s\<lparr> s_lastActivityAt := now \<rparr>;
               sm1 = sm\<lparr> sessions := AList.update sessionId s' (sessions sm) \<rparr>
           in (Some s', resetSessionTimeout cfg sessionId now sm1)))"

text \<open>
  \<open>createSession\<close>: cap first, then the id, then a session already stored under the id
  is handed back untouched. The caller's free-form options are not kept.
\<close>

definition createSession ::
  "session_config \<Rightarrow> id option \<Rightarrow> id \<Rightarrow> int \<Rightarrow> session_manager
     \<Rightarrow> (error + id \<times> session) \<times> session_manager" where
  "createSession cfg optSessionId uuid now sm =
     (if length (sessions sm) \<ge> maxConcurrentSessions cfg then (Inl ResourceLimitError, sm)
      else
        (let sessionId = or_uuid optSessionId uuid
         in case map_of (sessions sm) sessionId of
              Some s \<Rightarrow> (Inr (sessionId, s), sm)
            | None \<Rightarrow>
                (let s = \<lparr> s_createdAt = now, s_lastActivityAt = now, s_browserId = None,
                           s_pageId = None, s_webrtcId = None, s_status = ''created'',
                           s_frameCount = 0, s_bytesSent = 0, s_bytesReceived = 0 \<rparr>;
                     sm1 = sm\<lparr> sessions := AList.update sessionId s (sessions sm) \<rparr>;
                     sm2 = resetSessionTimeout cfg sessionId now sm1
                 in (Inr (sessionId, s), emit_sm (SessionCreated sessionId) sm2))))"

text \<open>\<open>updateSession\<close> and \<open>updateSessionStats\<close>: \<open>Object.assign\<close> is the function \<open>upd\<close>.\<close>

definition updateSession ::
  "session_config \<Rightarrow> id \<Rightarrow> (session \<Rightarrow> session) \<Rightarrow> int \<Rightarrow> session_manager
     \<Rightarrow> (error + session) \<times> session_manager" where
  "updateSession cfg sessionId upd now sm =
     (case getSession cfg sessionId now sm of
        (None, sm1) \<Rightarrow> (Inl NotFoundError, sm1)
      | (Some s, sm1) \<Rightarrow>
          (let s' = (upd s)\<lparr> s_lastActivityAt := now \<rparr>;
               sm2 = sm1\<lparr> sessions := AList.update sessionId s' (sessions sm1) \<rparr>;
               sm3 = resetSessionTimeout cfg sessionId now sm2
           in (Inr s', emit_sm (SessionUpdated sessionId) sm3)))"

definition updateSessionStats ::
  "session_config \<Rightarrow> id \<Rightarrow> (session \<Rightarrow> session) \<Rightarrow> int \<Rightarrow> session_manager
     \<Rightarrow> (error + session) \<times> session_manager" where
  "updateSessionStats cfg sessionId upd now sm =
     (case getSession cfg sessionId now sm of
        (None, sm1) \<Rightarrow> (Inl NotFoundError, sm1)
      | (Some s, sm1) \<Rightarrow>
          (let s' = (upd s)\<lparr> s_lastActivityAt := now \<rparr>;
               sm2 = sm1\<lparr> sessions := AList.update sessionId s' (sessions sm1) \<rparr>
           in (Inr s', resetSessionTimeout cfg sessionId now sm2)))"

text \<open>\<open>session.pageId && this.browserPool\<close>: an absent or empty page id is falsy.\<close>

definition truthy_id :: "id option \<Rightarrow> bool" where
  "truthy_id opt = (case opt of None \<Rightarrow> False | Some s \<Rightarrow> s \<noteq> [])"

text \<open>
  \<open>closeSession\<close>. \<open>closePage\<close> catches whatever it meets, so the outer \<open>catch\<close> of
  \<open>closeSession\<close> has nothing to catch and is not a branch of the model.
\<close>

definition closeSession ::
  "env \<Rightarrow> id \<Rightarrow> string \<Rightarrow> int \<Rightarrow> session_manager \<times> pool
     \<Rightarrow> bool \<times> session_manager \<times> pool" where
  "closeSession ev sessionId reason now st =
     (case st of (sm, bp) \<Rightarrow>
        (case map_of (sessions sm) sessionId of
           None \<Rightarrow> (False, sm, bp)
         | Some s \<Rightarrow>
             (let sm1 = sm\<lparr> sessions :=
                           AList.update sessionId (s\<lparr> s_status := ''closing'' \<rparr>)
                             (sessions sm) \<rparr>;
                  sm2 = clearSessionTimeout sessionId sm1;
                  bp1 = (if truthy_id (s_pageId s) \<and> sm_hasBrowserPool sm2
                         then snd (closePage ev (the (s_pageId s)) now bp) else bp);
                  sm3 = sm2\<lparr> sessions := AList.delete sessionId (sessions sm2) \<rparr>
              in (True, emit_sm (SessionClosed sessionId reason) sm3, bp1))))"





text \<open>The callback of the inactivity timer armed by \<open>resetSessionTimeout\<close>.\<close>

definition sessionTimedOut ::
  "env \<Rightarrow> id \<Rightarrow> int \<Rightarrow> session_manager \<times> pool \<Rightarrow> session_manager \<times> pool" where
  "sessionTimedOut ev sessionId now st = snd (closeSession ev sessionId ''timeout'' now st)"

subsection \<open>Encoder backend (services/cuda-encoder)\<close>

record encoder =
  e_strategy :: string
  e_frameRate :: rat
  e_bitrate :: rat
  e_process :: bool
  e_active :: bool
  e_framesEncoded :: nat
  e_bytesEncoded :: nat
  e_encodingTime :: int
  e_startTime :: "int option"
  e_lastFrameTime :: "int option"

datatype encoder_event =
    EncoderStarted id
  | EncoderError id
  | EncoderClosed id "int option"
  | EncoderStopped id
  | EncodedFrame id

record cuda_encoder =
  encoders :: "(id \<times> encoder) list"
  encodingStrategies :: "string list"
  currentStrategy :: string
  enc_events :: "encoder_event list"

text \<open>\<open>STREAMING_CONFIG.encodingStrategies\<close>, the fallback chain in its fixed order.\<close>

definition ENCODING_STRATEGIES :: "string list" where
  "ENCODING_STRATEGIES = [''cuda_h264'', ''cuda_hevc'', ''cpu_h264'', ''cpu_hevc'', ''mjpeg'']"

definition new_cuda_encoder :: cuda_encoder where
  "new_cuda_encoder =
     \<lparr> encoders = [], encodingStrategies = ENCODING_STRATEGIES,
       currentStrategy = ''cuda_h264'', enc_events = [] \<rparr>"

definition emit_enc :: "encoder_event \<Rightarrow> cuda_encoder \<Rightarrow> cuda_encoder" where
  "emit_enc e ce = ce\<lparr> enc_events := enc_events ce @ [e] \<rparr>"

text \<open>\<open>x || d\<close> on numbers and strings: zero and the empty string are falsy.\<close>

definition or_num :: "rat option \<Rightarrow> rat \<Rightarrow> rat" where
  "or_num opt d = (case opt of None \<Rightarrow> d | Some x \<Rightarrow> if x = 0 then d else x)"

definition or_str :: "string option \<Rightarrow> string \<Rightarrow> string" where
  "or_str opt d = (case opt of None \<Rightarrow> d | Some x \<Rightarrow> if x = [] then d else x)"

record encoder_options =
  eo_frameRate :: "rat option"
  eo_bitrate :: "rat option"
  eo_strategy :: "string option"

definition createEncoder ::
  "id \<Rightarrow> encoder_options \<Rightarrow> cuda_encoder \<Rightarrow> encoder \<times> cuda_encoder" where
  "createEncoder encoderId options ce =
     (case map_of (encoders ce) encoderId of
        Some e \<Rightarrow> (e, ce)
      | None \<Rightarrow>
          (let e = \<lparr> e_strategy = or_str (eo_strategy options) (currentStrategy ce),
                     e_frameRate = or_num (eo_frameRate options) 30,
                     e_bitrate = or_num (eo_bitrate options) 3000,
                     e_process = False, e_active = False,
                     e_framesEncoded = 0, e_bytesEncoded = 0, e_encodingTime = 0,
                     e_startTime = None, e_lastFrameTime = None \<rparr>
           in (e, ce\<lparr> encoders := AList.update encoderId e (encoders ce) \<rparr>)))"

definition set_encoder :: "id \<Rightarrow> (encoder \<Rightarrow> encoder) \<Rightarrow> cuda_encoder \<Rightarrow> cuda_encoder" where
  "set_encoder encoderId f ce = ce\<lparr> encoders := AList.map_entry encoderId f (encoders ce) \<rparr>"

text \<open>
  \<open>startEncoder\<close>; \<open>spawn_ok\<close> says whether preparing the directory and spawning the
  worker go through (otherwise the \<open>catch\<close> branch clears the active flag).
\<close>

definition startEncoder :: "bool \<Rightarrow> id \<Rightarrow> int \<Rightarrow> cuda_encoder \<Rightarrow> bool \<times> cuda_encoder" where
  "startEncoder spawn_ok encoderId now ce =
     (case map_of (encoders ce) encoderId of
        None \<Rightarrow> (False, ce)
      | Some e \<Rightarrow>
          if e_active e then (True, ce)
          else if \<not> spawn_ok then
            (False, set_encoder encoderId (\<lambda>e. e\<lparr> e_active := False \<rparr>) ce)
          else
            (True,
             emit_enc (EncoderStarted encoderId)
               (set_encoder encoderId
                  (\<lambda>e. e\<lparr> e_process := True, e_active := True, e_startTime := Some now \<rparr>)
                  ce)))"

text \<open>\<open>Array.prototype.indexOf\<close>: the first position of the element, \<open>None\<close> for \<open>-1\<close>.\<close>

fun indexOf :: "'a list \<Rightarrow> 'a \<Rightarrow> nat option" where
  "indexOf [] x = None"
| "indexOf (y # ys) x = (if y = x then Some 0 else map_option Suc (indexOf ys x))"

definition tryFallbackStrategy ::
  "bool \<Rightarrow> id \<Rightarrow> int \<Rightarrow> cuda_encoder \<Rightarrow> bool \<times> cuda_encoder" where
  "tryFallbackStrategy spawn_ok encoderId now ce =
     (case map_of (encoders ce) encoderId of
        None \<Rightarrow> (False, ce)
      | Some e \<Rightarrow>
          (case indexOf (encodingStrategies ce) (e_strategy e) of
             None \<Rightarrow> (False, ce)
           | Some currentIndex \<Rightarrow>
               if currentIndex = length (encodingStrategies ce) - 1 then (False, ce)
               else
                 (let nextStrategy = encodingStrategies ce ! (currentIndex + 1)
                  in startEncoder spawn_ok encoderId now
                       (set_encoder encoderId (\<lambda>e. e\<lparr> e_strategy := nextStrategy \<rparr>) ce))))"

text \<open>
  The handlers of the worker's \<open>error\<close> and \<open>close\<close> events. They start the fallback
  without waiting for it; the model runs it to its end within the same step.
\<close>

definition handleEncoderError :: "bool \<Rightarrow> id \<Rightarrow> int \<Rightarrow> cuda_encoder \<Rightarrow> cuda_encoder" where
  "handleEncoderError spawn_ok encoderId now ce =
     (case map_of (encoders ce) encoderId of
        None \<Rightarrow> ce
      | Some e \<Rightarrow>
          snd (tryFallbackStrategy spawn_ok encoderId now
                 (emit_enc (EncoderError encoderId)
                    (set_encoder encoderId (\<lambda>e. e\<lparr> e_active := False \<rparr>) ce))))"

definition handleEncoderClosed ::
  "bool \<Rightarrow> id \<Rightarrow> int option \<Rightarrow> int \<Rightarrow> cuda_encoder \<Rightarrow> cuda_encoder" where
  "handleEncoderClosed spawn_ok encoderId code now ce =
     (case map_of (encoders ce) encoderId of
        None \<Rightarrow> ce
      | Some e \<Rightarrow>
          (let ce1 = emit_enc (EncoderClosed encoderId code)
                       (set_encoder encoderId (\<lambda>e. e\<lparr> e_active := False \<rparr>) ce)
           in if code \<noteq> Some 0 then snd (tryFallbackStrategy spawn_ok encoderId now ce1)
              else ce1))"

text \<open>
  \<open>encodeFrame\<close>: an inactive or missing encoder, or one without a live worker, refuses
  the frame; a failing write lands in the \<open>catch\<close> branch. \<open>t0\<close> and \<open>t1\<close> are the
  clock before and after the write.
\<close>

definition encodeFrame ::
  "bool \<Rightarrow> id \<Rightarrow> nat \<Rightarrow> int \<Rightarrow> int \<Rightarrow> cuda_encoder \<Rightarrow> bool \<times> cuda_encoder" where
  "encodeFrame write_ok encoderId frameLength t0 t1 ce =
     (case map_of (encoders ce) encoderId of
        None \<Rightarrow> (False, ce)
      | Some e \<Rightarrow>
          if \<not> e_active e \<or> \<not> e_process e \<or> \<not> write_ok then (False, ce)
          else
            (True,
             set_encoder encoderId
               (\<lambda>e. e\<lparr> e_framesEncoded := e_framesEncoded e + 1,
                        e_bytesEncoded := e_bytesEncoded e + frameLength,
                        e_encodingTime := e_encodingTime e + (t1 - t0),
                        e_lastFrameTime := Some t1 \<rparr>) ce))"

definition getEncoderStats :: "id \<Rightarrow> cuda_encoder \<Rightarrow> encoder option" where
  "getEncoderStats encoderId ce = map_of (encoders ce) encoderId"

subsection \<open>Transport (services/webrtc-service)\<close>

record connection =
  c_createdAt :: int
  c_lastActivityAt :: int
  c_bytesSent :: nat
  c_packetsLost :: rat
  c_roundTripTime :: rat
  c_jitter :: rat
  c_active :: bool

datatype rtc_event =
    ConnectionCreated id
  | ConnectionClosed id string

text \<open>\<open>wrtc\<close> is whether the native module loaded in the constructor.\<close>

record webrtc_service =
  wrtc :: bool
  connections :: "(id \<times> connection) list"
  rtc_events :: "rtc_event list"

definition new_webrtc_service :: "bool \<Rightarrow> webrtc_service" where
  "new_webrtc_service loaded = \<lparr> wrtc = loaded, connections = [], rtc_events = [] \<rparr>"

definition emit_rtc :: "rtc_event \<Rightarrow> webrtc_service \<Rightarrow> webrtc_service" where
  "emit_rtc e w = w\<lparr> rtc_events := rtc_events w @ [e] \<rparr>"

text \<open>
  \<open>createConnection\<close>; \<open>peer_ok\<close> says whether the native constructors go through.
\<close>

definition createConnection ::
  "bool \<Rightarrow> id \<Rightarrow> int \<Rightarrow> webrtc_service \<Rightarrow> (error + connection) \<times> webrtc_service" where
  "createConnection peer_ok connectionId now w =
     (case map_of (connections w) connectionId of
        Some c \<Rightarrow> (Inr c, w)
      | None \<Rightarrow>
          if \<not> wrtc w then (Inl (Error ''wrtc module not available''), w)
          else if \<not> peer_ok then (Inl (Error ''peer connection failed''), w)
          else
            (let c = \<lparr> c_createdAt = now, c_lastActivityAt = now, c_bytesSent = 0,
                       c_packetsLost = 0, c_roundTripTime = 0, c_jitter = 0,
                       c_active = True \<rparr>
             in (Inr c,
                 emit_rtc (ConnectionCreated connectionId)
                   (w\<lparr> connections := AList.update connectionId c (connections w) \<rparr>))))"

definition getConnection ::
  "id \<Rightarrow> int \<Rightarrow> webrtc_service \<Rightarrow> connection option \<times> webrtc_service" where
  "getConnection connectionId now w =
     (case map_of (connections w) connectionId of
        None \<Rightarrow> (None, w)
      | Some c \<Rightarrow>
          (let c' = c\<lparr> c_lastActivityAt := now \<rparr>
           in (Some c', w\<lparr> connections := AList.update connectionId c' (connections w) \<rparr>)))"

definition sendVideoFrame ::
  "bool \<Rightarrow> id \<Rightarrow> nat \<Rightarrow> int \<Rightarrow> webrtc_service \<Rightarrow> bool \<times> webrtc_service" where
  "sendVideoFrame frame_ok connectionId frameLength now w =
     (case getConnection connectionId now w of
        (None, w1) \<Rightarrow> (False, w1)
      | (Some c, w1) \<Rightarrow>
          if \<not> c_active c then (False, w1)
          else if \<not> wrtc w1 then (False, w1)
          else if \<not> frame_ok then (False, w1)
          else
            (True,
             w1\<lparr> connections :=
                   AList.map_entry connectionId
                     (\<lambda>c. c\<lparr> c_bytesSent := c_bytesSent c + frameLength \<rparr>)
                     (connections w1) \<rparr>))"

text \<open>
  \<open>getConnectionStats\<close>: a copy of the stored figures; \<open>live\<close> is what the peer
  connection's own report overrides them with (the identity when it reports nothing
  or fails).
\<close>

definition getConnectionStats ::
  "(connection \<Rightarrow> connection) \<Rightarrow> id \<Rightarrow> int \<Rightarrow> webrtc_service
     \<Rightarrow> connection option \<times> webrtc_service" where
  "getConnectionStats live connectionId now w =
     (case getConnection connectionId now w of
        (None, w1) \<Rightarrow> (None, w1)
      | (Some c, w1) \<Rightarrow> (Some (live c), w1))"

text \<open>\<open>closeConnection\<close>; \<open>stop_ok\<close> says whether stopping the track and closing the peer go through.\<close>

definition closeConnection :: "bool \<Rightarrow> id \<Rightarrow> webrtc_service \<Rightarrow> bool \<times> webrtc_service" where
  "closeConnection stop_ok connectionId w =
     (case map_of (connections w) connectionId of
        None \<Rightarrow> (False, w)
      | Some c \<Rightarrow>
          (let w1 = w\<lparr> connections := AList.delete connectionId (connections w) \<rparr>
           in if stop_ok then (True, emit_rtc (ConnectionClosed connectionId ''closed'') w1)
              else (False, emit_rtc (ConnectionClosed connectionId ''error'') w1)))"

subsection \<open>Streaming engine (core/streaming-engine, the adaptive variant)\<close>

record streaming_config =
  defaultFrameRate :: rat
  minFrameRate :: rat
  defaultBitrate :: rat
  minBitrate :: rat
  adaptiveQualityAdjustmentInterval :: int
  defaultEncodingStrategy :: string

definition STREAMING_CONFIG :: streaming_config where
  "STREAMING_CONFIG =
     \<lparr> defaultFrameRate = 30, minFrameRate = 15, defaultBitrate = 3000, minBitrate = 500,
       adaptiveQualityAdjustmentInterval = 5000, defaultEncodingStrategy = ''cuda_h264'' \<rparr>"

text \<open>
  Which of the two methods the engine calls on its encoder the encoder object has.
  \<open>CUDAEncoder\<close> (services/cuda-encoder), the encoder the application hands to this
  engine, defines neither; \<open>BasicEncoder\<close> (services/basic-encoder) defines both.
\<close>

record encoder_api =
  has_updateEncoderOptions :: bool
  has_destroyEncoder :: bool

definition CUDAEncoder_api :: encoder_api where
  "CUDAEncoder_api = \<lparr> has_updateEncoderOptions = False, has_destroyEncoder = False \<rparr>"

definition BasicEncoder_api :: encoder_api where
  "BasicEncoder_api = \<lparr> has_updateEncoderOptions = True, has_destroyEncoder = True \<rparr>"

text \<open>
  Calling a method the object does not have throws a \<open>TypeError\<close>; where present, the
  methods do what \<open>BasicEncoder\<close>'s do: assign the options; stop and delete.
\<close>

definition updateEncoderOptions ::
  "encoder_api \<Rightarrow> id \<Rightarrow> rat \<Rightarrow> rat \<Rightarrow> cuda_encoder \<Rightarrow> (error + unit) \<times> cuda_encoder" where
  "updateEncoderOptions api encoderId bitrate frameRate ce =
     (if \<not> has_updateEncoderOptions api then (Inl TypeError, ce)
      else (Inr (), set_encoder encoderId
                      (\<lambda>e. e\<lparr> e_bitrate := bitrate, e_frameRate := frameRate \<rparr>) ce))"

definition destroyEncoder ::
  "encoder_api \<Rightarrow> id \<Rightarrow> cuda_encoder \<Rightarrow> (error + bool) \<times> cuda_encoder" where
  "destroyEncoder api encoderId ce =
     (if \<not> has_destroyEncoder api then (Inl TypeError, ce)
      else
        (let ce1 = (case map_of (encoders ce) encoderId of
                      None \<Rightarrow> ce
                    | Some e \<Rightarrow>
                        emit_enc (EncoderStopped encoderId)
                          (set_encoder encoderId (\<lambda>e. e\<lparr> e_active := False \<rparr>) ce))
         in (Inr True, ce1\<lparr> encoders := AList.delete encoderId (encoders ce1) \<rparr>)))"

type_synonym frame = string

record stream_request =
  sr_pageId :: "id option"
  sr_webrtcId :: "id option"
  sr_frameRate :: "rat option"
  sr_bitrate :: "rat option"
  sr_encodingStrategy :: "string option"
  sr_adaptiveQuality :: "bool option"

record stream_options =
  so_frameRate :: rat
  so_bitrate :: rat
  so_encodingStrategy :: string
  so_adaptiveQuality :: bool

record stream =
  st_pageId :: id
  st_webrtcId :: id
  st_options :: stream_options
  st_createdAt :: int
  st_lastFrameAt :: int
  st_frameCount :: nat
  st_keyFrameCount :: nat
  st_droppedFrameCount :: nat
  st_totalBytes :: nat
  st_active :: bool

record frame_processor =
  fp_lastFrameTimestamp :: int
  fp_frameInterval :: rat
  fp_frameQueue :: "frame list"
  fp_processing :: bool
  fp_dropped :: nat
  fp_processed :: nat

record quality =
  q_frameRate :: rat
  q_bitrate :: rat

text \<open>
  The controller keeps the stream options it was created with (their bit rate and
  frame rate are the ceilings), the rolling samples, and the current and target
  quality. Width, height and screencast quality are copied along but never adjusted,
  and the sampled \<open>avgBitrate\<close> is never read; they are left out.
\<close>

record controller =
  aq_options :: stream_options
  aq_enabled :: bool
  aq_lastAdjustmentTime :: int
  aq_adjustmentInterval :: int
  aq_rtt :: "rat list"
  aq_jitter :: "rat list"
  aq_packetLoss :: "rat list"
  aq_encodingTimes :: "rat list"
  aq_currentQuality :: quality
  aq_targetQuality :: quality

record metrics =
  pm_frameEncodeTime :: "int list"
  pm_timestamp :: int

datatype engine_event =
    StreamCreated id
  | StreamClosed id string
  | QualityChanged id quality
  | FrameSent id

text \<open>
  The engine's own maps, the components it was constructed with, and two pieces of
  the run time that the code leaves implicit: \<open>encoding\<close>, the \<open>processFrame\<close> calls
  that hold the processing flag and are waiting on their awaits, and \<open>immediates\<close>,
  the callbacks handed to \<open>setImmediate\<close> that have not run yet.
\<close>

record engine =
  streams :: "(id \<times> stream) list"
  frameProcessors :: "(id \<times> frame_processor) list"
  adaptiveQualityControllers :: "(id \<times> controller) list"
  performanceMetrics :: "(id \<times> metrics) list"
  eng_pool :: pool
  eng_sessions :: session_manager
  eng_webrtc :: webrtc_service
  eng_encoder :: cuda_encoder
  encoding :: "(id \<times> frame) list"
  immediates :: "(id \<times> frame) list"
  eng_events :: "engine_event list"

definition new_engine ::
  "pool \<Rightarrow> session_manager \<Rightarrow> webrtc_service \<Rightarrow> cuda_encoder \<Rightarrow> engine" where
  "new_engine bp sm w ce =
     \<lparr> streams = [], frameProcessors = [], adaptiveQualityControllers = [],
       performanceMetrics = [], eng_pool = bp, eng_sessions = sm, eng_webrtc = w,
       eng_encoder = ce, encoding = [], immediates = [], eng_events = [] \<rparr>"

definition emit_eng :: "engine_event \<Rightarrow> engine \<Rightarrow> engine" where
  "emit_eng e eng = eng\<lparr> eng_events := eng_events eng @ [e] \<rparr>"

definition set_stream :: "id \<Rightarrow> (stream \<Rightarrow> stream) \<Rightarrow> engine \<Rightarrow> engine" where
  "set_stream sessionId f eng = eng\<lparr> streams := AList.map_entry sessionId f (streams eng) \<rparr>"

definition set_frameProcessor ::
  "id \<Rightarrow> (frame_processor \<Rightarrow> frame_processor) \<Rightarrow> engine \<Rightarrow> engine" where
  "set_frameProcessor sessionId f eng =
     eng\<lparr> frameProcessors := AList.map_entry sessionId f (frameProcessors eng) \<rparr>"

definition set_controller :: "id \<Rightarrow> (controller \<Rightarrow> controller) \<Rightarrow> engine \<Rightarrow> engine" where
  "set_controller sessionId f eng =
     eng\<lparr> adaptiveQualityControllers :=
            AList.map_entry sessionId f (adaptiveQualityControllers eng) \<rparr>"

definition createFrameProcessor ::
  "streaming_config \<Rightarrow> id \<Rightarrow> stream_options \<Rightarrow> int \<Rightarrow> engine \<Rightarrow> engine" where
  "createFrameProcessor scfg sessionId options now eng =
     (let frameProcessor =
            \<lparr> fp_lastFrameTimestamp = now,
              fp_frameInterval =
                1000 / or_num (Some (so_frameRate options)) (defaultFrameRate scfg),
              fp_frameQueue = [], fp_processing = False, fp_dropped = 0, fp_processed = 0 \<rparr>
      in eng\<lparr> frameProcessors :=
                AList.update sessionId frameProcessor (frameProcessors eng) \<rparr>)"

definition createAdaptiveQualityController ::
  "streaming_config \<Rightarrow> id \<Rightarrow> stream_options \<Rightarrow> int \<Rightarrow> engine \<Rightarrow> engine" where
  "createAdaptiveQualityController scfg sessionId options now eng =
     (let q = \<lparr> q_frameRate = or_num (Some (so_frameRate options)) (defaultFrameRate scfg),
                q_bitrate = or_num (Some (so_bitrate options)) (defaultBitrate scfg) \<rparr>;
          c = \<lparr> aq_options = options, aq_enabled = so_adaptiveQuality options,
                aq_lastAdjustmentTime = now,
                aq_adjustmentInterval = adaptiveQualityAdjustmentInterval scfg,
                aq_rtt = [], aq_jitter = [], aq_packetLoss = [], aq_encodingTimes = [],
                aq_currentQuality = q, aq_targetQuality = q \<rparr>
      in eng\<lparr> adaptiveQualityControllers :=
                AList.update sessionId c (adaptiveQualityControllers eng) \<rparr>)"

definition initializePerformanceMetrics :: "id \<Rightarrow> int \<Rightarrow> engine \<Rightarrow> engine" where
  "initializePerformanceMetrics sessionId now eng =
     eng\<lparr> performanceMetrics :=
            AList.update sessionId \<lparr> pm_frameEncodeTime = [], pm_timestamp = now \<rparr>
              (performanceMetrics eng) \<rparr>"

text \<open>\<open>updatePerformanceMetrics\<close> with a frame encode time: a window of the last 100.\<close>

definition updatePerformanceMetrics :: "id \<Rightarrow> int \<Rightarrow> int \<Rightarrow> engine \<Rightarrow> engine" where
  "updatePerformanceMetrics sessionId frameEncodeTime now eng =
     eng\<lparr> performanceMetrics :=
            AList.map_entry sessionId
              (\<lambda>m. (let ts = pm_frameEncodeTime m @ [frameEncodeTime]
                     in m\<lparr> pm_frameEncodeTime := (if length ts > 100 then tl ts else ts),
                           pm_timestamp := now \<rparr>))
              (performanceMetrics eng) \<rparr>"

subsubsection \<open>Adaptive quality\<close>

datatype condition = good | fair | poor

definition average :: "rat list \<Rightarrow> rat" where
  "average xs = sum_list xs / of_nat (length xs)"

definition networkCondition :: "rat \<Rightarrow> rat \<Rightarrow> rat \<Rightarrow> condition" where
  "networkCondition avgRtt avgJitter avgPacketLoss =
     (if avgRtt > 300 \<or> avgJitter > 50 \<or> avgPacketLoss > 5 then poor
      else if avgRtt > 150 \<or> avgJitter > 25 \<or> avgPacketLoss > 2 then fair
      else good)"

definition encodingCondition :: "rat \<Rightarrow> condition" where
  "encodingCondition avgEncodingTime =
     (if avgEncodingTime > 50 then poor
      else if avgEncodingTime > 25 then fair
      else good)"

text \<open>The rolling windows: push the new samples, then drop the oldest beyond ten.\<close>

definition sampleStats :: "connection \<Rightarrow> encoder \<Rightarrow> controller \<Rightarrow> controller" where
  "sampleStats webrtcStats encoderStats c =
     (let rtt = aq_rtt c @ [c_roundTripTime webrtcStats];
          jitter = aq_jitter c @ [c_jitter webrtcStats];
          packetLoss = aq_packetLoss c @ [c_packetsLost webrtcStats];
          c1 = (if length rtt > 10
                then c\<lparr> aq_rtt := tl rtt, aq_jitter := tl jitter, aq_packetLoss := tl packetLoss \<rparr>
                else c\<lparr> aq_rtt := rtt, aq_jitter := jitter, aq_packetLoss := packetLoss \<rparr>);
          encodingTimes = aq_encodingTimes c1 @ [of_int (e_encodingTime encoderStats)]
      in c1\<lparr> aq_encodingTimes :=
              (if length encodingTimes > 10 then tl encodingTimes else encodingTimes) \<rparr>)"

definition set_targetBitrate :: "rat \<Rightarrow> controller \<Rightarrow> controller" where
  "set_targetBitrate x c = c\<lparr> aq_targetQuality := (aq_targetQuality c)\<lparr> q_bitrate := x \<rparr> \<rparr>"

definition set_targetFrameRate :: "rat \<Rightarrow> controller \<Rightarrow> controller" where
  "set_targetFrameRate x c = c\<lparr> aq_targetQuality := (aq_targetQuality c)\<lparr> q_frameRate := x \<rparr> \<rparr>"

text \<open>
  The adjustment: which targets are rewritten from the current quality, and whether
  anything was (\<open>qualityChanged\<close>). The factors 0.8, 0.9 and 1.1 are exact here.
\<close>

definition adjustQuality ::
  "streaming_config \<Rightarrow> condition \<Rightarrow> condition \<Rightarrow> controller \<Rightarrow> controller \<times> bool" where
  "adjustQuality scfg net enc c =
     (let cur = aq_currentQuality c
      in if net = poor \<or> enc = poor then
           (let (c1, ch1) =
                  (if q_bitrate cur > minBitrate scfg
                   then (set_targetBitrate
                           (max (q_bitrate cur * (8 / 10)) (minBitrate scfg)) c, True)
                   else (c, False))
            in if q_frameRate cur > minFrameRate scfg
               then (set_targetFrameRate
                       (max (q_frameRate cur * (8 / 10)) (minFrameRate scfg)) c1, True)
               else (c1, ch1))
         else if net = fair \<or> enc = fair then
           (if q_bitrate cur > minBitrate scfg
            then (set_targetBitrate
                    (max (q_bitrate cur * (9 / 10)) (minBitrate scfg)) c, True)
            else (c, False))
         else if net = good \<and> enc = good then
           (let (c1, ch1) =
                  (if q_bitrate cur < so_bitrate (aq_options c)
                   then (set_targetBitrate
                           (min (q_bitrate cur * (11 / 10)) (so_bitrate (aq_options c))) c,
                         True)
                   else (c, False))
            in if q_frameRate cur < so_frameRate (aq_options c)
               then (set_targetFrameRate
                       (min (q_frameRate cur * (11 / 10)) (so_frameRate (aq_options c))) c1,
                     True)
               else (c1, ch1))
         else (c, False))"

text \<open>\<open>Math.round\<close>: to the nearest integer, halves upwards.\<close>

definition math_round :: "rat \<Rightarrow> rat" where
  "math_round x = of_int \<lfloor>x + 1 / 2\<rfloor>"

text \<open>
  What a tick that has its samples does with them: classify, adjust the targets, and,
  when something changed, push the rounded targets to the encoder and only then make
  the targets the current quality. When the push throws, the method's \<open>catch\<close> returns
  \<open>false\<close> with the targets rewritten and the current quality as it was.
\<close>

definition decideAndApply ::
  "encoder_api \<Rightarrow> streaming_config \<Rightarrow> id \<Rightarrow> controller \<Rightarrow> cuda_encoder
     \<Rightarrow> bool \<times> controller \<times> cuda_encoder \<times> engine_event list" where
  "decideAndApply api scfg sessionId c ce =
     (let net = networkCondition (average (aq_rtt c)) (average (aq_jitter c))
                  (average (aq_packetLoss c));
          enc = encodingCondition (average (aq_encodingTimes c));
          (c1, qualityChanged) = adjustQuality scfg net enc c
      in if qualityChanged then
           (case updateEncoderOptions api sessionId
                   (math_round (q_bitrate (aq_targetQuality c1)))
                   (math_round (q_frameRate (aq_targetQuality c1))) ce of
              (Inl e, ce1) \<Rightarrow> (False, c1, ce1, [])
            | (Inr _, ce1) \<Rightarrow>
                (let c2 = c1\<lparr> aq_currentQuality := aq_targetQuality c1 \<rparr>
                 in (True, c2, ce1, [QualityChanged sessionId (aq_currentQuality c2)])))
         else (True, c1, ce, []))"

text \<open>
  \<open>applyAdaptiveQuality\<close>. \<open>live\<close> is what the peer connection's report adds to the
  stored transport figures.
\<close>

definition applyAdaptiveQuality ::
  "encoder_api \<Rightarrow> streaming_config \<Rightarrow> (connection \<Rightarrow> connection) \<Rightarrow> id \<Rightarrow> int \<Rightarrow> engine
     \<Rightarrow> bool \<times> engine" where
  "applyAdaptiveQuality api scfg live sessionId now eng =
     (case map_of (adaptiveQualityControllers eng) sessionId of
        None \<Rightarrow> (False, eng)
      | Some c \<Rightarrow>
          if \<not> aq_enabled c then (False, eng)
          else if now - aq_lastAdjustmentTime c < aq_adjustmentInterval c then (False, eng)
          else
            (let c0 = c\<lparr> aq_lastAdjustmentTime := now \<rparr>;
                 eng0 = set_controller sessionId (\<lambda>_. c0) eng
             in case getConnectionStats live sessionId now (eng_webrtc eng0) of
                  (None, w1) \<Rightarrow> (False, eng0\<lparr> eng_webrtc := w1 \<rparr>)
                | (Some webrtcStats, w1) \<Rightarrow>
                    (let eng1 = eng0\<lparr> eng_webrtc := w1 \<rparr>
                     in case getEncoderStats sessionId (eng_encoder eng1) of
                          None \<Rightarrow> (False, eng1)
                        | Some encoderStats \<Rightarrow>
                            (case decideAndApply api scfg sessionId
                                    (sampleStats webrtcStats encoderStats c0)
                                    (eng_encoder eng1) of
                               (r, c', ce', evs) \<Rightarrow>
                                 (r, (set_controller sessionId (\<lambda>_. c') eng1)
                                       \<lparr> eng_encoder := ce',
                                         eng_events := eng_events eng1 @ evs \<rparr>)))))"

subsubsection \<open>Frame pipeline\<close>

text \<open>
  \<open>processFrame\<close>, up to its first \<open>await\<close>: a frame that finds the processing flag set
  is pushed onto the frame queue; otherwise the flag is set and the call goes on to
  its awaits, which the model records in \<open>encoding\<close>. The answer is \<open>Some r\<close> when
  the call has already returned \<open>r\<close>.
\<close>

definition processFrame :: "id \<Rightarrow> frame \<Rightarrow> engine \<Rightarrow> bool option \<times> engine" where
  "processFrame sessionId frameObject eng =
     (case map_of (frameProcessors eng) sessionId of
        None \<Rightarrow> (Some False, eng)
      | Some frameProcessor \<Rightarrow>
          if fp_processing frameProcessor then
            (Some True,
             set_frameProcessor sessionId
               (\<lambda>fp. fp\<lparr> fp_frameQueue := fp_frameQueue fp @ [frameObject] \<rparr>) eng)
          else
            (None,
             (set_frameProcessor sessionId (\<lambda>fp. fp\<lparr> fp_processing := True \<rparr>) eng)
               \<lparr> encoding := encoding eng @ [(sessionId, frameObject)] \<rparr>))"

text \<open>
  The rest of a \<open>processFrame\<close> call that is in flight for the session: the adaptive
  tick when the controller is enabled, the encode, the metrics, the processed counter,
  then the head of the frame queue (if any) is shifted off and handed to
  \<open>setImmediate\<close>, and the \<open>finally\<close> block clears the processing flag. \<open>tTick\<close>,
  \<open>t0\<close>, \<open>t1\<close> are the clock at the tick and around the encode.
\<close>

definition processFrameRest ::
  "encoder_api \<Rightarrow> streaming_config \<Rightarrow> (connection \<Rightarrow> connection) \<Rightarrow> bool \<Rightarrow> id
     \<Rightarrow> int \<Rightarrow> int \<Rightarrow> int \<Rightarrow> engine \<Rightarrow> engine" where
  "processFrameRest api scfg live write_ok sessionId tTick t0 t1 eng =
     (case map_of (encoding eng) sessionId of
        None \<Rightarrow> eng
      | Some frameObject \<Rightarrow>
          (let eng1 = (case map_of (adaptiveQualityControllers eng) sessionId of
                         None \<Rightarrow> eng
                       | Some c \<Rightarrow>
                           if aq_enabled c
                           then snd (applyAdaptiveQuality api scfg live sessionId tTick eng)
                           else eng);
               eng2 = eng1\<lparr> eng_encoder :=
                        snd (encodeFrame write_ok sessionId (length frameObject) t0 t1
                               (eng_encoder eng1)) \<rparr>;
               eng3 = updatePerformanceMetrics sessionId (t1 - t0) t1 eng2;
               eng4 = set_frameProcessor sessionId
                        (\<lambda>fp. fp\<lparr> fp_processed := fp_processed fp + 1 \<rparr>) eng3;
               eng5 = (case map_of (frameProcessors eng4) sessionId of
                         None \<Rightarrow> eng4
                       | Some fp \<Rightarrow>
                           (case fp_frameQueue fp of
                              [] \<Rightarrow> eng4
                            | nextFrame # rest \<Rightarrow>
                                (set_frameProcessor sessionId
                                   (\<lambda>fp. fp\<lparr> fp_frameQueue := rest \<rparr>) eng4)
                                  \<lparr> immediates := immediates eng4 @ [(sessionId, nextFrame)] \<rparr>))
           in (set_frameProcessor sessionId (\<lambda>fp. fp\<lparr> fp_processing := False \<rparr>) eng5)
                \<lparr> encoding := remove1 (sessionId, frameObject) (encoding eng5) \<rparr>))"

text \<open>The oldest pending \<open>setImmediate\<close> callback runs: \<open>processFrame\<close> on its frame.\<close>

definition runImmediate :: "engine \<Rightarrow> engine" where
  "runImmediate eng =
     (case immediates eng of
        [] \<Rightarrow> eng
      | (sessionId, nextFrame) # rest \<Rightarrow>
          snd (processFrame sessionId nextFrame (eng\<lparr> immediates := rest \<rparr>)))"

text \<open>
  \<open>handleScreencastFrame\<close>: \<open>tArrival\<close> and \<open>now\<close> are the two readings of the clock,
  the first stamped on the stream, the second compared with the last accepted frame.
\<close>

definition handleScreencastFrame :: "id \<Rightarrow> frame \<Rightarrow> int \<Rightarrow> int \<Rightarrow> engine \<Rightarrow> engine" where
  "handleScreencastFrame pageId frameObject tArrival now eng =
     (case find (\<lambda>(sid, st). st_pageId st = pageId) (streams eng) of
        None \<Rightarrow> eng
      | Some (sessionId, _) \<Rightarrow>
          if sessionId = [] then eng
          else
            (case map_of (streams eng) sessionId of
               None \<Rightarrow> eng
             | Some stream \<Rightarrow>
                 if \<not> st_active stream then eng
                 else
                   (let eng1 = set_stream sessionId
                                 (\<lambda>st. st\<lparr> st_lastFrameAt := tArrival,
                                           st_frameCount := st_frameCount st + 1 \<rparr>) eng
                    in case map_of (frameProcessors eng1) sessionId of
                         None \<Rightarrow> eng1
                       | Some frameProcessor \<Rightarrow>
                           (let timeSinceLastFrame = now - fp_lastFrameTimestamp frameProcessor
                            in if of_int timeSinceLastFrame < fp_frameInterval frameProcessor
                               then
                                 set_frameProcessor sessionId
                                   (\<lambda>fp. fp\<lparr> fp_dropped := fp_dropped fp + 1 \<rparr>)
                                   (set_stream sessionId
                                      (\<lambda>st. st\<lparr> st_droppedFrameCount :=
                                                  st_droppedFrameCount st + 1 \<rparr>) eng1)
                               else
                                 snd (processFrame sessionId frameObject
                                        (set_frameProcessor sessionId
                                           (\<lambda>fp. fp\<lparr> fp_lastFrameTimestamp := now \<rparr>)
                                           eng1))))))"

text \<open>
  What happens to the pipeline, one event at a time: a raw frame of a page arrives
  (with the two readings of the clock), the in-flight \<open>processFrame\<close> of a session
  gets through its awaits, or the oldest \<open>setImmediate\<close> callback runs.
\<close>

datatype pipeline_event =
    RawFrame id frame int int
  | EncodeDone id bool int int int
  | ImmediateRuns

definition pipelineStep ::
  "encoder_api \<Rightarrow> streaming_config \<Rightarrow> (connection \<Rightarrow> connection) \<Rightarrow> pipeline_event
     \<Rightarrow> engine \<Rightarrow> engine" where
  "pipelineStep api scfg live e eng =
     (case e of
        RawFrame pageId frameObject tArrival now \<Rightarrow>
          handleScreencastFrame pageId frameObject tArrival now eng
      | EncodeDone sessionId write_ok tTick t0 t1 \<Rightarrow>
          processFrameRest api scfg live write_ok sessionId tTick t0 t1 eng
      | ImmediateRuns \<Rightarrow> runImmediate eng)"

fun runPipeline ::
  "encoder_api \<Rightarrow> streaming_config \<Rightarrow> (connection \<Rightarrow> connection) \<Rightarrow> pipeline_event list
     \<Rightarrow> engine \<Rightarrow> engine" where
  "runPipeline api scfg live [] eng = eng"
| "runPipeline api scfg live (e # es) eng =
     runPipeline api scfg live es (pipelineStep api scfg live e eng)"

text \<open>
  The session and the frame processor that gate the raw frames of a page: the first
  stream bound to the page, provided it is active and has a frame processor. A frame
  is accepted when the time since the last accepted one is not below the frame
  interval; \<open>acceptedTimes\<close> lists the instants of the frames of the page accepted
  along a run, and \<open>inFlight\<close> counts the encodes of a session that are under way.
\<close>

definition gateOf :: "id \<Rightarrow> engine \<Rightarrow> (id \<times> frame_processor) option" where
  "gateOf pageId eng =
     (case find (\<lambda>(sid, st). st_pageId st = pageId) (streams eng) of
        None \<Rightarrow> None
      | Some (sessionId, _) \<Rightarrow>
          if sessionId = [] then None
          else
            (case map_of (streams eng) sessionId of
               None \<Rightarrow> None
             | Some stream \<Rightarrow>
                 if \<not> st_active stream then None
                 else map_option (Pair sessionId) (map_of (frameProcessors eng) sessionId)))"

definition acceptsFrame :: "id \<Rightarrow> int \<Rightarrow> engine \<Rightarrow> bool" where
  "acceptsFrame pageId now eng =
     (case gateOf pageId eng of
        None \<Rightarrow> False
      | Some (sessionId, fp) \<Rightarrow>
          \<not> of_int (now - fp_lastFrameTimestamp fp) < fp_frameInterval fp)"

fun acceptedTimes ::
  "encoder_api \<Rightarrow> streaming_config \<Rightarrow> (connection \<Rightarrow> connection) \<Rightarrow> id
     \<Rightarrow> pipeline_event list \<Rightarrow> engine \<Rightarrow> int list" where
  "acceptedTimes api scfg live pageId [] eng = []"
| "acceptedTimes api scfg live pageId (e # es) eng =
     (case e of
        RawFrame p frameObject tArrival now \<Rightarrow>
          if p = pageId \<and> acceptsFrame pageId now eng then [now] else []
      | _ \<Rightarrow> [])
     @ acceptedTimes api scfg live pageId es (pipelineStep api scfg live e eng)"

definition inFlight :: "id \<Rightarrow> engine \<Rightarrow> nat" where
  "inFlight sessionId eng = length (filter (\<lambda>(sid, f). sid = sessionId) (encoding eng))"

text \<open>A list of instants whose gaps, counted from \<open>t0\<close>, are all at least \<open>gap\<close>.\<close>

fun spaced :: "rat \<Rightarrow> int \<Rightarrow> int list \<Rightarrow> bool" where
  "spaced gap t0 [] = True"
| "spaced gap t0 (t # ts) = (gap \<le> of_int (t - t0) \<and> spaced gap t ts)"

text \<open>
  Two views of the engine used in the proofs about the gate: which page each stream
  is bound to and whether it is active, and the last accepted instant and the frame
  interval of each frame processor.
\<close>

definition streamView :: "engine \<Rightarrow> (id \<times> id \<times> bool) list" where
  "streamView eng = map (\<lambda>(sid, st). (sid, st_pageId st, st_active st)) (streams eng)"

definition gateView :: "engine \<Rightarrow> (id \<times> int \<times> rat) list" where
  "gateView eng =
     map (\<lambda>(sid, fp). (sid, fp_lastFrameTimestamp fp, fp_frameInterval fp))
       (frameProcessors eng)"

text \<open>What \<open>processFrame\<close> does to the frame processor of its session.\<close>

definition queueOrStart :: "frame \<Rightarrow> frame_processor \<Rightarrow> frame_processor" where
  "queueOrStart frameObject fp =
     (if fp_processing fp then fp\<lparr> fp_frameQueue := fp_frameQueue fp @ [frameObject] \<rparr>
      else fp\<lparr> fp_processing := True \<rparr>)"

text \<open>What the rest of a \<open>processFrame\<close> call does to the frame processor of its session.\<close>

definition finishFrame :: "frame_processor \<Rightarrow> frame_processor" where
  "finishFrame fp =
     fp\<lparr> fp_processed := fp_processed fp + 1,
         fp_frameQueue := (case fp_frameQueue fp of [] \<Rightarrow> [] | nextFrame # rest \<Rightarrow> rest),
         fp_processing := False \<rparr>"

text \<open>
  Whether the frame processor of a session has its \<open>processing\<close> flag set, as a count
  (0 when the session has no frame processor), to be compared with \<open>inFlight\<close>.
\<close>

definition processingCount :: "id \<Rightarrow> engine \<Rightarrow> nat" where
  "processingCount sessionId eng =
     (case map_of (frameProcessors eng) sessionId of
        None \<Rightarrow> 0
      | Some fp \<Rightarrow> if fp_processing fp then 1 else 0)"

subsubsection \<open>Stream life cycle\<close>

text \<open>
  \<open>closeStream\<close>. The stream is marked inactive and its three releases follow, each
  in its own \<open>try\<close>: an error (such as the \<open>TypeError\<close> of a missing \<open>destroyEncoder\<close>)
  is logged and the teardown goes on. \<open>stop_ok\<close> is whether the transport's track and
  peer close cleanly. The first component of \<open>closeStreamReleases\<close> is whether
  \<open>closeConnection\<close> found the connection, which is when it emits \<open>connectionClosed\<close>
  (on its normal path and in its \<open>catch\<close> alike). \<open>closeStreamTail\<close> is the end of the
  method: the four entries of the session are deleted and \<open>streamClosed\<close> is emitted.
\<close>

definition closeStreamReleases ::
  "encoder_api \<Rightarrow> env \<Rightarrow> bool \<Rightarrow> id \<Rightarrow> stream \<Rightarrow> int \<Rightarrow> engine \<Rightarrow> bool \<times> engine" where
  "closeStreamReleases api ev stop_ok sessionId stream now eng =
     (let eng1 = set_stream sessionId (\<lambda>st. st\<lparr> st_active := False \<rparr>) eng;
          eng2 = eng1\<lparr> eng_pool :=
                   snd (stopScreencast ev (st_pageId stream) now (eng_pool eng1)) \<rparr>;
          eng3 = eng2\<lparr> eng_encoder :=
                   snd (destroyEncoder api sessionId (eng_encoder eng2)) \<rparr>
      in (map_of (connections (eng_webrtc eng3)) sessionId \<noteq> None,
          eng3\<lparr> eng_webrtc :=
                  snd (closeConnection stop_ok sessionId (eng_webrtc eng3)) \<rparr>))"

definition closeStreamTail :: "id \<Rightarrow> string \<Rightarrow> engine \<Rightarrow> engine" where
  "closeStreamTail sessionId reason eng =
     emit_eng (StreamClosed sessionId reason)
       (eng\<lparr> frameProcessors := AList.delete sessionId (frameProcessors eng),
              adaptiveQualityControllers :=
                AList.delete sessionId (adaptiveQualityControllers eng),
              performanceMetrics := AList.delete sessionId (performanceMetrics eng),
              streams := AList.delete sessionId (streams eng) \<rparr>)"

text \<open>
  The engine itself listens to \<open>connectionClosed\<close> (\<open>setupEventListeners\<close>), and the
  event is emitted synchronously inside the \<open>closeConnection\<close> call of \<open>closeStream\<close>,
  before the stream is deleted. So the listener \<open>handleWebRTCConnectionClosed\<close> runs
  there: it looks the stream up, finds it still registered, and calls \<open>closeStream\<close>
  once more with the reason \<open>webrtc_closed\<close>. That inner call does not test the
  \<open>active\<close> mark either: it runs the three releases again (its own \<open>closeConnection\<close>
  no longer finds the connection, so nothing is emitted a second time) while the outer
  call is suspended; the outer call then deletes the entries and emits \<open>streamClosed\<close>
  with its own reason, and the inner call ends with its deletes and a second
  \<open>streamClosed\<close>. The releases of the inner call act on the pool, the encoder and the
  transport, the end of the outer call on the engine's own maps, so the order in which
  the two are interleaved does not show in the state. The peer connection's own
  state-change callbacks, which also emit \<open>connectionClosed\<close>, belong to the outside
  world: \<open>handleWebRTCConnectionClosed\<close> below is the step they cause.
\<close>

definition closeStream ::
  "encoder_api \<Rightarrow> env \<Rightarrow> bool \<Rightarrow> id \<Rightarrow> string \<Rightarrow> int \<Rightarrow> engine \<Rightarrow> bool \<times> engine" where
  "closeStream api ev stop_ok sessionId reason now eng =
     (case map_of (streams eng) sessionId of
        None \<Rightarrow> (False, eng)
      | Some stream \<Rightarrow>
          (case closeStreamReleases api ev stop_ok sessionId stream now eng of
             (False, eng4) \<Rightarrow> (True, closeStreamTail sessionId reason eng4)
           | (True, eng4) \<Rightarrow>
               (case map_of (streams eng4) sessionId of
                  None \<Rightarrow> (True, closeStreamTail sessionId reason eng4)
                | Some stream2 \<Rightarrow>
                    (let eng5 = snd (closeStreamReleases api ev stop_ok sessionId stream2
                                       now eng4)
                     in (True,
                         closeStreamTail sessionId ''webrtc_closed''
                           (closeStreamTail sessionId reason eng5))))))"

text \<open>
  \<open>handleEncodedFrame\<close>, the listener of the encoder's \<open>encodedFrame\<close> event. An error
  from \<open>updateSessionStats\<close> (the session is gone) is caught: the \<open>frameSent\<close> event is
  then not emitted.
\<close>

definition handleEncodedFrame ::
  "session_config \<Rightarrow> bool \<Rightarrow> id \<Rightarrow> nat \<Rightarrow> bool \<Rightarrow> int \<Rightarrow> engine \<Rightarrow> engine" where
  "handleEncodedFrame cfgS frame_ok sessionId frameLength keyFrame now eng =
     (case map_of (streams eng) sessionId of
        None \<Rightarrow> eng
      | Some stream \<Rightarrow>
          if \<not> st_active stream then eng
          else
            (let eng1 = set_stream sessionId
                          (\<lambda>st. st\<lparr> st_lastFrameAt := now,
                                    st_totalBytes := st_totalBytes st + frameLength,
                                    st_keyFrameCount :=
                                      (if keyFrame then st_keyFrameCount st + 1
                                       else st_keyFrameCount st) \<rparr>) eng;
                 eng2 = eng1\<lparr> eng_webrtc :=
                          snd (sendVideoFrame frame_ok sessionId frameLength now
                                 (eng_webrtc eng1)) \<rparr>
             in case updateSessionStats cfgS sessionId
                       (\<lambda>s. s\<lparr> s_frameCount := st_frameCount stream,
                                s_bytesSent := st_totalBytes stream + frameLength \<rparr>)
                       now (eng_sessions eng2) of
                  (Inl e, sm1) \<Rightarrow> eng2\<lparr> eng_sessions := sm1 \<rparr>
                | (Inr _, sm1) \<Rightarrow> emit_eng (FrameSent sessionId) (eng2\<lparr> eng_sessions := sm1 \<rparr>)))"

text \<open>
  The listeners \<open>setupEventListeners\<close> registers. On the encoder the engine listens to
  \<open>encodedFrame\<close> and to nothing else; the payload of that event (length, key frame) is
  a parameter here.
\<close>

definition handlePageClosed ::
  "encoder_api \<Rightarrow> env \<Rightarrow> bool \<Rightarrow> id \<Rightarrow> int \<Rightarrow> engine \<Rightarrow> engine" where
  "handlePageClosed api ev stop_ok pageId now eng =
     (case find (\<lambda>(sid, st). st_pageId st = pageId) (streams eng) of
        None \<Rightarrow> eng
      | Some (sessionId, _) \<Rightarrow>
          if sessionId = [] then eng
          else snd (closeStream api ev stop_ok sessionId ''page_closed'' now eng))"

definition handleSessionClosed ::
  "encoder_api \<Rightarrow> env \<Rightarrow> bool \<Rightarrow> id \<Rightarrow> int \<Rightarrow> engine \<Rightarrow> engine" where
  "handleSessionClosed api ev stop_ok sessionId now eng =
     snd (closeStream api ev stop_ok sessionId ''session_closed'' now eng)"

definition handleWebRTCConnectionClosed ::
  "encoder_api \<Rightarrow> env \<Rightarrow> bool \<Rightarrow> id \<Rightarrow> int \<Rightarrow> engine \<Rightarrow> engine" where
  "handleWebRTCConnectionClosed api ev stop_ok sessionId now eng =
     (case map_of (streams eng) sessionId of
        None \<Rightarrow> eng
      | Some _ \<Rightarrow> snd (closeStream api ev stop_ok sessionId ''webrtc_closed'' now eng))"

definition onEncoderEvent ::
  "session_config \<Rightarrow> bool \<Rightarrow> nat \<Rightarrow> bool \<Rightarrow> int \<Rightarrow> encoder_event \<Rightarrow> engine \<Rightarrow> engine" where
  "onEncoderEvent cfgS frame_ok frameLength keyFrame now e eng =
     (case e of
        EncodedFrame sessionId \<Rightarrow>
          handleEncodedFrame cfgS frame_ok sessionId frameLength keyFrame now eng
      | _ \<Rightarrow> eng)"

text \<open>
  The encoding worker of a session's encoder exits with \<open>code\<close> (or fails with an
  error): the encoder backend's handler runs, and the events it emits are delivered to
  the engine's listeners.
\<close>

definition deliverEncoderEvents ::
  "session_config \<Rightarrow> int \<Rightarrow> cuda_encoder \<Rightarrow> engine \<Rightarrow> engine" where
  "deliverEncoderEvents cfgS now ce' eng =
     fold (onEncoderEvent cfgS True 0 False now)
       (drop (length (enc_events (eng_encoder eng))) (enc_events ce'))
       (eng\<lparr> eng_encoder := ce' \<rparr>)"

definition encoderWorkerClosed ::
  "session_config \<Rightarrow> bool \<Rightarrow> id \<Rightarrow> int option \<Rightarrow> int \<Rightarrow> engine \<Rightarrow> engine" where
  "encoderWorkerClosed cfgS spawn_ok sessionId code now eng =
     deliverEncoderEvents cfgS now
       (handleEncoderClosed spawn_ok sessionId code now (eng_encoder eng)) eng"

definition encoderWorkerError ::
  "session_config \<Rightarrow> bool \<Rightarrow> id \<Rightarrow> int \<Rightarrow> engine \<Rightarrow> engine" where
  "encoderWorkerError cfgS spawn_ok sessionId now eng =
     deliverEncoderEvents cfgS now
       (handleEncoderError spawn_ok sessionId now (eng_encoder eng)) eng"

text \<open>
  \<open>createStream\<close>, in the order of the source: an existing stream is handed back; the
  session is fetched; a page is created unless the request or the session names one;
  the page is fetched; a transport connection is created unless one is named; the
  encoder is created; the screencast is started; the stream, its frame processor, its
  controller and its metrics are stored. An error at any step is rethrown with
  whatever the earlier steps have already done left in place.
\<close>

definition first_truthy :: "id option \<Rightarrow> id option \<Rightarrow> id option" where
  "first_truthy a b = (if truthy_id a then a else if truthy_id b then b else None)"

definition stream_options_of :: "streaming_config \<Rightarrow> stream_request \<Rightarrow> stream_options" where
  "stream_options_of scfg options =
     \<lparr> so_frameRate = or_num (sr_frameRate options) (defaultFrameRate scfg),
       so_bitrate = or_num (sr_bitrate options) (defaultBitrate scfg),
       so_encodingStrategy =
         or_str (sr_encodingStrategy options) (defaultEncodingStrategy scfg),
       so_adaptiveQuality = (sr_adaptiveQuality options \<noteq> Some False) \<rparr>"

definition createStream_page ::
  "browser_config \<Rightarrow> session_config \<Rightarrow> env \<Rightarrow> id \<Rightarrow> stream_request \<Rightarrow> session \<Rightarrow> id \<Rightarrow> id
     \<Rightarrow> int \<Rightarrow> engine \<Rightarrow> (error + id) \<times> engine" where
  "createStream_page cfgB cfgS ev sessionId options session uuidB uuidP now eng =
     (case first_truthy (sr_pageId options) (s_pageId session) of
        Some pageId \<Rightarrow> (Inr pageId, eng)
      | None \<Rightarrow>
          (case createPage cfgB ev \<lparr> po_pageId = None, po_browserId = None \<rparr>
                  uuidB uuidP now (eng_pool eng) of
             (Inl e, bp) \<Rightarrow> (Inl e, eng\<lparr> eng_pool := bp \<rparr>)
           | (Inr (pageId, info), bp) \<Rightarrow>
               (case updateSession cfgS sessionId
                       (\<lambda>s. s\<lparr> s_pageId := Some pageId,
                                s_browserId := Some (pg_browserId info) \<rparr>)
                       now (eng_sessions eng) of
                  (Inl e, sm) \<Rightarrow> (Inl e, eng\<lparr> eng_pool := bp, eng_sessions := sm \<rparr>)
                | (Inr _, sm) \<Rightarrow> (Inr pageId, eng\<lparr> eng_pool := bp, eng_sessions := sm \<rparr>))))"

definition createStream_connection ::
  "session_config \<Rightarrow> bool \<Rightarrow> id \<Rightarrow> stream_request \<Rightarrow> int \<Rightarrow> engine
     \<Rightarrow> (error + id) \<times> engine" where
  "createStream_connection cfgS peer_ok sessionId options now eng =
     (case first_truthy (sr_webrtcId options)
             (case map_of (sessions (eng_sessions eng)) sessionId of
                None \<Rightarrow> None | Some session \<Rightarrow> s_webrtcId session) of
        Some webrtcId \<Rightarrow> (Inr webrtcId, eng)
      | None \<Rightarrow>
          (case createConnection peer_ok sessionId now (eng_webrtc eng) of
             (Inl e, w) \<Rightarrow> (Inl e, eng\<lparr> eng_webrtc := w \<rparr>)
           | (Inr _, w) \<Rightarrow>
               (case updateSession cfgS sessionId (\<lambda>s. s\<lparr> s_webrtcId := Some sessionId \<rparr>)
                       now (eng_sessions eng) of
                  (Inl e, sm) \<Rightarrow> (Inl e, eng\<lparr> eng_webrtc := w, eng_sessions := sm \<rparr>)
                | (Inr _, sm) \<Rightarrow>
                    (Inr sessionId, eng\<lparr> eng_webrtc := w, eng_sessions := sm \<rparr>))))"

definition createStream_store ::
  "streaming_config \<Rightarrow> env \<Rightarrow> id \<Rightarrow> stream_request \<Rightarrow> id \<Rightarrow> id \<Rightarrow> int \<Rightarrow> engine
     \<Rightarrow> (error + stream) \<times> engine" where
  "createStream_store scfg ev sessionId options pageId webrtcId now eng =
     (let so = stream_options_of scfg options;
          eng1 = eng\<lparr> eng_encoder :=
                   snd (createEncoder sessionId
                          \<lparr> eo_frameRate = Some (so_frameRate so),
                            eo_bitrate = Some (so_bitrate so),
                            eo_strategy = Some (so_encodingStrategy so) \<rparr>
                          (eng_encoder eng)) \<rparr>
      in case startScreencast ev pageId now (eng_pool eng1) of
           (Inl e, bp) \<Rightarrow> (Inl e, eng1\<lparr> eng_pool := bp \<rparr>)
         | (Inr _, bp) \<Rightarrow>
             (let stream = \<lparr> st_pageId = pageId, st_webrtcId = webrtcId, st_options = so,
                             st_createdAt = now, st_lastFrameAt = now, st_frameCount = 0,
                             st_keyFrameCount = 0, st_droppedFrameCount = 0,
                             st_totalBytes = 0, st_active = True \<rparr>;
                  eng2 = eng1\<lparr> eng_pool := bp,
                               streams := AList.update sessionId stream (streams eng1) \<rparr>;
                  eng3 = createFrameProcessor scfg sessionId so now eng2;
                  eng4 = createAdaptiveQualityController scfg sessionId so now eng3;
                  eng5 = initializePerformanceMetrics sessionId now eng4
              in (Inr stream, emit_eng (StreamCreated sessionId) eng5)))"

definition createStream ::
  "browser_config \<Rightarrow> session_config \<Rightarrow> streaming_config \<Rightarrow> env \<Rightarrow> bool \<Rightarrow> id
     \<Rightarrow> stream_request \<Rightarrow> id \<Rightarrow> id \<Rightarrow> int \<Rightarrow> engine \<Rightarrow> (error + stream) \<times> engine" where
  "createStream cfgB cfgS scfg ev peer_ok sessionId options uuidB uuidP now eng =
     (case map_of (streams eng) sessionId of
        Some stream \<Rightarrow> (Inr stream, eng)
      | None \<Rightarrow>
          (case getSession cfgS sessionId now (eng_sessions eng) of
             (None, sm) \<Rightarrow> (Inl (Error ''Session not found''), eng\<lparr> eng_sessions := sm \<rparr>)
           | (Some session, sm) \<Rightarrow>
               (case createStream_page cfgB cfgS ev sessionId options session uuidB uuidP now
                       (eng\<lparr> eng_sessions := sm \<rparr>) of
                  (Inl e, eng1) \<Rightarrow> (Inl e, eng1)
                | (Inr pageId, eng1) \<Rightarrow>
                    (case getPage pageId now (eng_pool eng1) of
                       (None, bp) \<Rightarrow>
                         (Inl (Error ''Page not found''), eng1\<lparr> eng_pool := bp \<rparr>)
                     | (Some _, bp) \<Rightarrow>
                         (case createStream_connection cfgS peer_ok sessionId options now
                                 (eng1\<lparr> eng_pool := bp \<rparr>) of
                            (Inl e, eng2) \<Rightarrow> (Inl e, eng2)
                          | (Inr webrtcId, eng2) \<Rightarrow>
                              createStream_store scfg ev sessionId options pageId webrtcId
                                now eng2)))))"

definition env_ok :: env where
  "env_ok =
     \<lparr> launch = (\<lambda>b. Some \<lparr> l_pages = 0, l_process = True \<rparr>),
       newPage_ok = (\<lambda>p. True), pageSetup_ok = (\<lambda>p. True), cdp_send_ok = (\<lambda>p. True),
       page_close_ok = (\<lambda>p. True), browser_close_ok = (\<lambda>b. True),
       pages_is_promise = True \<rparr>"

section \<open>Concrete states used as inputs\<close>

definition ex_session :: "int \<Rightarrow> int \<Rightarrow> session" where
  "ex_session created active =
     \<lparr> s_createdAt = created, s_lastActivityAt = active, s_browserId = None,
       s_pageId = None, s_webrtcId = None, s_status = ''created'',
       s_frameCount = 0, s_bytesSent = 0, s_bytesReceived = 0 \<rparr>"


text \<open>
  A pool filled by the pool's own calls: five \<open>createPage\<close> calls on an empty pool
  launch one browser (stored as \<open>b1\<close>) and open the pages \<open>p1\<close> to \<open>p5\<close> in it, which
  is the per-instance cap of the configuration.
\<close>

definition ex_cfg :: browser_config where
  "ex_cfg = BROWSER_CONFIG 5"

definition ex_full_pool :: pool where
  "ex_full_pool =
     fold (\<lambda>pageId p.
             snd (createPage ex_cfg env_ok \<lparr> po_pageId = Some pageId, po_browserId = None \<rparr>
                    ''b1'' ''unused'' 0 p))
       [''p1'', ''p2'', ''p3'', ''p4'', ''p5''] new_pool"

text \<open>
  A pool whose only browser has disconnected: \<open>createPage\<close> opened \<open>p1\<close> in a fresh
  browser \<open>b1\<close>, then the browser's \<open>disconnected\<close> listener ran. The page entry
  is still registered; no browser is.
\<close>

definition ex_orphan_pool :: pool where
  "ex_orphan_pool =
     onBrowserDisconnected ''b1''
       (snd (createPage ex_cfg env_ok \<lparr> po_pageId = Some ''p1'', po_browserId = None \<rparr>
               ''b1'' ''unused'' 0 new_pool))"

text \<open>
  An engine as the application wires it, with the native transport module loaded: a
  session \<open>s1\<close> is created at instant 0 and a stream is started for it at instant 0
  with the default options (30 frames per second, 3000 kbit/s, adaptive quality on).
  \<open>createStream\<close> launches the browser \<open>b1\<close> and opens the page \<open>p1\<close> for it.
\<close>

definition ex_engine0 :: engine where
  "ex_engine0 =
     new_engine new_pool
       (snd (createSession SESSION_CONFIG (Some ''s1'') ''unused'' 0 (new_session_manager True)))
       (new_webrtc_service True) new_cuda_encoder"

definition ex_request :: stream_request where
  "ex_request =
     \<lparr> sr_pageId = None, sr_webrtcId = None, sr_frameRate = None, sr_bitrate = None,
       sr_encodingStrategy = None, sr_adaptiveQuality = None \<rparr>"

definition ex_engine :: engine where
  "ex_engine =
     snd (createStream ex_cfg SESSION_CONFIG STREAMING_CONFIG env_ok True ''s1'' ex_request
            ''b1'' ''p1'' 0 ex_engine0)"

text \<open>
  A pool with one idle browser: \<open>createBrowser\<close> on an empty pool at instant 0 launches
  \<open>b1\<close>, which has an operating-system process and no page.
\<close>

definition ex_idle_env :: env where
  "ex_idle_env = env_ok\<lparr> launch := (\<lambda>b. Some \<lparr> l_pages = 0, l_process = True \<rparr>) \<rparr>"

definition ex_idle_pool :: pool where
  "ex_idle_pool = snd (createBrowser ex_cfg ex_idle_env (Some ''b1'') ''unused'' 0 new_pool)"

text \<open>
  The same wiring with the native transport module missing: the session \<open>s1\<close> exists,
  no stream has been started yet.
\<close>

definition ex_engine0_no_wrtc :: engine where
  "ex_engine0_no_wrtc = ex_engine0\<lparr> eng_webrtc := new_webrtc_service False \<rparr>"

text \<open>
  A stream whose encoder runs the last strategy of the chain: the stream for \<open>s1\<close> is
  requested with the strategy \<open>mjpeg\<close> and its encoder is started at instant 1.
\<close>

definition ex_mjpeg_engine :: engine where
  "ex_mjpeg_engine =
     (let eng = snd (createStream ex_cfg SESSION_CONFIG STREAMING_CONFIG env_ok True ''s1''
                       (ex_request\<lparr> sr_encodingStrategy := Some ''mjpeg'' \<rparr>)
                       ''b1'' ''p1'' 0 ex_engine0)
      in eng\<lparr> eng_encoder := snd (startEncoder True ''s1'' 1 (eng_encoder eng)) \<rparr>)"

text \<open>
  Consecutive adaptive-quality ticks on the stream of \<open>s1\<close>, five seconds apart, each
  seeing a round-trip time of 400 ms in the transport's report (a \<open>poor\<close> network).
\<close>

definition ex_poor_report :: "connection \<Rightarrow> connection" where
  "ex_poor_report c = c\<lparr> c_roundTripTime := 400 \<rparr>"

fun ex_poor_ticks :: "encoder_api \<Rightarrow> nat \<Rightarrow> engine \<Rightarrow> engine" where
  "ex_poor_ticks api 0 eng = eng"
| "ex_poor_ticks api (Suc n) eng =
     snd (applyAdaptiveQuality api STREAMING_CONFIG ex_poor_report ''s1''
            (5000 * (int n + 1)) (ex_poor_ticks api n eng))"

definition currentBitrates :: "engine \<Rightarrow> rat list" where
  "currentBitrates eng = map (q_bitrate \<circ> aq_currentQuality \<circ> snd) (adaptiveQualityControllers eng)"

text \<open>
  Raw frames of the page \<open>p1\<close> arriving at the instants 100, 200 and 300 while the
  first encode has not finished, and sixty frames 16 ms apart, each encode finishing
  (and any queued frame being dispatched) before the next frame arrives.
\<close>

definition ex_burst :: "pipeline_event list" where
  "ex_burst =
     [RawFrame ''p1'' ''f1'' 100 100, RawFrame ''p1'' ''f2'' 200 200,
      RawFrame ''p1'' ''f3'' 300 300]"

definition ex_steady :: "pipeline_event list" where
  "ex_steady =
     concat (map (\<lambda>i. [RawFrame ''p1'' ''f'' (16 * int i) (16 * int i),
                       EncodeDone ''s1'' True (16 * int i) (16 * int i) (16 * int i + 1),
                       ImmediateRuns]) [1 ..< 61])"

section \<open>Unfolding bundles\<close>

lemmas pool_defs = new_pool_def createPage_def getOrCreateBrowser_def createBrowser_def
  or_uuid_def emit_pool_def getPage_def startScreencast_def set_page_def stopScreencast_def
  closePage_def closeBrowser_def onBrowserDisconnected_def restartBrowser_def

lemmas session_defs = createSession_def new_session_manager_def getSession_def
  resetSessionTimeout_def clearSessionTimeout_def emit_sm_def updateSession_def
  updateSessionStats_def truthy_id_def sessionTimeoutMs_def closeSession_def

lemmas example_cfg_defs = ex_cfg_def BROWSER_CONFIG_def env_ok_def SESSION_CONFIG_def
  STREAMING_CONFIG_def

lemmas engine_defs = new_engine_def new_webrtc_service_def new_cuda_encoder_def
  ENCODING_STRATEGIES_def createStream_def createStream_page_def createStream_connection_def
  createStream_store_def first_truthy_def createConnection_def emit_rtc_def createEncoder_def
  stream_options_of_def or_num_def or_str_def createFrameProcessor_def
  createAdaptiveQualityController_def initializePerformanceMetrics_def emit_eng_def

lemma ex_engine_eq:
  "ex_engine =
     \<lparr>streams =
         [(''s1'',
           \<lparr>st_pageId = ''p1'', st_webrtcId = ''s1'',
              st_options =
                \<lparr>so_frameRate = 30, so_bitrate = 3000,
                   so_encodingStrategy = ''cuda_h264'',
                   so_adaptiveQuality = True\<rparr>,
              st_createdAt = 0, st_lastFrameAt = 0, st_frameCount = 0,
              st_keyFrameCount = 0, st_droppedFrameCount = 0, st_totalBytes = 0,
              st_active = True\<rparr>)],
         frameProcessors =
           [(''s1'',
             \<lparr>fp_lastFrameTimestamp = 0, fp_frameInterval = 100 / 3,
                fp_frameQueue = [], fp_processing = False, fp_dropped = 0,
                fp_processed = 0\<rparr>)],
         adaptiveQualityControllers =
           [(''s1'',
             \<lparr>aq_options =
                \<lparr>so_frameRate = 30, so_bitrate = 3000,
                   so_encodingStrategy = ''cuda_h264'',
                   so_adaptiveQuality = True\<rparr>,
                aq_enabled = True, aq_lastAdjustmentTime = 0,
                aq_adjustmentInterval = 5000, aq_rtt = [], aq_jitter = [],
                aq_packetLoss = [], aq_encodingTimes = [],
                aq_currentQuality = \<lparr>q_frameRate = 30, q_bitrate = 3000\<rparr>,
                aq_targetQuality = \<lparr>q_frameRate = 30, q_bitrate = 3000\<rparr>\<rparr>)],
         performanceMetrics =
           [(''s1'', \<lparr>pm_frameEncodeTime = [], pm_timestamp = 0\<rparr>)],
         eng_pool =
           \<lparr>browsers =
              [(''b1'',
                \<lparr>createdAt = 0, pagesCreated = 1, livePages = 1,
                   hasProcess = True\<rparr>)],
              pages =
                [(''p1'',
                  \<lparr>pg_browserId = ''b1'', pg_createdAt = 0,
                     pg_lastActivityAt = 0, pg_screencastRunning = True,
                     pg_client = True\<rparr>)],
              pool_events =
                [BrowserCreated ''b1'', PageCreated ''p1'',
                 ScreencastStarted ''p1'']\<rparr>,
         eng_sessions =
           \<lparr>sessions =
              [(''s1'',
                \<lparr>s_createdAt = 0, s_lastActivityAt = 0,
                   s_browserId = Some ''b1'', s_pageId = Some ''p1'',
                   s_webrtcId = Some ''s1'', s_status = ''created'',
                   s_frameCount = 0, s_bytesSent = 0, s_bytesReceived = 0\<rparr>)],
              sessionTimeouts = [(''s1'', 300000)], sm_hasBrowserPool = True,
              sm_events =
                [SessionCreated ''s1'', SessionUpdated ''s1'',
                 SessionUpdated ''s1'']\<rparr>,
         eng_webrtc =
           \<lparr>wrtc = True,
              connections =
                [(''s1'',
                  \<lparr>c_createdAt = 0, c_lastActivityAt = 0, c_bytesSent = 0,
                     c_packetsLost = 0, c_roundTripTime = 0, c_jitter = 0,
                     c_active = True\<rparr>)],
              rtc_events = [ConnectionCreated ''s1'']\<rparr>,
         eng_encoder =
           \<lparr>encoders =
              [(''s1'',
                \<lparr>e_strategy = ''cuda_h264'', e_frameRate = 30, e_bitrate = 3000,
                   e_process = False, e_active = False, e_framesEncoded = 0,
                   e_bytesEncoded = 0, e_encodingTime = 0, e_startTime = None,
                   e_lastFrameTime = None\<rparr>)],
              encodingStrategies =
                [''cuda_h264'', ''cuda_hevc'', ''cpu_h264'', ''cpu_hevc'',
                 ''mjpeg''],
              currentStrategy = ''cuda_h264'', enc_events = []\<rparr>,
         encoding = [], immediates = [], eng_events = [StreamCreated ''s1'']\<rparr>"
  by (simp add: ex_engine_def ex_engine0_def ex_request_def engine_defs pool_defs
      session_defs example_cfg_defs Let_def)

section \<open>Session lifetime\<close>

lemma sessions_clearSessionTimeout [simp]:
  "sessions (clearSessionTimeout sessionId sm) = sessions sm"
  by (simp add: clearSessionTimeout_def split: option.splits)

lemma sessions_closeSession:
  "sessions (fst (snd (closeSession ev sessionId reason now (sm, bp)))) =
     AList.delete sessionId (sessions sm)"
proof (cases "map_of (sessions sm) sessionId")
  case None
  then have "sessionId \<notin> fst ` set (sessions sm)"
    by (simp add: map_of_eq_None_iff)
  with None show ?thesis
    by (simp add: closeSession_def)
next
  case (Some s)
  then show ?thesis
    by (simp add: closeSession_def Let_def emit_sm_def delete_update_same)
qed







section \<open>Teardown\<close>

lemma pages_closePage:
  "map_of (pages (snd (closePage ev pageId now p))) pageId = None"
  by (cases "map_of (pages p) pageId")
     (simp_all add: closePage_def getPage_def Let_def emit_pool_def delete_conv')

lemma streams_closeStreamTail:
  "map_of (streams (closeStreamTail sessionId reason eng)) sessionId = None"
  by (simp add: closeStreamTail_def emit_eng_def delete_conv')

lemma streams_closeStream:
  "map_of (streams (snd (closeStream api ev stop_ok sessionId reason now eng))) sessionId = None"
  by (simp add: closeStream_def streams_closeStreamTail Let_def
      split: option.splits prod.splits bool.splits)

lemma sessions_closeSession_None:
  "map_of (sessions (fst (snd (closeSession ev sessionId reason now st)))) sessionId = None"
  by (cases st) (simp add: sessions_closeSession delete_conv')

text \<open>
  Closes that follow one another. Whatever the first close of a session, a stream or a
  page met (and whatever the outside world answered), the entity is gone from its
  registry when the call has returned; a second close of the same id issued after that
  answers \<open>false\<close>, raises nothing, and returns the state it was given.
\<close>

lemma second_close_after_first_returned:
  "map_of (sessions (fst (snd (closeSession ev1 sessionId reason1 t1 st)))) sessionId = None \<and>
   closeSession ev2 sessionId reason2 t2 (snd (closeSession ev1 sessionId reason1 t1 st)) =
     (False, snd (closeSession ev1 sessionId reason1 t1 st)) \<and>
   map_of (streams (snd (closeStream api1 ev1 ok1 sessionId reason1 t1 eng))) sessionId = None \<and>
   closeStream api2 ev2 ok2 sessionId reason2 t2
       (snd (closeStream api1 ev1 ok1 sessionId reason1 t1 eng)) =
     (False, snd (closeStream api1 ev1 ok1 sessionId reason1 t1 eng)) \<and>
   map_of (pages (snd (closePage ev1 pageId t1 p))) pageId = None \<and>
   closePage ev2 pageId t2 (snd (closePage ev1 pageId t1 p)) =
     (False, snd (closePage ev1 pageId t1 p))"
proof -
  obtain sm' bp' where st': "snd (closeSession ev1 sessionId reason1 t1 st) = (sm', bp')"
    by (cases "snd (closeSession ev1 sessionId reason1 t1 st)")
  have a0: "map_of (sessions sm') sessionId = None"
    using sessions_closeSession_None [of ev1 sessionId reason1 t1 st] st' by simp
  then have a: "closeSession ev2 sessionId reason2 t2 (sm', bp') = (False, sm', bp')"
    by (simp add: closeSession_def)
  have b: "closeStream api2 ev2 ok2 sessionId reason2 t2
             (snd (closeStream api1 ev1 ok1 sessionId reason1 t1 eng)) =
           (False, snd (closeStream api1 ev1 ok1 sessionId reason1 t1 eng))"
    using streams_closeStream [of api1 ev1 ok1 sessionId reason1 t1 eng]
    by (simp add: closeStream_def [of api2])
  have c: "closePage ev2 pageId t2 (snd (closePage ev1 pageId t1 p)) =
           (False, snd (closePage ev1 pageId t1 p))"
    using pages_closePage [of ev1 pageId t1 p]
    by (simp add: closePage_def [of ev2] getPage_def)
  from a0 a b c st' streams_closeStream [of api1 ev1 ok1 sessionId reason1 t1 eng]
    pages_closePage [of ev1 pageId t1 p]
  show ?thesis by simp
qed

text \<open>
  The close that the engine issues itself. The inner call's \<open>closeConnection\<close> finds
  nothing, so the re-entry stops there; but whenever the stream's channel is open, one
  \<open>closeStream\<close> runs the releases twice and emits \<open>streamClosed\<close> twice.
\<close>

lemma webrtc_closeStreamReleases:
  "map_of (connections (eng_webrtc
             (snd (closeStreamReleases api ev stop_ok sessionId stream now eng)))) sessionId = None"
  by (cases "map_of (connections (eng_webrtc eng)) sessionId")
     (simp_all add: closeStreamReleases_def closeConnection_def set_stream_def emit_rtc_def
        Let_def delete_conv')

lemma closeStreamReleases_again_silent:
  "\<not> fst (closeStreamReleases api2 ev2 ok2 sessionId stream2 t2
            (snd (closeStreamReleases api1 ev1 ok1 sessionId stream1 t1 eng)))"
  using webrtc_closeStreamReleases [of api1 ev1 ok1 sessionId stream1 t1 eng]
  by (simp add: closeStreamReleases_def [of api2] set_stream_def Let_def)

lemma closeStream_open_channel_events:
  assumes "map_of (streams eng) sessionId = Some stream"
    and "map_of (connections (eng_webrtc eng)) sessionId = Some c"
  shows "eng_events (snd (closeStream api ev stop_ok sessionId reason now eng)) =
           eng_events eng @
           [StreamClosed sessionId reason, StreamClosed sessionId ''webrtc_closed'']"
  using assms
  by (simp add: closeStream_def closeStreamReleases_def closeStreamTail_def emit_eng_def
      set_stream_def map_of_map_entry Let_def)

lemma closePage_emits_pageClosed_twice:
  "pool_events (snd (closePage env_ok ''p1'' 5 (eng_pool ex_engine))) =
     [BrowserCreated ''b1'', PageCreated ''p1'', ScreencastStarted ''p1'',
      ScreencastStopped ''p1'', PageClosed ''p1'', PageClosed ''p1'']"
  by (simp add: ex_engine_eq closePage_def getPage_def stopScreencast_def set_page_def
      emit_pool_def env_ok_def Let_def)

text \<open>
  C8 fails on the code. The stream of \<open>s1\<close>, as \<open>createStream\<close> left it (page \<open>p1\<close>,
  channel \<open>s1\<close> open), is closed once with the reason \<open>closed\<close>. The call answers
  \<open>true\<close>; inside it the engine's own listener has called \<open>closeStream\<close> a second time
  for the same session, and that second call did not find the stream already removed:
  it went through the teardown as well and ended like a successful close, so that
  \<open>streamClosed\<close> is emitted twice for the one stream, the second time with the reason
  \<open>webrtc_closed\<close>.
\<close>

theorem closeStream_reentered_closes_twice:
  "map_option st_active (map_of (streams ex_engine) ''s1'') = Some True \<and>
   map_option c_active (map_of (connections (eng_webrtc ex_engine)) ''s1'') = Some True \<and>
   fst (closeStream CUDAEncoder_api env_ok True ''s1'' ''closed'' 5 ex_engine) \<and>
   eng_events (snd (closeStream CUDAEncoder_api env_ok True ''s1'' ''closed'' 5 ex_engine)) =
     [StreamCreated ''s1'', StreamClosed ''s1'' ''closed'',
      StreamClosed ''s1'' ''webrtc_closed''] \<and>
   eng_events (snd (closeStream BasicEncoder_api env_ok True ''s1'' ''closed'' 5 ex_engine)) =
     [StreamCreated ''s1'', StreamClosed ''s1'' ''closed'',
      StreamClosed ''s1'' ''webrtc_closed'']"
  by (simp add: ex_engine_eq closeStream_def closeStreamReleases_def closeStreamTail_def
      emit_eng_def set_stream_def Let_def)

section \<open>Pool caps\<close>

lemma length_update_le: "length (AList.update k v al) \<le> Suc (length al)"
  by (induction al) auto

lemma length_map_entry [simp]: "length (AList.map_entry k f al) = length al"
  by (induction al) auto

lemma browsers_createBrowser_le:
  assumes "length (browsers p) \<le> maxBrowsers cfg"
  shows "length (browsers (snd (createBrowser cfg ev optId uuid now p))) \<le> maxBrowsers cfg"
proof (cases "length (browsers p) \<ge> maxBrowsers cfg")
  case True
  with assms show ?thesis by (simp add: createBrowser_def)
next
  case False
  then have "Suc (length (browsers p)) \<le> maxBrowsers cfg" by simp
  moreover have "length (AList.update k v (browsers p)) \<le> Suc (length (browsers p))" for k v
    by (rule length_update_le)
  ultimately have "length (AList.update k v (browsers p)) \<le> maxBrowsers cfg" for k v
    using le_trans by blast
  with assms show ?thesis
    by (simp add: createBrowser_def Let_def emit_pool_def split: option.splits)
qed

text \<open>
  The global cap does hold: no sequence of \<open>createBrowser\<close>, \<open>getOrCreateBrowser\<close> and
  \<open>createPage\<close> calls takes the number of instances above \<open>maxBrowsers\<close>.
\<close>

lemma browsers_getOrCreateBrowser_le:
  assumes "length (browsers p) \<le> maxBrowsers cfg"
  shows "length (browsers (snd (getOrCreateBrowser cfg ev optId uuid now p))) \<le> maxBrowsers cfg"
  using assms browsers_createBrowser_le [OF assms]
  by (simp add: getOrCreateBrowser_def split: option.splits)

lemma browsers_createPage_le:
  assumes "length (browsers p) \<le> maxBrowsers cfg"
  shows "length (browsers (snd (createPage cfg ev options uuidB uuidP now p))) \<le> maxBrowsers cfg"
proof -
  obtain r p1 where g: "getOrCreateBrowser cfg ev (po_browserId options) uuidB now p = (r, p1)"
    by (cases "getOrCreateBrowser cfg ev (po_browserId options) uuidB now p")
  have "length (browsers p1) \<le> maxBrowsers cfg"
    using browsers_getOrCreateBrowser_le [OF assms, of ev "po_browserId options" uuidB now] g
    by simp
  with g show ?thesis
    by (cases r) (auto simp: createPage_def Let_def emit_pool_def split: option.splits)
qed

text \<open>
  C1 fails on the per-instance cap. In \<open>ex_full_pool\<close> the only browser, \<open>b1\<close>, holds
  five pages, the cap; the pool holds one browser of the five allowed. A
  \<open>createPage\<close> call whose \<open>browserOptions\<close> name \<open>b1\<close> finds no browser under the
  cap, falls through to \<open>createBrowser\<close>, which hands the stored \<open>b1\<close> back, and opens
  a sixth page in it: no error is raised.
\<close>

theorem createPage_named_browser_exceeds_page_cap:
  "browsers ex_full_pool =
     [(''b1'', \<lparr> createdAt = 0, pagesCreated = 5, livePages = 5, hasProcess = True \<rparr>)] \<and>
   maxPagesPerBrowser ex_cfg = 5 \<and> maxBrowsers ex_cfg = 5 \<and>
   (case createPage ex_cfg env_ok \<lparr> po_pageId = Some ''p6'', po_browserId = Some ''b1'' \<rparr>
           ''b2'' ''unused'' 10 ex_full_pool of
      (r, p') \<Rightarrow>
        r = Inr (''p6'', \<lparr> pg_browserId = ''b1'', pg_createdAt = 10, pg_lastActivityAt = 10,
                          pg_screencastRunning = False, pg_client = False \<rparr>) \<and>
        browsers p' =
          [(''b1'', \<lparr> createdAt = 0, pagesCreated = 6, livePages = 6, hasProcess = True \<rparr>)])"
  by (simp add: ex_full_pool_def example_cfg_defs pool_defs Let_def)

section \<open>Idempotent creation\<close>

lemma createSession_existing:
  assumes "length (sessions sm) < maxConcurrentSessions cfg"
    and "sessionId \<noteq> []" and "map_of (sessions sm) sessionId = Some s"
  shows "createSession cfg (Some sessionId) uuid now sm = (Inr (sessionId, s), sm)"
  using assms by (simp add: createSession_def or_uuid_def)

lemma createBrowser_existing:
  assumes "length (browsers p) < maxBrowsers cfg"
    and "browserId \<noteq> []" and "map_of (browsers p) browserId = Some b"
  shows "createBrowser cfg ev (Some browserId) uuid now p = (Inr (browserId, b), p)"
  using assms by (simp add: createBrowser_def or_uuid_def)

lemma createEncoder_existing:
  assumes "map_of (encoders ce) encoderId = Some e"
  shows "createEncoder encoderId options ce = (e, ce)"
  using assms by (simp add: createEncoder_def)

lemma createPage_existing_with_spare_browser:
  assumes "fewestPages cfg (browsers p) None None = Some best"
    and "browsers p \<noteq> []"
    and "pageId \<noteq> []" and "map_of (pages p) pageId = Some info"
  shows "createPage cfg ev \<lparr> po_pageId = Some pageId, po_browserId = ob \<rparr> uuidB uuidP now p =
           (Inr (pageId, info), p)"
  using assms
  by (cases best) (simp add: createPage_def getOrCreateBrowser_def or_uuid_def)

text \<open>
  C10 fails for \<open>createPage\<close>. In \<open>ex_orphan_pool\<close> the page \<open>p1\<close> is registered and no
  browser is (its browser disconnected), so no cap is reached. \<open>createPage\<close> with the
  id \<open>p1\<close> acquires a browser before it looks the page up: it launches a new browser
  \<open>b2\<close>, stores it, and only then hands the stored page back.
\<close>

theorem createPage_existing_id_launches_browser:
  "map_of (pages ex_orphan_pool) ''p1'' =
     Some \<lparr> pg_browserId = ''b1'', pg_createdAt = 0, pg_lastActivityAt = 0,
            pg_screencastRunning = False, pg_client = False \<rparr> \<and>
   browsers ex_orphan_pool = [] \<and>
   (case createPage ex_cfg env_ok \<lparr> po_pageId = Some ''p1'', po_browserId = None \<rparr>
           ''b2'' ''unused'' 10 ex_orphan_pool of
      (r, p') \<Rightarrow>
        r = Inr (''p1'', \<lparr> pg_browserId = ''b1'', pg_createdAt = 0, pg_lastActivityAt = 0,
                          pg_screencastRunning = False, pg_client = False \<rparr>) \<and>
        browsers p' =
          [(''b2'', \<lparr> createdAt = 10, pagesCreated = 0, livePages = 0, hasProcess = True \<rparr>)] \<and>
        pool_events p' = pool_events ex_orphan_pool @ [BrowserCreated ''b2''])"
  by (simp add: ex_orphan_pool_def example_cfg_defs pool_defs Let_def)

section \<open>Health loop\<close>

lemma ex_idle_pool_eq:
  "ex_idle_pool =
     \<lparr> browsers =
         [(''b1'', \<lparr> createdAt = 0, pagesCreated = 0, livePages = 0, hasProcess = True \<rparr>)],
       pages = [], pool_events = [BrowserCreated ''b1''] \<rparr>"
  by (simp add: ex_idle_pool_def ex_idle_env_def example_cfg_defs pool_defs Let_def)

text \<open>
  C9 fails on idle reclamation. \<open>ex_idle_pool\<close> holds one browser with a process and
  no page, launched a minute before the tick. With \<open>browser.pages()\<close> answering a
  promise, the first test of the loop body compares \<open>undefined\<close> with 0, the browser
  is neither old nor worn, and the tick returns the pool as it found it: the idle
  browser stays open.
\<close>

theorem monitor_keeps_idle_browser:
  "browsers ex_idle_pool =
     [(''b1'', \<lparr> createdAt = 0, pagesCreated = 0, livePages = 0, hasProcess = True \<rparr>)] \<and>
   pages_is_promise env_ok \<and>
   monitorMemoryUsage ex_cfg env_ok ''unused'' 60000 ex_idle_pool = Some ([], ex_idle_pool)"
  by (simp add: ex_idle_pool_eq monitorMemoryUsage_def monitorLoop.simps monitorBrowser_def
      monitorAction_def pagesLengthUnawaited_def example_cfg_defs)

text \<open>Were the call awaited (the array itself at hand), the same tick would close it.\<close>

lemma monitor_closes_idle_browser_when_awaited:
  "map_option (browsers \<circ> snd)
     (monitorMemoryUsage ex_cfg (env_ok\<lparr> pages_is_promise := False \<rparr>) ''unused'' 60000
        ex_idle_pool) = Some []"
  by (simp add: ex_idle_pool_eq monitorMemoryUsage_def monitorLoop.simps monitorBrowser_def
      monitorAction_def pagesLengthUnawaited_def example_cfg_defs pool_defs Let_def)

text \<open>
  The rest of the loop body is as C9 says: a browser with a process that is not
  closed as idle and has reached the page threshold or the age threshold is closed and
  created again under its id, and a failing relaunch is logged, not rethrown.
\<close>

lemma monitor_restarts_worn_or_old:
  assumes "hasProcess b" and "pagesLengthUnawaited ev b \<noteq> Some 0"
    and "pagesCreated b \<ge> restartBrowserAfterPages cfg \<or>
         now - createdAt b \<ge> restartBrowserAfterTime cfg"
  shows "monitorBrowser cfg ev uuid now browserId b p =
           (case restartBrowser cfg ev browserId uuid now p of
              (Inl e, p') \<Rightarrow> ([e], p') | (Inr x, p') \<Rightarrow> ([], p'))"
  using assms by (auto simp: monitorBrowser_def monitorAction_def)

section \<open>Transport without the native module\<close>

lemma createStream_connection_no_wrtc:
  assumes "\<not> wrtc (eng_webrtc eng)"
    and "map_of (connections (eng_webrtc eng)) sessionId = None"
    and "\<not> truthy_id (sr_webrtcId options)"
    and "\<forall>s. map_of (sessions (eng_sessions eng)) sessionId = Some s \<longrightarrow> \<not> truthy_id (s_webrtcId s)"
  shows "createStream_connection cfgS peer_ok sessionId options now eng =
           (Inl (Error ''wrtc module not available''), eng)"
  using assms
  by (auto simp: createStream_connection_def first_truthy_def createConnection_def
      split: option.splits)

lemma webrtc_createStream_page [simp]:
  "eng_webrtc (snd (createStream_page cfgB cfgS ev sessionId options session uuidB uuidP now eng)) =
     eng_webrtc eng"
  by (simp add: createStream_page_def split: option.splits prod.splits sum.splits)

lemma streams_createStream_page [simp]:
  "streams (snd (createStream_page cfgB cfgS ev sessionId options session uuidB uuidP now eng)) =
     streams eng"
  by (simp add: createStream_page_def split: option.splits prod.splits sum.splits)

lemma webrtcId_getSession:
  "map_of (sessions (snd (getSession cfgS sessionId now sm))) sid = Some s' \<Longrightarrow>
   \<exists>s. map_of (sessions sm) sid = Some s \<and> s_webrtcId s' = s_webrtcId s"
  by (cases "map_of (sessions sm) sessionId")
     (auto simp: getSession_def Let_def resetSessionTimeout_def clearSessionTimeout_def
        update_conv' split: option.splits if_splits)

lemma webrtcId_createStream_page:
  assumes "map_of (sessions (eng_sessions
             (snd (createStream_page cfgB cfgS ev sessionId options session uuidB uuidP now eng))))
             sid = Some s'"
  shows "\<exists>s. map_of (sessions (eng_sessions eng)) sid = Some s \<and> s_webrtcId s' = s_webrtcId s"
proof (cases "first_truthy (sr_pageId options) (s_pageId session)")
  case (Some pageId)
  with assms show ?thesis by (simp add: createStream_page_def)
next
  case None
  obtain r bp where cp: "createPage cfgB ev \<lparr> po_pageId = None, po_browserId = None \<rparr>
                           uuidB uuidP now (eng_pool eng) = (r, bp)"
    by (cases "createPage cfgB ev \<lparr> po_pageId = None, po_browserId = None \<rparr>
                           uuidB uuidP now (eng_pool eng)")
  show ?thesis
  proof (cases r)
    case (Inl e)
    with assms None cp show ?thesis by (simp add: createStream_page_def)
  next
    case (Inr pg)
    obtain pageId info where pg: "pg = (pageId, info)" by (cases pg)
    from assms None cp Inr pg show ?thesis
      by (cases "map_of (sessions (eng_sessions eng)) sessionId")
         (auto simp: createStream_page_def updateSession_def getSession_def Let_def
            resetSessionTimeout_def clearSessionTimeout_def emit_sm_def update_conv'
            split: option.splits if_splits)
  qed
qed

text \<open>
  C6 (amended), for the \<open>WebRTCService\<close> of \<open>services/webrtc-service.js\<close>. When the
  native WebRTC module failed to load and no channel is registered for the session:
  sending a frame reports \<open>false\<close>, reading the stats yields \<open>null\<close> and closing
  yields \<open>false\<close>, none of them throwing or changing the service; opening a channel
  is rejected with the error \<open>wrtc module not available\<close> and registers nothing; and
  when the session has no stream yet and neither the request nor the session names a
  channel, creating the stream fails with an error and stores no stream.
\<close>

theorem no_wrtc_rejects_channel_and_stream:
  assumes "\<not> wrtc w" and "map_of (connections w) sessionId = None"
    and "eng_webrtc eng = w" and "map_of (streams eng) sessionId = None"
    and "\<not> truthy_id (sr_webrtcId options)"
    and "\<forall>s. map_of (sessions (eng_sessions eng)) sessionId = Some s \<longrightarrow> \<not> truthy_id (s_webrtcId s)"
  shows "createConnection peer_ok sessionId now w =
           (Inl (Error ''wrtc module not available''), w) \<and>
         sendVideoFrame frame_ok sessionId n now w = (False, w) \<and>
         getConnectionStats live sessionId now w = (None, w) \<and>
         closeConnection stop_ok sessionId w = (False, w) \<and>
         isl (fst (createStream cfgB cfgS scfg ev peer_ok sessionId options uuidB uuidP now eng)) \<and>
         map_of (streams (snd (createStream cfgB cfgS scfg ev peer_ok sessionId options
                                 uuidB uuidP now eng))) sessionId = None"
proof -
  have ops: "createConnection peer_ok sessionId now w =
               (Inl (Error ''wrtc module not available''), w) \<and>
             sendVideoFrame frame_ok sessionId n now w = (False, w) \<and>
             getConnectionStats live sessionId now w = (None, w) \<and>
             closeConnection stop_ok sessionId w = (False, w)"
    using assms(1,2)
    by (simp add: createConnection_def sendVideoFrame_def getConnectionStats_def
        closeConnection_def getConnection_def)
  let ?res = "createStream cfgB cfgS scfg ev peer_ok sessionId options uuidB uuidP now eng"
  have stream: "isl (fst ?res) \<and> map_of (streams (snd ?res)) sessionId = None"
  proof (cases "fst (getSession cfgS sessionId now (eng_sessions eng))")
    case None
    then show ?thesis
      using assms(4)
      by (cases "getSession cfgS sessionId now (eng_sessions eng)")
         (simp add: createStream_def)
  next
    case (Some session)
    define sm where "sm = snd (getSession cfgS sessionId now (eng_sessions eng))"
    define engA where "engA = eng\<lparr> eng_sessions := sm \<rparr>"
    have gs: "getSession cfgS sessionId now (eng_sessions eng) = (Some session, sm)"
      using Some by (simp add: sm_def prod_eq_iff)
    obtain r eng1 where pg:
      "createStream_page cfgB cfgS ev sessionId options session uuidB uuidP now engA = (r, eng1)"
      by (cases "createStream_page cfgB cfgS ev sessionId options session uuidB uuidP now engA")
    have eng1: "eng1 = snd (createStream_page cfgB cfgS ev sessionId options session
                              uuidB uuidP now engA)"
      using pg by simp
    have str1: "streams eng1 = streams eng"
      by (simp add: eng1 engA_def)
    have w1: "eng_webrtc eng1 = w"
      using assms(3) by (simp add: eng1 engA_def)
    have s1: "\<forall>s. map_of (sessions (eng_sessions eng1)) sessionId = Some s \<longrightarrow>
                \<not> truthy_id (s_webrtcId s)"
    proof (intro allI impI)
      fix s assume "map_of (sessions (eng_sessions eng1)) sessionId = Some s"
      then obtain s0 where "map_of (sessions (eng_sessions engA)) sessionId = Some s0"
        and "s_webrtcId s = s_webrtcId s0"
        using webrtcId_createStream_page
          [of cfgB cfgS ev sessionId options session uuidB uuidP now engA sessionId s]
        by (auto simp: eng1)
      moreover then obtain s00 where "map_of (sessions (eng_sessions eng)) sessionId = Some s00"
        and "s_webrtcId s0 = s_webrtcId s00"
        using webrtcId_getSession [of cfgS sessionId now "eng_sessions eng" sessionId s0]
        by (auto simp: engA_def sm_def)
      ultimately show "\<not> truthy_id (s_webrtcId s)"
        using assms(6) by simp
    qed
    show ?thesis
    proof (cases r)
      case (Inl e)
      with gs pg str1 assms(4) show ?thesis
        by (simp add: createStream_def engA_def)
    next
      case (Inr pageId)
      obtain found bp where gp: "getPage pageId now (eng_pool eng1) = (found, bp)"
        by (cases "getPage pageId now (eng_pool eng1)")
      show ?thesis
      proof (cases found)
        case None
        with Inr gs pg gp str1 assms(4) show ?thesis
          by (simp add: createStream_def engA_def)
      next
        case (Some info)
        have "createStream_connection cfgS peer_ok sessionId options now
                (eng1\<lparr> eng_pool := bp \<rparr>) =
              (Inl (Error ''wrtc module not available''), eng1\<lparr> eng_pool := bp \<rparr>)"
          using w1 s1 assms(1,2,5)
          by (intro createStream_connection_no_wrtc) simp_all
        with Some Inr gs pg gp str1 assms(4) show ?thesis
          by (simp add: createStream_def engA_def)
      qed
    qed
  qed
  from ops stream show ?thesis by blast
qed

theorem no_wrtc_rejects_channel_and_stream_witness:
  "\<not> wrtc (new_webrtc_service False) \<and>
   map_of (connections (new_webrtc_service False)) ''s1'' = None \<and>
   eng_webrtc ex_engine0_no_wrtc = new_webrtc_service False \<and>
   map_of (streams ex_engine0_no_wrtc) ''s1'' = None \<and>
   \<not> truthy_id (sr_webrtcId ex_request) \<and>
   (\<exists>s. map_of (sessions (eng_sessions ex_engine0_no_wrtc)) ''s1'' = Some s \<and>
        \<not> truthy_id (s_webrtcId s)) \<and>
   sendVideoFrame True ''s1'' 100 0 (new_webrtc_service False) =
     (False, new_webrtc_service False) \<and>
   isl (fst (createStream ex_cfg SESSION_CONFIG STREAMING_CONFIG env_ok True ''s1'' ex_request
               ''b1'' ''p1'' 0 ex_engine0_no_wrtc))"
proof -
  have h1: "\<not> wrtc (new_webrtc_service False)"
    and h2: "map_of (connections (new_webrtc_service False)) ''s1'' = None"
    and h3: "eng_webrtc ex_engine0_no_wrtc = new_webrtc_service False"
    and h4: "map_of (streams ex_engine0_no_wrtc) ''s1'' = None"
    and h5: "\<not> truthy_id (sr_webrtcId ex_request)"
    by (simp_all add: new_webrtc_service_def ex_engine0_no_wrtc_def ex_engine0_def
        new_engine_def ex_request_def truthy_id_def)
  have s: "map_of (sessions (eng_sessions ex_engine0_no_wrtc)) ''s1'' =
             Some (ex_session 0 0)"
    by (simp add: ex_engine0_no_wrtc_def ex_engine0_def new_engine_def session_defs
        example_cfg_defs or_uuid_def ex_session_def Let_def)
  then have h6: "\<forall>s. map_of (sessions (eng_sessions ex_engine0_no_wrtc)) ''s1'' = Some s \<longrightarrow>
                   \<not> truthy_id (s_webrtcId s)"
    by (simp add: ex_session_def truthy_id_def)
  have e: "\<exists>s. map_of (sessions (eng_sessions ex_engine0_no_wrtc)) ''s1'' = Some s \<and>
              \<not> truthy_id (s_webrtcId s)"
    using s by (simp add: ex_session_def truthy_id_def)
  show ?thesis
    using h1 h2 h3 h4 h5 e
      no_wrtc_rejects_channel_and_stream [OF h1 h2 h3 h4 h5 h6,
        of True 0 True 100 id True ex_cfg SESSION_CONFIG STREAMING_CONFIG env_ok "''b1''" "''p1''"]
    by simp
qed

text \<open>
  C6 as stated fails: with the module missing, opening a channel does not complete,
  and stream creation for the session fails with the same error.
\<close>

theorem no_wrtc_createStream_fails_counterexample:
  "createConnection True ''s1'' 0 (new_webrtc_service False) =
     (Inl (Error ''wrtc module not available''), new_webrtc_service False) \<and>
   fst (createStream ex_cfg SESSION_CONFIG STREAMING_CONFIG env_ok True ''s1'' ex_request
          ''b1'' ''p1'' 0 ex_engine0_no_wrtc) =
     Inl (Error ''wrtc module not available'')"
  by (simp add: ex_engine0_no_wrtc_def ex_engine0_def ex_request_def engine_defs pool_defs
      session_defs example_cfg_defs Let_def)

section \<open>Encoder fallback\<close>

lemma indexOf_nth:
  assumes "distinct xs" and "k < length xs"
  shows "indexOf xs (xs ! k) = Some k"
  using assms
proof (induction xs arbitrary: k)
  case Nil
  then show ?case by simp
next
  case (Cons x xs)
  show ?case
  proof (cases k)
    case 0
    then show ?thesis by simp
  next
    case (Suc j)
    with Cons.prems have "xs ! j \<noteq> x" "distinct xs" "j < length xs"
      by auto
    with Cons.IH [of j] Suc show ?thesis by simp
  qed
qed

lemma map_of_map_entry_same:
  "map_of (AList.map_entry k f al) k = map_option f (map_of al k)"
  by (simp add: map_of_map_entry split: option.splits)

lemma fallback_next:
  assumes "map_of (encoders ce) encoderId = Some e"
    and "indexOf (encodingStrategies ce) (e_strategy e) = Some k"
    and "Suc k < length (encodingStrategies ce)"
    and "\<not> e_active e"
  shows "map_option e_strategy
           (map_of (encoders (snd (tryFallbackStrategy spawn_ok encoderId now ce))) encoderId) =
         Some (encodingStrategies ce ! Suc k)"
proof -
  have "k \<noteq> length (encodingStrategies ce) - 1"
    using assms(3) by simp
  with assms show ?thesis
    by (simp add: tryFallbackStrategy_def startEncoder_def set_encoder_def emit_enc_def
        map_of_map_entry_same Let_def)
qed

lemma fallback_last:
  assumes "map_of (encoders ce) encoderId = Some e"
    and "indexOf (encodingStrategies ce) (e_strategy e) = Some k"
    and "Suc k = length (encodingStrategies ce)"
  shows "tryFallbackStrategy spawn_ok encoderId now ce = (False, ce)"
  using assms by (auto simp: tryFallbackStrategy_def)

lemma strategies_set_encoder [simp]:
  "encodingStrategies (set_encoder encoderId f ce) = encodingStrategies ce"
  by (simp add: set_encoder_def)

lemma strategies_emit_enc [simp]:
  "encodingStrategies (emit_enc ev ce) = encodingStrategies ce"
  by (simp add: emit_enc_def)

lemma encoders_emit_enc [simp]:
  "encoders (emit_enc ev ce) = encoders ce"
  by (simp add: emit_enc_def)

lemma fold_onEncoderEvent_other:
  assumes "\<forall>e \<in> set evs. \<forall>sid. e \<noteq> EncodedFrame sid"
  shows "fold (onEncoderEvent cfgS frame_ok n key now) evs eng = eng"
  using assms
  by (induction evs arbitrary: eng) (auto simp: onEncoderEvent_def split: encoder_event.splits)

lemma events_startEncoder:
  "\<exists>evs. enc_events (snd (startEncoder spawn_ok encoderId now ce)) = enc_events ce @ evs \<and>
         (\<forall>e \<in> set evs. \<forall>sid. e \<noteq> EncodedFrame sid)"
  by (auto simp: startEncoder_def set_encoder_def emit_enc_def split: option.splits)

lemma events_tryFallbackStrategy:
  "\<exists>evs. enc_events (snd (tryFallbackStrategy spawn_ok encoderId now ce)) = enc_events ce @ evs \<and>
         (\<forall>e \<in> set evs. \<forall>sid. e \<noteq> EncodedFrame sid)"
proof -
  have "\<exists>evs. enc_events (snd (startEncoder spawn_ok encoderId now (set_encoder encoderId f ce))) =
               enc_events ce @ evs \<and> (\<forall>e \<in> set evs. \<forall>sid. e \<noteq> EncodedFrame sid)" for f
    using events_startEncoder [of spawn_ok encoderId now "set_encoder encoderId f ce"]
    by (simp add: set_encoder_def)
  then show ?thesis
    by (auto simp: tryFallbackStrategy_def Let_def split: option.splits)
qed

lemma events_handleEncoderClosed:
  "\<exists>evs. enc_events (handleEncoderClosed spawn_ok encoderId code now ce) = enc_events ce @ evs \<and>
         (\<forall>e \<in> set evs. \<forall>sid. e \<noteq> EncodedFrame sid)"
proof (cases "map_of (encoders ce) encoderId")
  case None
  then show ?thesis by (simp add: handleEncoderClosed_def)
next
  case (Some e)
  let ?ce1 = "emit_enc (EncoderClosed encoderId code)
                (set_encoder encoderId (\<lambda>e. e\<lparr> e_active := False \<rparr>) ce)"
  have e1: "enc_events ?ce1 = enc_events ce @ [EncoderClosed encoderId code]"
    by (simp add: emit_enc_def set_encoder_def)
  obtain evs where "enc_events (snd (tryFallbackStrategy spawn_ok encoderId now ?ce1)) =
                      enc_events ?ce1 @ evs"
    and "\<forall>e \<in> set evs. \<forall>sid. e \<noteq> EncodedFrame sid"
    using events_tryFallbackStrategy [of spawn_ok encoderId now ?ce1] by blast
  with e1 have "enc_events (snd (tryFallbackStrategy spawn_ok encoderId now ?ce1)) =
                  enc_events ce @ (EncoderClosed encoderId code # evs) \<and>
                (\<forall>e \<in> set (EncoderClosed encoderId code # evs). \<forall>sid. e \<noteq> EncodedFrame sid)"
    by simp
  then have "\<exists>evs. enc_events (snd (tryFallbackStrategy spawn_ok encoderId now ?ce1)) =
                  enc_events ce @ evs \<and> (\<forall>e \<in> set evs. \<forall>sid. e \<noteq> EncodedFrame sid)"
    by blast
  moreover have "\<exists>evs. enc_events ?ce1 = enc_events ce @ evs \<and>
                   (\<forall>e \<in> set evs. \<forall>sid. e \<noteq> EncodedFrame sid)"
    using e1 by simp
  ultimately show ?thesis
    using Some by (cases "code = Some 0") (simp_all add: handleEncoderClosed_def Let_def)
qed

lemma encoderWorkerClosed_engine:
  "encoderWorkerClosed cfgS spawn_ok sessionId code now eng =
     eng\<lparr> eng_encoder := handleEncoderClosed spawn_ok sessionId code now (eng_encoder eng) \<rparr>"
proof -
  obtain evs where
    "enc_events (handleEncoderClosed spawn_ok sessionId code now (eng_encoder eng)) =
       enc_events (eng_encoder eng) @ evs"
    and "\<forall>e \<in> set evs. \<forall>sid. e \<noteq> EncodedFrame sid"
    using events_handleEncoderClosed by blast
  then show ?thesis
    by (simp add: encoderWorkerClosed_def deliverEncoderEvents_def fold_onEncoderEvent_other)
qed


lemma events_handleEncoderError:
  "\<exists>evs. enc_events (handleEncoderError spawn_ok encoderId now ce) = enc_events ce @ evs \<and>
         (\<forall>e \<in> set evs. \<forall>sid. e \<noteq> EncodedFrame sid)"
proof (cases "map_of (encoders ce) encoderId")
  case None
  then show ?thesis by (simp add: handleEncoderError_def)
next
  case (Some e)
  let ?ce1 = "emit_enc (EncoderError encoderId)
                (set_encoder encoderId (\<lambda>e. e\<lparr> e_active := False \<rparr>) ce)"
  have e1: "enc_events ?ce1 = enc_events ce @ [EncoderError encoderId]"
    by (simp add: emit_enc_def set_encoder_def)
  obtain evs where "enc_events (snd (tryFallbackStrategy spawn_ok encoderId now ?ce1)) =
                      enc_events ?ce1 @ evs"
    and "\<forall>e \<in> set evs. \<forall>sid. e \<noteq> EncodedFrame sid"
    using events_tryFallbackStrategy [of spawn_ok encoderId now ?ce1] by blast
  with e1 have "enc_events (snd (tryFallbackStrategy spawn_ok encoderId now ?ce1)) =
                  enc_events ce @ (EncoderError encoderId # evs) \<and>
                (\<forall>e \<in> set (EncoderError encoderId # evs). \<forall>sid. e \<noteq> EncodedFrame sid)"
    by simp
  then have "\<exists>evs. enc_events (snd (tryFallbackStrategy spawn_ok encoderId now ?ce1)) =
                  enc_events ce @ evs \<and> (\<forall>e \<in> set evs. \<forall>sid. e \<noteq> EncodedFrame sid)"
    by blast
  then show ?thesis
    using Some by (simp add: handleEncoderError_def)
qed

lemma encoderWorkerError_engine:
  "encoderWorkerError cfgS spawn_ok sessionId now eng =
     eng\<lparr> eng_encoder := handleEncoderError spawn_ok sessionId now (eng_encoder eng) \<rparr>"
proof -
  obtain evs where
    "enc_events (handleEncoderError spawn_ok sessionId now (eng_encoder eng)) =
       enc_events (eng_encoder eng) @ evs"
    and "\<forall>e \<in> set evs. \<forall>sid. e \<noteq> EncodedFrame sid"
    using events_handleEncoderError by blast
  then show ?thesis
    by (simp add: encoderWorkerError_def deliverEncoderEvents_def fold_onEncoderEvent_other)
qed

text \<open>
  C4 (amended). A fatal worker error, or a worker exit with a code other than 0, while
  the encoder's strategy is entry \<open>k\<close> of the fallback chain: if the chain has an entry
  \<open>k + 1\<close>, the strategy becomes exactly that entry; it never moves back. If \<open>k\<close> is the last entry, the strategy stays, the encoder is
  left inactive in the registry, \<open>tryFallbackStrategy\<close> answers \<open>false\<close>, and nothing
  reaches the stream: the engine listens to none of the events emitted, so its streams
  are left as they were and it emits no event, \<open>streamClosed\<close> or other.
\<close>

theorem fallback_advances_one_step:
  assumes "map_of (encoders ce) encoderId = Some e"
    and "distinct (encodingStrategies ce)"
    and "k < length (encodingStrategies ce)"
    and "e_strategy e = encodingStrategies ce ! k"
    and "code \<noteq> Some 0"
    and "eng_encoder eng = ce"
  shows "(Suc k < length (encodingStrategies ce) \<longrightarrow>
           map_option e_strategy
             (map_of (encoders (handleEncoderClosed spawn_ok encoderId code now ce)) encoderId) =
             Some (encodingStrategies ce ! Suc k) \<and>
           map_option e_strategy
             (map_of (encoders (handleEncoderError spawn_ok encoderId now ce)) encoderId) =
             Some (encodingStrategies ce ! Suc k)) \<and>
         (Suc k = length (encodingStrategies ce) \<longrightarrow>
           map_of (encoders (handleEncoderClosed spawn_ok encoderId code now ce)) encoderId =
             Some (e\<lparr> e_active := False \<rparr>) \<and>
           map_of (encoders (handleEncoderError spawn_ok encoderId now ce)) encoderId =
             Some (e\<lparr> e_active := False \<rparr>) \<and>
           tryFallbackStrategy spawn_ok encoderId now ce = (False, ce) \<and>
           streams (encoderWorkerClosed cfgS spawn_ok encoderId code now eng) = streams eng \<and>
           eng_events (encoderWorkerClosed cfgS spawn_ok encoderId code now eng) = eng_events eng \<and>
           streams (encoderWorkerError cfgS spawn_ok encoderId now eng) = streams eng \<and>
           eng_events (encoderWorkerError cfgS spawn_ok encoderId now eng) = eng_events eng)"
proof -
  have idx: "indexOf (encodingStrategies ce) (e_strategy e) = Some k"
    using assms(2,3,4) by (simp add: indexOf_nth)
  let ?off = "set_encoder encoderId (\<lambda>e. e\<lparr> e_active := False \<rparr>) ce"
  have off: "map_of (encoders (emit_enc ev ?off)) encoderId = Some (e\<lparr> e_active := False \<rparr>)" for ev
    using assms(1) by (simp add: set_encoder_def map_of_map_entry_same)
  have idx_off: "indexOf (encodingStrategies (emit_enc ev ?off))
                   (e_strategy (e\<lparr> e_active := False \<rparr>)) = Some k" for ev
    using idx by simp
  have step: "map_option e_strategy
                (map_of (encoders (handleEncoderClosed spawn_ok encoderId code now ce)) encoderId) =
                Some (encodingStrategies ce ! Suc k) \<and>
              map_option e_strategy
                (map_of (encoders (handleEncoderError spawn_ok encoderId now ce)) encoderId) =
                Some (encodingStrategies ce ! Suc k)"
    if "Suc k < length (encodingStrategies ce)"
    using fallback_next [OF off idx_off, of _ spawn_ok now] that assms(1,5)
    by (simp add: handleEncoderClosed_def handleEncoderError_def Let_def)
  have last: "map_of (encoders (handleEncoderClosed spawn_ok encoderId code now ce)) encoderId =
                Some (e\<lparr> e_active := False \<rparr>) \<and>
              map_of (encoders (handleEncoderError spawn_ok encoderId now ce)) encoderId =
                Some (e\<lparr> e_active := False \<rparr>) \<and>
              tryFallbackStrategy spawn_ok encoderId now ce = (False, ce)"
    if "Suc k = length (encodingStrategies ce)"
    using fallback_last [OF off idx_off, of _ spawn_ok now] that assms(1,5) off
      fallback_last [OF assms(1) idx, of spawn_ok now]
    by (simp add: handleEncoderClosed_def handleEncoderError_def Let_def)
  have eng: "streams (encoderWorkerClosed cfgS spawn_ok encoderId code now eng) = streams eng \<and>
             eng_events (encoderWorkerClosed cfgS spawn_ok encoderId code now eng) = eng_events eng \<and>
             streams (encoderWorkerError cfgS spawn_ok encoderId now eng) = streams eng \<and>
             eng_events (encoderWorkerError cfgS spawn_ok encoderId now eng) = eng_events eng"
    by (simp add: encoderWorkerClosed_engine encoderWorkerError_engine)
  from step last eng show ?thesis by blast
qed

lemma ex_mjpeg_engine_encoder:
  "eng_encoder ex_mjpeg_engine =
     \<lparr> encoders =
         [(''s1'',
           \<lparr> e_strategy = ''mjpeg'', e_frameRate = 30, e_bitrate = 3000, e_process = True,
             e_active = True, e_framesEncoded = 0, e_bytesEncoded = 0, e_encodingTime = 0,
             e_startTime = Some 1, e_lastFrameTime = None \<rparr>)],
       encodingStrategies = [''cuda_h264'', ''cuda_hevc'', ''cpu_h264'', ''cpu_hevc'', ''mjpeg''],
       currentStrategy = ''cuda_h264'', enc_events = [EncoderStarted ''s1''] \<rparr>"
  by (simp add: ex_mjpeg_engine_def ex_engine0_def ex_request_def engine_defs pool_defs
      session_defs example_cfg_defs startEncoder_def set_encoder_def emit_enc_def Let_def)

theorem fallback_advances_one_step_witness:
  "map_option e_strategy
     (map_of (encoders (handleEncoderClosed True ''s1'' (Some 1) 5 (eng_encoder ex_engine)))
        ''s1'') = Some ''cuda_hevc'' \<and>
   map_option e_strategy
     (map_of (encoders (handleEncoderClosed True ''s1'' (Some 1) 5 (eng_encoder ex_mjpeg_engine)))
        ''s1'') = Some ''mjpeg'' \<and>
   streams (encoderWorkerClosed SESSION_CONFIG True ''s1'' (Some 1) 5 ex_mjpeg_engine) =
     streams ex_mjpeg_engine"
proof -
  let ?e0 = "\<lparr> e_strategy = ''cuda_h264'', e_frameRate = 30, e_bitrate = 3000,
               e_process = False, e_active = False, e_framesEncoded = 0, e_bytesEncoded = 0,
               e_encodingTime = 0, e_startTime = None, e_lastFrameTime = None \<rparr>"
  let ?e4 = "\<lparr> e_strategy = ''mjpeg'', e_frameRate = 30, e_bitrate = 3000, e_process = True,
               e_active = True, e_framesEncoded = 0, e_bytesEncoded = 0, e_encodingTime = 0,
               e_startTime = Some 1, e_lastFrameTime = None \<rparr>"
  have a: "map_of (encoders (eng_encoder ex_engine)) ''s1'' = Some ?e0"
    and b: "distinct (encodingStrategies (eng_encoder ex_engine))"
    and c: "0 < length (encodingStrategies (eng_encoder ex_engine))"
    and d: "e_strategy ?e0 = encodingStrategies (eng_encoder ex_engine) ! 0"
    by (simp_all add: ex_engine_eq)
  have a': "map_of (encoders (eng_encoder ex_mjpeg_engine)) ''s1'' = Some ?e4"
    and b': "distinct (encodingStrategies (eng_encoder ex_mjpeg_engine))"
    and c': "4 < length (encodingStrategies (eng_encoder ex_mjpeg_engine))"
    and d': "e_strategy ?e4 = encodingStrategies (eng_encoder ex_mjpeg_engine) ! 4"
    by (simp_all add: ex_mjpeg_engine_encoder)
  have code: "Some (1::int) \<noteq> Some 0" by simp
  show ?thesis
    using fallback_advances_one_step [OF a b c d code refl, of True 5 SESSION_CONFIG]
      fallback_advances_one_step [OF a' b' c' d' code refl, of True 5 SESSION_CONFIG]
    by (simp add: ex_engine_eq ex_mjpeg_engine_encoder)
qed

text \<open>
  C4 as stated fails at the end of the chain: the encoder of \<open>s1\<close> runs \<open>mjpeg\<close>, the
  last strategy; its worker exits with code 1; afterwards the stream of \<open>s1\<close> is still
  registered and active, and the engine has emitted nothing since \<open>streamCreated\<close>.
\<close>

theorem last_strategy_failure_leaves_stream_open_counterexample:
  "map_option e_strategy (map_of (encoders (eng_encoder ex_mjpeg_engine)) ''s1'') =
     Some (last ENCODING_STRATEGIES) \<and>
   map_option st_active
     (map_of (streams (encoderWorkerClosed SESSION_CONFIG True ''s1'' (Some 1) 5 ex_mjpeg_engine))
        ''s1'') = Some True \<and>
   eng_events (encoderWorkerClosed SESSION_CONFIG True ''s1'' (Some 1) 5 ex_mjpeg_engine) =
     [StreamCreated ''s1'']"
  by (simp add: encoderWorkerClosed_engine ex_mjpeg_engine_encoder ENCODING_STRATEGIES_def)
    (simp add: ex_mjpeg_engine_def ex_engine0_def ex_request_def engine_defs pool_defs
      session_defs example_cfg_defs Let_def)

section \<open>Adaptive quality\<close>

lemma current_set_target [simp]:
  "aq_currentQuality (set_targetBitrate x c) = aq_currentQuality c"
  "aq_currentQuality (set_targetFrameRate x c) = aq_currentQuality c"
  by (simp_all add: set_targetBitrate_def set_targetFrameRate_def)

lemma current_adjustQuality [simp]:
  "aq_currentQuality (fst (adjustQuality scfg net enc c)) = aq_currentQuality c"
  by (simp add: adjustQuality_def Let_def split: prod.splits)

lemma current_sampleStats [simp]:
  "aq_currentQuality (sampleStats webrtcStats encoderStats c) = aq_currentQuality c"
  by (simp add: sampleStats_def Let_def)

lemma decideAndApply_without_update:
  assumes "\<not> has_updateEncoderOptions api"
  shows "aq_currentQuality (fst (snd (decideAndApply api scfg sessionId c ce))) =
           aq_currentQuality c"
proof -
  obtain c1 ch where a: "adjustQuality scfg
      (networkCondition (average (aq_rtt c)) (average (aq_jitter c)) (average (aq_packetLoss c)))
      (encodingCondition (average (aq_encodingTimes c))) c = (c1, ch)"
    by (cases "adjustQuality scfg
      (networkCondition (average (aq_rtt c)) (average (aq_jitter c)) (average (aq_packetLoss c)))
      (encodingCondition (average (aq_encodingTimes c))) c")
  have "aq_currentQuality c1 = aq_currentQuality c"
    using current_adjustQuality [of scfg _ _ c] a by (metis fst_conv)
  with a assms show ?thesis
    by (simp add: decideAndApply_def updateEncoderOptions_def Let_def)
qed

lemma map_snd_map_entry:
  assumes "\<And>v. map_of al k = Some v \<Longrightarrow> h (f v) = h v"
  shows "map (\<lambda>(k, v). (k, h v)) (AList.map_entry k f al) = map (\<lambda>(k, v). (k, h v)) al"
  using assms by (induction al) auto

lemma current_set_controller:
  assumes "map_of (adaptiveQualityControllers eng) sessionId = Some c"
    and "aq_currentQuality c' = aq_currentQuality c"
  shows "map (\<lambda>(k, c). (k, aq_currentQuality c))
           (adaptiveQualityControllers (set_controller sessionId (\<lambda>_. c') eng)) =
         map (\<lambda>(k, c). (k, aq_currentQuality c)) (adaptiveQualityControllers eng)"
  using assms by (simp add: set_controller_def) (rule map_snd_map_entry, simp)

lemma lookup_set_controller:
  assumes "map_of (adaptiveQualityControllers eng) sessionId = Some c"
  shows "map_of (adaptiveQualityControllers (set_controller sessionId (\<lambda>_. c') eng)) sessionId =
           Some c'"
  using assms by (simp add: set_controller_def map_of_map_entry)

lemma applyAdaptiveQuality_without_update:
  assumes "\<not> has_updateEncoderOptions api"
  shows "map (\<lambda>(k, c). (k, aq_currentQuality c))
           (adaptiveQualityControllers
              (snd (applyAdaptiveQuality api scfg live sessionId now eng))) =
         map (\<lambda>(k, c). (k, aq_currentQuality c)) (adaptiveQualityControllers eng)"
proof (cases "map_of (adaptiveQualityControllers eng) sessionId")
  case None
  then show ?thesis by (simp add: applyAdaptiveQuality_def)
next
  case (Some c)
  define c0 where "c0 = c\<lparr> aq_lastAdjustmentTime := now \<rparr>"
  define eng0 where "eng0 = set_controller sessionId (\<lambda>_. c0) eng"
  have cur0: "map (\<lambda>(k, c). (k, aq_currentQuality c)) (adaptiveQualityControllers eng0) =
              map (\<lambda>(k, c). (k, aq_currentQuality c)) (adaptiveQualityControllers eng)"
    unfolding eng0_def by (rule current_set_controller [OF Some]) (simp add: c0_def)
  have look0: "map_of (adaptiveQualityControllers eng0) sessionId = Some c0"
    unfolding eng0_def by (rule lookup_set_controller [OF Some])
  obtain ws w1 where gs: "getConnectionStats live sessionId now (eng_webrtc eng0) = (ws, w1)"
    by (cases "getConnectionStats live sessionId now (eng_webrtc eng0)")
  show ?thesis
  proof (cases "aq_enabled c \<and> \<not> now - aq_lastAdjustmentTime c < aq_adjustmentInterval c
                 \<and> ws \<noteq> None \<and> getEncoderStats sessionId (eng_encoder eng0) \<noteq> None")
    case False
    with Some cur0 gs show ?thesis
      by (auto simp: applyAdaptiveQuality_def Let_def c0_def [symmetric] eng0_def [symmetric]
          split: option.splits)
  next
    case True
    then obtain webrtcStats encoderStats where ws: "ws = Some webrtcStats"
      and es: "getEncoderStats sessionId (eng_encoder eng0) = Some encoderStats"
      by auto
    define eng1 where "eng1 = eng0\<lparr> eng_webrtc := w1 \<rparr>"
    obtain r c' ce' evs where d:
      "decideAndApply api scfg sessionId (sampleStats webrtcStats encoderStats c0)
         (eng_encoder eng0) = (r, c', ce', evs)"
      by (cases "decideAndApply api scfg sessionId (sampleStats webrtcStats encoderStats c0)
         (eng_encoder eng0)")
    have "aq_currentQuality c' = aq_currentQuality c0"
      using decideAndApply_without_update [OF assms, of scfg sessionId
          "sampleStats webrtcStats encoderStats c0" "eng_encoder eng0"] d
      by simp
    moreover have "map_of (adaptiveQualityControllers eng1) sessionId = Some c0"
      using look0 by (simp add: eng1_def)
    ultimately have "map (\<lambda>(k, c). (k, aq_currentQuality c))
                       (adaptiveQualityControllers (set_controller sessionId (\<lambda>_. c') eng1)) =
                     map (\<lambda>(k, c). (k, aq_currentQuality c)) (adaptiveQualityControllers eng1)"
      by (intro current_set_controller)
    then have fin: "map (\<lambda>(k, c). (k, aq_currentQuality c))
                       (adaptiveQualityControllers (set_controller sessionId (\<lambda>_. c') eng1)) =
                     map (\<lambda>(k, c). (k, aq_currentQuality c)) (adaptiveQualityControllers eng)"
      using cur0 by (simp add: eng1_def)
    from True Some gs ws es d fin show ?thesis
      by (simp add: applyAdaptiveQuality_def Let_def c0_def [symmetric] eng0_def [symmetric]
          eng1_def [symmetric])
  qed
qed


text \<open>
  C5 fails on the engine as the application wires it. The encoder handed to the
  engine has no \<open>updateEncoderOptions\<close>; a tick that rewrites a target calls it, the
  \<open>TypeError\<close> lands in the method's \<open>catch\<close>, and the current quality is never
  replaced. On the stream of \<open>s1\<close>, started at 3000 kbit/s, the first poor tick sets
  the target bit rate to 2400 and answers \<open>false\<close>, and after any number of poor
  ticks the current bit rate is still 3000: it neither shrinks nor reaches the floor.
\<close>

theorem poor_ticks_never_lower_current_bitrate:
  "currentBitrates ex_engine = [3000] \<and>
   fst (applyAdaptiveQuality CUDAEncoder_api STREAMING_CONFIG ex_poor_report ''s1'' 5000
          ex_engine) = False \<and>
   map (q_bitrate \<circ> aq_targetQuality \<circ> snd)
     (adaptiveQualityControllers (ex_poor_ticks CUDAEncoder_api 1 ex_engine)) = [2400] \<and>
   currentBitrates (ex_poor_ticks CUDAEncoder_api n ex_engine) = [3000]"
proof -
  have cur: "currentBitrates eng =
               map (q_bitrate \<circ> snd)
                 (map (\<lambda>(k, c). (k, aq_currentQuality c)) (adaptiveQualityControllers eng))"
    for eng
    by (simp add: currentBitrates_def comp_def case_prod_unfold)
  have start: "currentBitrates ex_engine = [3000]"
    by (simp add: currentBitrates_def ex_engine_eq)
  have keep: "currentBitrates (ex_poor_ticks CUDAEncoder_api n ex_engine) =
                currentBitrates ex_engine"
  proof (induction n)
    case 0
    then show ?case by simp
  next
    case (Suc n)
    have "\<not> has_updateEncoderOptions CUDAEncoder_api"
      by (simp add: CUDAEncoder_api_def)
    from applyAdaptiveQuality_without_update [OF this] Suc show ?case
      by (simp add: cur)
  qed
  have first: "fst (applyAdaptiveQuality CUDAEncoder_api STREAMING_CONFIG ex_poor_report ''s1''
                      5000 ex_engine) = False \<and>
               map (q_bitrate \<circ> aq_targetQuality \<circ> snd)
                 (adaptiveQualityControllers (ex_poor_ticks CUDAEncoder_api 1 ex_engine)) = [2400]"
    by (simp add: ex_engine_eq applyAdaptiveQuality_def set_controller_def
        getConnectionStats_def getConnection_def getEncoderStats_def ex_poor_report_def
        decideAndApply_def sampleStats_def average_def networkCondition_def
        encodingCondition_def adjustQuality_def set_targetBitrate_def set_targetFrameRate_def
        updateEncoderOptions_def CUDAEncoder_api_def STREAMING_CONFIG_def Let_def)
  from start keep first show ?thesis by simp
qed

text \<open>
  With an encoder that has the method, a tick does what C5 says. Between ticks the
  target equals the current quality; a tick that classifies network or encoding as
  poor never raises the bit rate, lowers it while it is above the floor, and never
  takes it from at or above the floor to below it; a tick that classifies both as good
  never lowers it and never takes it beyond the ceiling of the stream's options.
\<close>

lemma poor_tick_with_update:
  assumes "has_updateEncoderOptions api"
    and "aq_targetQuality c = aq_currentQuality c"
    and "networkCondition (average (aq_rtt c)) (average (aq_jitter c))
           (average (aq_packetLoss c)) = poor \<or>
         encodingCondition (average (aq_encodingTimes c)) = poor"
    and "0 \<le> minBitrate scfg"
    and "c' = fst (snd (decideAndApply api scfg sessionId c ce))"
  shows "q_bitrate (aq_currentQuality c') \<le> q_bitrate (aq_currentQuality c) \<and>
         (minBitrate scfg < q_bitrate (aq_currentQuality c) \<longrightarrow>
            q_bitrate (aq_currentQuality c') < q_bitrate (aq_currentQuality c) \<and>
            q_bitrate (aq_currentQuality c') =
              max (q_bitrate (aq_currentQuality c) * (8 / 10)) (minBitrate scfg)) \<and>
         (minBitrate scfg \<le> q_bitrate (aq_currentQuality c) \<longrightarrow>
            minBitrate scfg \<le> q_bitrate (aq_currentQuality c')) \<and>
         aq_targetQuality c' = aq_currentQuality c'"
  using assms
  by (auto simp: decideAndApply_def adjustQuality_def updateEncoderOptions_def
      set_targetBitrate_def set_targetFrameRate_def Let_def max_def)

lemma good_tick_with_update:
  assumes "has_updateEncoderOptions api"
    and "aq_targetQuality c = aq_currentQuality c"
    and "networkCondition (average (aq_rtt c)) (average (aq_jitter c))
           (average (aq_packetLoss c)) = good"
    and "encodingCondition (average (aq_encodingTimes c)) = good"
    and "0 \<le> q_bitrate (aq_currentQuality c)"
    and "c' = fst (snd (decideAndApply api scfg sessionId c ce))"
  shows "q_bitrate (aq_currentQuality c) \<le> q_bitrate (aq_currentQuality c') \<and>
         (q_bitrate (aq_currentQuality c) \<le> so_bitrate (aq_options c) \<longrightarrow>
            q_bitrate (aq_currentQuality c') \<le> so_bitrate (aq_options c)) \<and>
         aq_targetQuality c' = aq_currentQuality c'"
  using assms
  by (auto simp: decideAndApply_def adjustQuality_def updateEncoderOptions_def
      set_targetBitrate_def set_targetFrameRate_def Let_def min_def)

section \<open>Frame gate\<close>

text \<open>
  How the steps of the pipeline act on the streams, on the frame processors and on the
  two bookkeeping lists. No step changes the page a stream is bound to or whether it is
  active; only an accepted raw frame moves the last accepted instant of a frame
  processor, and nothing moves its frame interval.
\<close>

section \<open>Frame gate\<close>

lemma map_entry_view:
  assumes "\<And>v. h (f v) = h v"
  shows "map (\<lambda>(k, v). (k, h v)) (AList.map_entry k f al) = map (\<lambda>(k, v). (k, h v)) al"
  using assms by (induction al) auto

lemma map_entry_map_entry:
  "AList.map_entry k f (AList.map_entry k g al) = AList.map_entry k (f \<circ> g) al"
  by (induction al) auto

lemma map_of_map_entry_other:
  "k' \<noteq> k \<Longrightarrow> map_of (AList.map_entry k f al) k' = map_of al k'"
  by (simp add: map_of_map_entry)

lemma streamView_set_stream:
  assumes "\<And>st. st_pageId (f st) = st_pageId st" and "\<And>st. st_active (f st) = st_active st"
  shows "streamView (set_stream sessionId f eng) = streamView eng"
  using assms
  by (simp add: streamView_def set_stream_def
      map_entry_view [where h = "\<lambda>st. (st_pageId st, st_active st)", simplified])

lemma streams_set_frameProcessor [simp]:
  "streams (set_frameProcessor sessionId f eng) = streams eng"
  by (simp add: set_frameProcessor_def)

lemma frameProcessors_set_stream [simp]:
  "frameProcessors (set_stream sessionId f eng) = frameProcessors eng"
  by (simp add: set_stream_def)

lemma frameProcessors_set_frameProcessor [simp]:
  "frameProcessors (set_frameProcessor sessionId f eng) =
     AList.map_entry sessionId f (frameProcessors eng)"
  by (simp add: set_frameProcessor_def)

lemma encoding_set [simp]:
  "encoding (set_frameProcessor sessionId f eng) = encoding eng"
  "encoding (set_stream sessionId g eng) = encoding eng"
  "immediates (set_frameProcessor sessionId f eng) = immediates eng"
  "immediates (set_stream sessionId g eng) = immediates eng"
  by (simp_all add: set_frameProcessor_def set_stream_def)

lemma streams_processFrame [simp]:
  "streams (snd (processFrame sessionId frameObject eng)) = streams eng"
  by (simp add: processFrame_def split: option.splits)

lemma map_entry_absent:
  "map_of al k = None \<Longrightarrow> AList.map_entry k f al = al"
  by (induction al) (auto split: if_splits)

lemma map_entry_cong_at:
  "map_of al k = Some v \<Longrightarrow> f v = g v \<Longrightarrow> AList.map_entry k f al = AList.map_entry k g al"
  by (induction al) (auto split: if_splits)

lemma frameProcessors_processFrame:
  "frameProcessors (snd (processFrame sessionId frameObject eng)) =
     AList.map_entry sessionId (queueOrStart frameObject) (frameProcessors eng)"
proof (cases "map_of (frameProcessors eng) sessionId")
  case None
  then show ?thesis by (simp add: processFrame_def map_entry_absent)
next
  case (Some fp)
  show ?thesis
  proof (cases "fp_processing fp")
    case True
    with Some show ?thesis
      by (simp add: processFrame_def)
         (rule map_entry_cong_at [OF Some], simp add: queueOrStart_def)
  next
    case False
    with Some show ?thesis
      by (simp add: processFrame_def)
         (rule map_entry_cong_at [OF Some], simp add: queueOrStart_def)
  qed
qed

lemma gate_queueOrStart [simp]:
  "fp_lastFrameTimestamp (queueOrStart frameObject fp) = fp_lastFrameTimestamp fp"
  "fp_frameInterval (queueOrStart frameObject fp) = fp_frameInterval fp"
  by (simp_all add: queueOrStart_def)

lemma gateView_map_entry:
  assumes "\<And>fp. fp_lastFrameTimestamp (f fp) = fp_lastFrameTimestamp fp"
    and "\<And>fp. fp_frameInterval (f fp) = fp_frameInterval fp"
  shows "map (\<lambda>(sid, fp). (sid, fp_lastFrameTimestamp fp, fp_frameInterval fp))
           (AList.map_entry k f al) =
         map (\<lambda>(sid, fp). (sid, fp_lastFrameTimestamp fp, fp_frameInterval fp)) al"
  using assms
  by (simp add: map_entry_view
      [where h = "\<lambda>fp. (fp_lastFrameTimestamp fp, fp_frameInterval fp)", simplified])

text \<open>Nothing but a raw frame touches the stream view or the gate view.\<close>

lemma views_applyAdaptiveQuality [simp]:
  "streams (snd (applyAdaptiveQuality api scfg live sessionId now eng)) = streams eng"
  "frameProcessors (snd (applyAdaptiveQuality api scfg live sessionId now eng)) =
     frameProcessors eng"
  "encoding (snd (applyAdaptiveQuality api scfg live sessionId now eng)) = encoding eng"
  "immediates (snd (applyAdaptiveQuality api scfg live sessionId now eng)) = immediates eng"
  by (simp_all add: applyAdaptiveQuality_def set_controller_def Let_def
      split: option.splits prod.splits)

lemma views_updatePerformanceMetrics [simp]:
  "streams (updatePerformanceMetrics sessionId x now eng) = streams eng"
  "frameProcessors (updatePerformanceMetrics sessionId x now eng) = frameProcessors eng"
  "encoding (updatePerformanceMetrics sessionId x now eng) = encoding eng"
  "immediates (updatePerformanceMetrics sessionId x now eng) = immediates eng"
  by (simp_all add: updatePerformanceMetrics_def)


lemma streams_processFrameRest [simp]:
  "streams (processFrameRest api scfg live write_ok sessionId tTick t0 t1 eng) = streams eng"
  by (simp add: processFrameRest_def Let_def split: option.splits list.splits)

lemma lookup_processFrameRest:
  "map_of (frameProcessors (processFrameRest api scfg live write_ok sessionId tTick t0 t1 eng))
     sid =
   (if sid = sessionId \<and> map_of (encoding eng) sessionId \<noteq> None
    then map_option finishFrame (map_of (frameProcessors eng) sessionId)
    else map_of (frameProcessors eng) sid)"
  by (cases "map_of (frameProcessors eng) sessionId")
     (auto simp: processFrameRest_def Let_def map_of_map_entry finishFrame_def
        split: option.splits list.splits)

lemma gateView_processFrameRest [simp]:
  "gateView (processFrameRest api scfg live write_ok sessionId tTick t0 t1 eng) = gateView eng"
  by (simp add: processFrameRest_def Let_def gateView_def gateView_map_entry
      split: option.splits list.splits)

lemma lookup_processFrame:
  "map_of (frameProcessors (snd (processFrame sessionId frameObject eng))) sid =
   (if sid = sessionId
    then map_option (queueOrStart frameObject) (map_of (frameProcessors eng) sessionId)
    else map_of (frameProcessors eng) sid)"
  by (simp add: frameProcessors_processFrame map_of_map_entry split: option.splits)

lemma gateView_processFrame [simp]:
  "gateView (snd (processFrame sessionId frameObject eng)) = gateView eng"
  by (simp add: gateView_def frameProcessors_processFrame gateView_map_entry)

lemma encoding_processFrameRest:
  "encoding (processFrameRest api scfg live write_ok sessionId tTick t0 t1 eng) =
     (case map_of (encoding eng) sessionId of
        None \<Rightarrow> encoding eng
      | Some frameObject \<Rightarrow> remove1 (sessionId, frameObject) (encoding eng))"
  by (simp add: processFrameRest_def Let_def split: option.splits list.splits)

lemma immediates_processFrameRest:
  "immediates (processFrameRest api scfg live write_ok sessionId tTick t0 t1 eng) =
     immediates eng @
     (case map_of (encoding eng) sessionId of
        None \<Rightarrow> []
      | Some frameObject \<Rightarrow>
          (case map_of (frameProcessors eng) sessionId of
             None \<Rightarrow> []
           | Some fp \<Rightarrow>
               (case fp_frameQueue fp of [] \<Rightarrow> [] | nextFrame # rest \<Rightarrow> [(sessionId, nextFrame)])))"
  by (simp add: processFrameRest_def Let_def map_of_map_entry split: option.splits list.splits)

lemma gate_finishFrame [simp]:
  "fp_lastFrameTimestamp (finishFrame fp) = fp_lastFrameTimestamp fp"
  "fp_frameInterval (finishFrame fp) = fp_frameInterval fp"
  by (simp_all add: finishFrame_def)

lemma streams_runImmediate [simp]: "streams (runImmediate eng) = streams eng"
  by (simp add: runImmediate_def split: list.splits prod.splits)

lemma gateView_runImmediate [simp]: "gateView (runImmediate eng) = gateView eng"
proof (cases "immediates eng")
  case Nil
  then show ?thesis by (simp add: runImmediate_def)
next
  case (Cons x rest)
  obtain sessionId nextFrame where "x = (sessionId, nextFrame)" by (cases x)
  with Cons have "runImmediate eng =
                    snd (processFrame sessionId nextFrame (eng\<lparr> immediates := rest \<rparr>))"
    by (simp add: runImmediate_def)
  then show ?thesis
    by (simp add: gateView_def [of "eng\<lparr> immediates := rest \<rparr>"] gateView_def [of eng]
             gateView_processFrame [unfolded gateView_def])
qed


lemma find_view:
  assumes "map (\<lambda>(k, v). (k, h v)) xs = map (\<lambda>(k, v). (k, h v)) ys"
  shows "map_option fst (find (\<lambda>(k, v). P (h v)) xs) =
         map_option fst (find (\<lambda>(k, v). P (h v)) ys)"
  using assms
proof (induction xs arbitrary: ys)
  case Nil
  then show ?case by simp
next
  case (Cons x xs)
  then obtain y ys' where ys: "ys = y # ys'" by (cases ys) auto
  with Cons.prems have "fst x = fst y" "h (snd x) = h (snd y)"
    and "map (\<lambda>(k, v). (k, h v)) xs = map (\<lambda>(k, v). (k, h v)) ys'"
    by (auto simp: case_prod_unfold)
  with Cons.IH [of ys'] ys show ?case
    by (auto simp: case_prod_unfold)
qed

lemma map_of_view:
  assumes "map (\<lambda>(k, v). (k, h v)) xs = map (\<lambda>(k, v). (k, h v)) ys"
  shows "map_option h (map_of xs k) = map_option h (map_of ys k)"
  using assms
proof (induction xs arbitrary: ys)
  case Nil
  then show ?case by simp
next
  case (Cons x xs)
  then obtain y ys' where ys: "ys = y # ys'" by (cases ys) auto
  with Cons.prems have "fst x = fst y" "h (snd x) = h (snd y)"
    and "map (\<lambda>(k, v). (k, h v)) xs = map (\<lambda>(k, v). (k, h v)) ys'"
    by (auto simp: case_prod_unfold)
  with Cons.IH [of ys'] ys show ?case
    by (cases x; cases y) auto
qed

lemma gateOf_SomeD:
  assumes "gateOf pageId eng = Some (sid, fp)"
  shows "\<exists>st0 stream.
           find (\<lambda>(sid, st). st_pageId st = pageId) (streams eng) = Some (sid, st0) \<and>
           sid \<noteq> [] \<and> map_of (streams eng) sid = Some stream \<and> st_active stream \<and>
           map_of (frameProcessors eng) sid = Some fp"
  using assms
  by (auto simp: gateOf_def split: option.splits prod.splits if_splits)

lemma gateOf_transfer:
  assumes sv: "streamView eng' = streamView eng"
    and g: "gateOf pageId eng = Some (sid, fp)"
    and l: "map_of (frameProcessors eng') sid = Some fp'"
  shows "gateOf pageId eng' = Some (sid, fp')"
proof -
  from gateOf_SomeD [OF g] obtain st0 stream where
    f: "find (\<lambda>(sid, st). st_pageId st = pageId) (streams eng) = Some (sid, st0)"
    and ne: "sid \<noteq> []" and m: "map_of (streams eng) sid = Some stream"
    and a: "st_active stream"
    by blast
  let ?h = "\<lambda>st. (st_pageId st, st_active st)"
  have v: "map (\<lambda>(k, v). (k, ?h v)) (streams eng') = map (\<lambda>(k, v). (k, ?h v)) (streams eng)"
    using sv by (simp add: streamView_def)
  have "map_option fst (find (\<lambda>(k, v). fst (?h v) = pageId) (streams eng')) =
        map_option fst (find (\<lambda>(k, v). fst (?h v) = pageId) (streams eng))"
    by (rule find_view [OF v, where P = "\<lambda>x. fst x = pageId"])
  with f obtain st0' where
    f': "find (\<lambda>(sid, st). st_pageId st = pageId) (streams eng') = Some (sid, st0')"
    by auto
  have "map_option ?h (map_of (streams eng') sid) = map_option ?h (map_of (streams eng) sid)"
    by (rule map_of_view [OF v])
  with m a obtain stream' where m': "map_of (streams eng') sid = Some stream'"
    and a': "st_active stream'"
    by auto
  from f' ne m' a' l show ?thesis
    by (simp add: gateOf_def)
qed

lemma gate_keys_differ:
  assumes d: "distinct (map fst (streams eng))"
    and g: "gateOf pageId eng = Some (sid, fp)"
    and g': "gateOf p eng = Some (sid', fp')"
    and ne: "p \<noteq> pageId"
  shows "sid' \<noteq> sid"
proof
  assume eq: "sid' = sid"
  from gateOf_SomeD [OF g] obtain st0 where
    "find (\<lambda>(sid, st). st_pageId st = pageId) (streams eng) = Some (sid, st0)" by blast
  then have a: "(sid, st0) \<in> set (streams eng)" "st_pageId st0 = pageId"
    by (auto simp: find_Some_iff set_conv_nth)
  from gateOf_SomeD [OF g'] obtain st1 where
    "find (\<lambda>(sid, st). st_pageId st = p) (streams eng) = Some (sid', st1)" by blast
  then have b: "(sid', st1) \<in> set (streams eng)" "st_pageId st1 = p"
    by (auto simp: find_Some_iff set_conv_nth)
  from a b eq d have "st0 = st1"
    by (auto dest: eq_key_imp_eq_value)
  with a b ne show False by simp
qed

lemma handleScreencastFrame_gated:
  assumes "gateOf pageId eng = Some (sid, fp)"
  shows "handleScreencastFrame pageId frameObject tArrival now eng =
     (let eng1 = set_stream sid
                   (\<lambda>st. st\<lparr> st_lastFrameAt := tArrival,
                             st_frameCount := st_frameCount st + 1 \<rparr>) eng
      in if of_int (now - fp_lastFrameTimestamp fp) < fp_frameInterval fp
         then set_frameProcessor sid (\<lambda>fp. fp\<lparr> fp_dropped := fp_dropped fp + 1 \<rparr>)
                (set_stream sid
                   (\<lambda>st. st\<lparr> st_droppedFrameCount := st_droppedFrameCount st + 1 \<rparr>) eng1)
         else snd (processFrame sid frameObject
                     (set_frameProcessor sid (\<lambda>fp. fp\<lparr> fp_lastFrameTimestamp := now \<rparr>) eng1)))"
proof -
  from gateOf_SomeD [OF assms] obtain st0 stream where
    "find (\<lambda>(sid, st). st_pageId st = pageId) (streams eng) = Some (sid, st0)"
    "sid \<noteq> []" "map_of (streams eng) sid = Some stream" "st_active stream"
    "map_of (frameProcessors eng) sid = Some fp"
    by blast
  then show ?thesis
    by (simp add: handleScreencastFrame_def Let_def)
qed

lemma handleScreencastFrame_ignored:
  assumes "gateOf pageId eng = None"
  shows "frameProcessors (handleScreencastFrame pageId frameObject tArrival now eng) =
           frameProcessors eng \<and>
         streamView (handleScreencastFrame pageId frameObject tArrival now eng) =
           streamView eng \<and>
         encoding (handleScreencastFrame pageId frameObject tArrival now eng) = encoding eng \<and>
         immediates (handleScreencastFrame pageId frameObject tArrival now eng) = immediates eng"
  using assms
  by (auto simp: gateOf_def handleScreencastFrame_def Let_def streamView_set_stream
      split: option.splits prod.splits if_splits)


lemma streamView_processFrame [simp]:
  "streamView (snd (processFrame sessionId frameObject eng)) = streamView eng"
  by (simp add: streamView_def)

lemma streamView_set_frameProcessor [simp]:
  "streamView (set_frameProcessor sessionId f eng) = streamView eng"
  by (simp add: streamView_def)

lemma streamView_pipelineStep:
  "streamView (pipelineStep api scfg live e eng) = streamView eng"
proof (cases e)
  case (RawFrame p frameObject tArrival now)
  show ?thesis
  proof (cases "gateOf p eng")
    case None
    with RawFrame show ?thesis
      by (simp add: pipelineStep_def handleScreencastFrame_ignored)
  next
    case (Some g)
    obtain sid fp where "g = (sid, fp)" by (cases g)
    with Some have "gateOf p eng = Some (sid, fp)" by simp
    from handleScreencastFrame_gated [OF this] RawFrame show ?thesis
      by (simp add: pipelineStep_def Let_def streamView_set_stream)
  qed
next
  case (EncodeDone sessionId write_ok tTick t0 t1)
  then show ?thesis by (simp add: pipelineStep_def streamView_def)
next
  case ImmediateRuns
  then show ?thesis by (simp add: pipelineStep_def streamView_def)
qed

lemma keys_streamView: "map fst (streams eng) = map fst (streamView eng)"
  by (simp add: streamView_def case_prod_unfold comp_def)

lemma distinct_pipelineStep:
  "distinct (map fst (streams eng)) \<Longrightarrow>
   distinct (map fst (streams (pipelineStep api scfg live e eng)))"
  by (simp add: keys_streamView streamView_pipelineStep)

lemma lookup_gateView:
  assumes "gateView eng' = gateView eng" and "map_of (frameProcessors eng) sid = Some fp"
  shows "\<exists>fp'. map_of (frameProcessors eng') sid = Some fp' \<and>
               fp_lastFrameTimestamp fp' = fp_lastFrameTimestamp fp \<and>
               fp_frameInterval fp' = fp_frameInterval fp"
proof -
  let ?h = "\<lambda>fp. (fp_lastFrameTimestamp fp, fp_frameInterval fp)"
  have "map (\<lambda>(k, v). (k, ?h v)) (frameProcessors eng') =
        map (\<lambda>(k, v). (k, ?h v)) (frameProcessors eng)"
    using assms(1) by (simp add: gateView_def)
  from map_of_view [OF this, of sid] assms(2) show ?thesis
    by auto
qed

lemma gate_kept:
  assumes d: "distinct (map fst (streams eng))"
    and g: "gateOf pageId eng = Some (sid, fp)"
    and e: "\<not> (\<exists>frameObject tArrival now.
                e = RawFrame pageId frameObject tArrival now \<and> acceptsFrame pageId now eng)"
  shows "\<exists>fp'. gateOf pageId (pipelineStep api scfg live e eng) = Some (sid, fp') \<and>
               fp_lastFrameTimestamp fp' = fp_lastFrameTimestamp fp \<and>
               fp_frameInterval fp' = fp_frameInterval fp"
proof -
  let ?eng' = "pipelineStep api scfg live e eng"
  from gateOf_SomeD [OF g] have l: "map_of (frameProcessors eng) sid = Some fp" by blast
  have "\<exists>fp'. map_of (frameProcessors ?eng') sid = Some fp' \<and>
              fp_lastFrameTimestamp fp' = fp_lastFrameTimestamp fp \<and>
              fp_frameInterval fp' = fp_frameInterval fp"
  proof (cases e)
    case (RawFrame p frameObject tArrival now)
    show ?thesis
    proof (cases "gateOf p eng")
      case None
      with RawFrame l show ?thesis
        by (simp add: pipelineStep_def handleScreencastFrame_ignored)
    next
      case (Some g')
      obtain sid' fp' where g': "gateOf p eng = Some (sid', fp')"
        using Some by (cases g') simp
      show ?thesis
      proof (cases "p = pageId")
        case True
        with g g' have same: "sid' = sid" "fp' = fp" by simp_all
        from e RawFrame True g
        have "of_int (now - fp_lastFrameTimestamp fp) < fp_frameInterval fp"
          by (simp add: acceptsFrame_def)
        with handleScreencastFrame_gated [OF g'] RawFrame same l show ?thesis
          by (simp add: pipelineStep_def Let_def map_of_map_entry)
      next
        case False
        from gate_keys_differ [OF d g g' False] have ne: "sid' \<noteq> sid" .
        then have ne': "sid \<noteq> sid'" by blast
        from handleScreencastFrame_gated [OF g'] RawFrame l ne ne' show ?thesis
          by (simp add: pipelineStep_def Let_def map_of_map_entry lookup_processFrame)
      qed
    qed
  next
    case (EncodeDone sessionId write_ok tTick t0 t1)
    have "gateView ?eng' = gateView eng"
      using EncodeDone by (simp add: pipelineStep_def)
    from lookup_gateView [OF this l] show ?thesis .
  next
    case ImmediateRuns
    have "gateView ?eng' = gateView eng"
      using ImmediateRuns by (simp add: pipelineStep_def)
    from lookup_gateView [OF this l] show ?thesis .
  qed
  then obtain fp' where l': "map_of (frameProcessors ?eng') sid = Some fp'"
    and v: "fp_lastFrameTimestamp fp' = fp_lastFrameTimestamp fp"
           "fp_frameInterval fp' = fp_frameInterval fp"
    by blast
  from gateOf_transfer [OF streamView_pipelineStep g l'] v show ?thesis
    by blast
qed

lemma gate_accepted:
  assumes g: "gateOf pageId eng = Some (sid, fp)"
    and a: "acceptsFrame pageId now eng"
  shows "\<exists>fp'. gateOf pageId (pipelineStep api scfg live (RawFrame pageId frameObject tArrival now) eng)
                 = Some (sid, fp') \<and>
               fp_lastFrameTimestamp fp' = now \<and>
               fp_frameInterval fp' = fp_frameInterval fp"
proof -
  let ?eng' = "pipelineStep api scfg live (RawFrame pageId frameObject tArrival now) eng"
  from gateOf_SomeD [OF g] have l: "map_of (frameProcessors eng) sid = Some fp" by blast
  from a g have "\<not> of_int (now - fp_lastFrameTimestamp fp) < fp_frameInterval fp"
    by (simp add: acceptsFrame_def)
  with handleScreencastFrame_gated [OF g] l
  have "\<exists>fp'. map_of (frameProcessors ?eng') sid = Some fp' \<and>
              fp_lastFrameTimestamp fp' = now \<and>
              fp_frameInterval fp' = fp_frameInterval fp"
    by (simp add: pipelineStep_def Let_def map_of_map_entry lookup_processFrame)
  then obtain fp' where l': "map_of (frameProcessors ?eng') sid = Some fp'"
    and v: "fp_lastFrameTimestamp fp' = now" "fp_frameInterval fp' = fp_frameInterval fp"
    by blast
  from gateOf_transfer [OF streamView_pipelineStep g l'] v show ?thesis
    by blast
qed

lemma spaced_acceptedTimes:
  assumes "distinct (map fst (streams eng))" and "gateOf pageId eng = Some (sid, fp)"
  shows "spaced (fp_frameInterval fp) (fp_lastFrameTimestamp fp)
           (acceptedTimes api scfg live pageId evs eng)"
  using assms
proof (induction evs arbitrary: eng fp)
  case Nil
  then show ?case by simp
next
  case (Cons e es)
  let ?eng' = "pipelineStep api scfg live e eng"
  have d': "distinct (map fst (streams ?eng'))"
    by (rule distinct_pipelineStep [OF Cons.prems(1)])
  show ?case
  proof (cases "\<exists>frameObject tArrival now.
                  e = RawFrame pageId frameObject tArrival now \<and> acceptsFrame pageId now eng")
    case True
    then obtain frameObject tArrival now where
      e: "e = RawFrame pageId frameObject tArrival now" and a: "acceptsFrame pageId now eng"
      by blast
    from gate_accepted [OF Cons.prems(2) a, of api scfg live frameObject tArrival] e
    obtain fp' where g': "gateOf pageId ?eng' = Some (sid, fp')"
      and v: "fp_lastFrameTimestamp fp' = now" "fp_frameInterval fp' = fp_frameInterval fp"
      by auto
    from a Cons.prems(2)
    have gap: "fp_frameInterval fp \<le> of_int (now - fp_lastFrameTimestamp fp)"
      by (simp add: acceptsFrame_def)
    from Cons.IH [OF d' g'] v gap e a show ?thesis
      by simp
  next
    case False
    from gate_kept [OF Cons.prems(1) Cons.prems(2) False, of api scfg live]
    obtain fp' where g': "gateOf pageId ?eng' = Some (sid, fp')"
      and v: "fp_lastFrameTimestamp fp' = fp_lastFrameTimestamp fp"
             "fp_frameInterval fp' = fp_frameInterval fp"
      by auto
    from False have "acceptedTimes api scfg live pageId (e # es) eng =
                     acceptedTimes api scfg live pageId es ?eng'"
      by (cases e) auto
    with Cons.IH [OF d' g'] v show ?thesis
      by simp
  qed
qed

lemma spaced_mono: "spaced gap t ts \<Longrightarrow> t0 \<le> t \<Longrightarrow> spaced gap t0 ts"
proof (cases ts)
  case Nil
  then show ?thesis by simp
next
  case (Cons t1 rest)
  assume "spaced gap t ts" and le: "t0 \<le> t"
  with Cons have g: "gap \<le> of_int (t1 - t)" and r: "spaced gap t1 rest" by simp_all
  from le have "(of_int (t1 - t) :: rat) \<le> of_int (t1 - t0)" by simp
  with g have "gap \<le> of_int (t1 - t0)" by linarith
  with r Cons show ?thesis by simp
qed

lemma spaced_filter:
  "0 \<le> gap \<Longrightarrow> spaced gap t0 ts \<Longrightarrow> spaced gap t0 (filter P ts)"
proof (induction ts arbitrary: t0)
  case Nil
  then show ?case by simp
next
  case (Cons t ts)
  then have gap: "gap \<le> of_int (t - t0)" and r: "spaced gap t ts" by simp_all
  from Cons.IH [OF Cons.prems(1) r] have f: "spaced gap t (filter P ts)" .
  show ?case
  proof (cases "P t")
    case True
    with gap f show ?thesis by simp
  next
    case False
    from Cons.prems(1) gap have "(0::rat) \<le> of_int (t - t0)" by (rule order_trans)
    then have "t0 \<le> t" by simp
    from spaced_mono [OF f this] False show ?thesis by simp
  qed
qed

lemma spaced_span:
  "spaced gap t0 ts \<Longrightarrow> ts \<noteq> [] \<Longrightarrow> of_nat (length ts) * gap \<le> of_int (last ts - t0)"
proof (induction ts arbitrary: t0)
  case Nil
  then show ?case by simp
next
  case (Cons t ts)
  then have gap: "gap \<le> of_int (t - t0)" and r: "spaced gap t ts" by simp_all
  show ?case
  proof (cases "ts = []")
    case True
    with gap show ?thesis by simp
  next
    case False
    from Cons.IH [OF r False] have "of_nat (length ts) * gap \<le> of_int (last ts - t)" .
    with gap have "of_nat (length ts) * gap + gap \<le> of_int (last ts - t) + of_int (t - t0)"
      by linarith
    with False show ?thesis
      by (simp add: algebra_simps)
  qed
qed

lemma spaced_window:
  assumes F: "0 < F" and s: "spaced (1000 / F) t0 ts"
  shows "of_nat (length (filter (\<lambda>t. T \<le> t \<and> t < T + 1000) ts)) < F + 1"
proof -
  let ?ws = "filter (\<lambda>t. T \<le> t \<and> t < T + 1000) ts"
  from F have gap: "0 \<le> 1000 / F" by simp
  from spaced_filter [OF gap s] have sw: "spaced (1000 / F) t0 ?ws" .
  show ?thesis
  proof (cases ?ws)
    case Nil
    with F show ?thesis by simp
  next
    case (Cons t1 rest)
    with sw have r: "spaced (1000 / F) t1 rest" by simp
    show ?thesis
    proof (cases "rest = []")
      case True
      with Cons F show ?thesis by simp
    next
      case False
      from spaced_span [OF r False]
      have span: "of_nat (length rest) * (1000 / F) \<le> of_int (last rest - t1)" .
      have "t1 \<in> set ?ws" using Cons by simp
      then have lo: "T \<le> t1" by simp
      have "last rest \<in> set ?ws" using Cons False by simp
      then have hi: "last rest < T + 1000" by simp
      from lo hi have "last rest - t1 < 1000" by simp
      then have "(of_int (last rest - t1) :: rat) < 1000" by linarith
      with span have "of_nat (length rest) * (1000 / F) < 1000" by simp
      with F have "of_nat (length rest) * 1000 < 1000 * F"
        by (simp add: pos_less_divide_eq [symmetric] field_simps)
      then have "of_nat (length rest) < F" by simp
      with Cons show ?thesis by simp
    qed
  qed
qed

text \<open>
  Two runs on the example stream (30 frames per second, so a frame interval of a third
  of 100 ms): a burst of three frames 100 ms apart is accepted whole, and of sixty
  frames 16 ms apart every third one is accepted, twenty in all.
\<close>

lemma ex_burst_accepted:
  "acceptedTimes CUDAEncoder_api STREAMING_CONFIG (\<lambda>c. c) ''p1'' ex_burst ex_engine =
     [100, 200, 300]"
  by code_simp

lemma ex_steady_accepted:
  "acceptedTimes CUDAEncoder_api STREAMING_CONFIG (\<lambda>c. c) ''p1'' ex_steady ex_engine =
     map (\<lambda>i. 48 * int i) [1 ..< 21]"
  by code_simp

text \<open>
  C3, amended. Let \<open>sessionId\<close> be the stream that handles the raw frames of a page:
  the first registered stream bound to the page, provided it is active and has a frame
  processor (\<open>gateOf\<close>), and let its frame processor have been created with frame rate
  \<open>F\<close> (frame interval \<open>1000 / F\<close>). Every raw frame of the page stamps that stream's
  last-frame time and increments its frame count, also when it is dropped; when the
  time since the last accepted frame is below \<open>1000 / F\<close> the frame is dropped and both
  dropped counters (the stream's and the frame processor's) are incremented; otherwise
  the instant is recorded as the last accepted one and the frame goes to
  \<open>processFrame\<close>. Along every run of the pipeline, the number of frames of the page
  accepted in any window of 1000 ms is below \<open>F + 1\<close>.
\<close>

theorem frame_gate_drops_and_bounds_rate:
  assumes keys: "distinct (map fst (streams eng))"
    and gate: "gateOf pageId eng = Some (sessionId, fp)"
    and rate: "fp_frameInterval fp = 1000 / F" and pos: "0 < F"
  shows "handleScreencastFrame pageId frameObject tArrival now eng =
           (let eng1 = set_stream sessionId
                         (\<lambda>st. st\<lparr> st_lastFrameAt := tArrival,
                                   st_frameCount := st_frameCount st + 1 \<rparr>) eng
            in if of_int (now - fp_lastFrameTimestamp fp) < 1000 / F
               then set_frameProcessor sessionId
                      (\<lambda>fp. fp\<lparr> fp_dropped := fp_dropped fp + 1 \<rparr>)
                      (set_stream sessionId
                         (\<lambda>st. st\<lparr> st_droppedFrameCount := st_droppedFrameCount st + 1 \<rparr>)
                         eng1)
               else snd (processFrame sessionId frameObject
                           (set_frameProcessor sessionId
                              (\<lambda>fp. fp\<lparr> fp_lastFrameTimestamp := now \<rparr>) eng1))) \<and>
         acceptsFrame pageId now eng =
           (\<not> of_int (now - fp_lastFrameTimestamp fp) < 1000 / F) \<and>
         of_nat (length (filter (\<lambda>t. T \<le> t \<and> t < T + 1000)
                           (acceptedTimes api scfg live pageId evs eng))) < F + 1"
proof -
  from handleScreencastFrame_gated [OF gate, of frameObject tArrival now] rate
  have a: "handleScreencastFrame pageId frameObject tArrival now eng =
           (let eng1 = set_stream sessionId
                         (\<lambda>st. st\<lparr> st_lastFrameAt := tArrival,
                                   st_frameCount := st_frameCount st + 1 \<rparr>) eng
            in if of_int (now - fp_lastFrameTimestamp fp) < 1000 / F
               then set_frameProcessor sessionId
                      (\<lambda>fp. fp\<lparr> fp_dropped := fp_dropped fp + 1 \<rparr>)
                      (set_stream sessionId
                         (\<lambda>st. st\<lparr> st_droppedFrameCount := st_droppedFrameCount st + 1 \<rparr>)
                         eng1)
               else snd (processFrame sessionId frameObject
                           (set_frameProcessor sessionId
                              (\<lambda>fp. fp\<lparr> fp_lastFrameTimestamp := now \<rparr>) eng1)))"
    by simp
  from gate rate
  have b: "acceptsFrame pageId now eng =
             (\<not> of_int (now - fp_lastFrameTimestamp fp) < 1000 / F)"
    by (simp add: acceptsFrame_def)
  from spaced_acceptedTimes [OF keys gate, of api scfg live evs] rate
  have "spaced (1000 / F) (fp_lastFrameTimestamp fp)
          (acceptedTimes api scfg live pageId evs eng)"
    by simp
  from spaced_window [OF pos this, of T]
  have c: "of_nat (length (filter (\<lambda>t. T \<le> t \<and> t < T + 1000)
                             (acceptedTimes api scfg live pageId evs eng))) < F + 1" .
  from a b c show ?thesis by blast
qed

theorem frame_gate_drops_and_bounds_rate_witness:
  "distinct (map fst (streams ex_engine)) \<and>
   gateOf ''p1'' ex_engine =
     Some (''s1'', \<lparr> fp_lastFrameTimestamp = 0, fp_frameInterval = 100 / 3,
                     fp_frameQueue = [], fp_processing = False, fp_dropped = 0,
                     fp_processed = 0 \<rparr>) \<and>
   \<not> acceptsFrame ''p1'' 10 ex_engine \<and>
   acceptsFrame ''p1'' 100 ex_engine \<and>
   of_nat (length (filter (\<lambda>t. 0 \<le> t \<and> t < 0 + 1000)
                     (acceptedTimes CUDAEncoder_api STREAMING_CONFIG (\<lambda>c. c) ''p1''
                        ex_steady ex_engine))) < (30::rat) + 1"
proof -
  let ?fp = "\<lparr> fp_lastFrameTimestamp = 0, fp_frameInterval = 100 / 3,
               fp_frameQueue = [], fp_processing = False, fp_dropped = 0,
               fp_processed = 0 \<rparr>"
  have keys: "distinct (map fst (streams ex_engine))"
    by (simp add: ex_engine_eq)
  have gate: "gateOf ''p1'' ex_engine = Some (''s1'', ?fp)"
    by (simp add: ex_engine_eq gateOf_def)
  have rate: "fp_frameInterval ?fp = 1000 / 30" by simp
  have pos: "(0::rat) < 30" by simp
  show ?thesis
    using frame_gate_drops_and_bounds_rate [OF keys gate rate pos,
            of "''f1''" 10 10 0 CUDAEncoder_api STREAMING_CONFIG "\<lambda>c. c" ex_steady]
      frame_gate_drops_and_bounds_rate [OF keys gate rate pos,
            of "''f1''" 100 100 0 CUDAEncoder_api STREAMING_CONFIG "\<lambda>c. c" ex_steady]
      keys gate
    by simp
qed

text \<open>
  C3 as stated fails where it says a dropped frame changes nothing but the dropped
  counter: the frame arriving 10 ms after the stream was created is dropped, and it
  moves the stream's frame count from 0 to 1 and its last-frame time from 0 to 10.
\<close>

theorem dropped_frame_counts_as_received_counterexample:
  "\<not> acceptsFrame ''p1'' 10 ex_engine \<and>
   map_option st_frameCount (map_of (streams ex_engine) ''s1'') = Some 0 \<and>
   map_option st_frameCount
     (map_of (streams (handleScreencastFrame ''p1'' ''f1'' 10 10 ex_engine)) ''s1'') = Some 1 \<and>
   map_option st_lastFrameAt (map_of (streams ex_engine) ''s1'') = Some 0 \<and>
   map_option st_lastFrameAt
     (map_of (streams (handleScreencastFrame ''p1'' ''f1'' 10 10 ex_engine)) ''s1'') = Some 10 \<and>
   map_option st_droppedFrameCount
     (map_of (streams (handleScreencastFrame ''p1'' ''f1'' 10 10 ex_engine)) ''s1'') = Some 1 \<and>
   map_option fp_dropped
     (map_of (frameProcessors (handleScreencastFrame ''p1'' ''f1'' 10 10 ex_engine)) ''s1'') =
     Some 1"
  by (simp add: ex_engine_eq acceptsFrame_def gateOf_def handleScreencastFrame_def
      set_stream_def set_frameProcessor_def Let_def)

section \<open>Encode concurrency and the frame queue\<close>

text \<open>
  The encodes under way for a session and the \<open>processing\<close> flag of its frame processor
  move together: \<open>processFrame\<close> starts an encode exactly when it sets the flag, and the
  rest of the call ends the encode and clears the flag. Every step of the pipeline keeps
  the two counts equal once they are.
\<close>

lemma inFlight_set [simp]:
  "inFlight sid (set_frameProcessor sessionId f eng) = inFlight sid eng"
  "inFlight sid (set_stream sessionId g eng) = inFlight sid eng"
  by (simp_all add: inFlight_def)

lemma processingCount_set_stream [simp]:
  "processingCount sid (set_stream sessionId g eng) = processingCount sid eng"
  by (simp add: processingCount_def)

lemma processingCount_set_frameProcessor:
  assumes "\<And>fp. fp_processing (f fp) = fp_processing fp"
  shows "processingCount sid (set_frameProcessor sessionId f eng) = processingCount sid eng"
  using assms by (simp add: processingCount_def map_of_map_entry split: option.splits)

lemma encoding_processFrame:
  "encoding (snd (processFrame sessionId frameObject eng)) =
     encoding eng @
     (case map_of (frameProcessors eng) sessionId of
        None \<Rightarrow> []
      | Some fp \<Rightarrow> if fp_processing fp then [] else [(sessionId, frameObject)])"
  by (simp add: processFrame_def split: option.splits)

lemma inFlight_processFrame:
  "inFlight sid (snd (processFrame sessionId frameObject eng)) =
     inFlight sid eng +
     (case map_of (frameProcessors eng) sessionId of
        None \<Rightarrow> 0
      | Some fp \<Rightarrow> if fp_processing fp \<or> sid \<noteq> sessionId then 0 else 1)"
  by (simp add: inFlight_def encoding_processFrame split: option.splits)

lemma processingCount_processFrame:
  "processingCount sid (snd (processFrame sessionId frameObject eng)) =
     (if sid = sessionId
      then (case map_of (frameProcessors eng) sessionId of None \<Rightarrow> 0 | Some fp \<Rightarrow> 1)
      else processingCount sid eng)"
  by (simp add: processingCount_def lookup_processFrame queueOrStart_def split: option.splits)

lemma balanced_processFrame:
  assumes "\<forall>sid. inFlight sid eng = processingCount sid eng"
  shows "\<forall>sid. inFlight sid (snd (processFrame sessionId frameObject eng)) =
               processingCount sid (snd (processFrame sessionId frameObject eng))"
proof
  fix sid
  from assms have a: "inFlight sid eng = processingCount sid eng"
    and b: "inFlight sessionId eng = processingCount sessionId eng"
    by simp_all
  show "inFlight sid (snd (processFrame sessionId frameObject eng)) =
        processingCount sid (snd (processFrame sessionId frameObject eng))"
    unfolding inFlight_processFrame processingCount_processFrame
    using a b by (auto simp: processingCount_def split: option.splits)
qed

lemma length_filter_remove1:
  "x \<in> set xs \<Longrightarrow>
   length (filter P (remove1 x xs)) =
     (if P x then length (filter P xs) - 1 else length (filter P xs))"
proof (induction xs)
  case Nil
  then show ?case by simp
next
  case (Cons a xs)
  show ?case
  proof (cases "x = a")
    case True
    then show ?thesis by simp
  next
    case False
    with Cons.prems have x: "x \<in> set xs" by simp
    have "P x \<Longrightarrow> 0 < length (filter P xs)"
      using x by (auto simp: filter_empty_conv)
    with Cons.IH [OF x] False show ?thesis by auto
  qed
qed

lemma inFlight_processFrameRest:
  "inFlight sid (processFrameRest api scfg live write_ok sessionId tTick t0 t1 eng) =
     (if sid = sessionId \<and> map_of (encoding eng) sessionId \<noteq> None
      then inFlight sid eng - 1 else inFlight sid eng)"
proof (cases "map_of (encoding eng) sessionId")
  case None
  then show ?thesis by (simp add: inFlight_def encoding_processFrameRest)
next
  case (Some frameObject)
  then have "(sessionId, frameObject) \<in> set (encoding eng)" by (rule map_of_SomeD)
  from length_filter_remove1 [OF this, of "\<lambda>(s, f). s = sid"] Some show ?thesis
    by (auto simp: inFlight_def encoding_processFrameRest)
qed

lemma processingCount_processFrameRest:
  "processingCount sid (processFrameRest api scfg live write_ok sessionId tTick t0 t1 eng) =
     (if sid = sessionId \<and> map_of (encoding eng) sessionId \<noteq> None
      then 0 else processingCount sid eng)"
  by (simp add: processingCount_def lookup_processFrameRest finishFrame_def
      split: option.splits)

lemma inFlight_pos:
  "map_of (encoding eng) sessionId = Some frameObject \<Longrightarrow> 0 < inFlight sessionId eng"
proof -
  assume "map_of (encoding eng) sessionId = Some frameObject"
  then have "(sessionId, frameObject) \<in> set (encoding eng)" by (rule map_of_SomeD)
  then have "(sessionId, frameObject) \<in> set (filter (\<lambda>(s, f). s = sessionId) (encoding eng))"
    by simp
  then show ?thesis
    unfolding inFlight_def by (simp only: length_pos_if_in_set)
qed

lemma processingCount_le: "processingCount sid eng \<le> 1"
  by (simp add: processingCount_def split: option.splits)

lemma balanced_processFrameRest:
  assumes "\<forall>sid. inFlight sid eng = processingCount sid eng"
  shows "\<forall>sid. inFlight sid (processFrameRest api scfg live write_ok sessionId tTick t0 t1 eng) =
               processingCount sid
                 (processFrameRest api scfg live write_ok sessionId tTick t0 t1 eng)"
proof
  fix sid
  from assms have a: "inFlight sid eng = processingCount sid eng" by simp
  have le: "inFlight sid eng \<le> 1" using a processingCount_le [of sid eng] by simp
  show "inFlight sid (processFrameRest api scfg live write_ok sessionId tTick t0 t1 eng) =
        processingCount sid
          (processFrameRest api scfg live write_ok sessionId tTick t0 t1 eng)"
  proof (cases "sid = sessionId \<and> map_of (encoding eng) sessionId \<noteq> None")
    case True
    from le have "inFlight sid eng - 1 = 0" by simp
    with True show ?thesis
      unfolding inFlight_processFrameRest processingCount_processFrameRest by auto
  next
    case False
    with a show ?thesis
      unfolding inFlight_processFrameRest processingCount_processFrameRest by auto
  qed
qed

lemma balanced_handleScreencastFrame:
  assumes "\<forall>sid. inFlight sid eng = processingCount sid eng"
  shows "\<forall>sid. inFlight sid (handleScreencastFrame pageId frameObject tArrival now eng) =
               processingCount sid (handleScreencastFrame pageId frameObject tArrival now eng)"
proof (cases "gateOf pageId eng")
  case None
  from handleScreencastFrame_ignored [OF None, of frameObject tArrival now] assms
  show ?thesis by (simp add: inFlight_def processingCount_def)
next
  case (Some g)
  obtain sessionId fp where g: "gateOf pageId eng = Some (sessionId, fp)"
    using Some by (cases g) simp
  let ?eng1 = "set_frameProcessor sessionId (\<lambda>fp. fp\<lparr> fp_lastFrameTimestamp := now \<rparr>)
                 (set_stream sessionId
                    (\<lambda>st. st\<lparr> st_lastFrameAt := tArrival,
                              st_frameCount := st_frameCount st + 1 \<rparr>) eng)"
  have "\<forall>sid. inFlight sid ?eng1 = processingCount sid ?eng1"
    using assms by (simp add: processingCount_set_frameProcessor)
  from balanced_processFrame [OF this, of sessionId frameObject]
  have acc: "\<forall>sid. inFlight sid (snd (processFrame sessionId frameObject ?eng1)) =
                   processingCount sid (snd (processFrame sessionId frameObject ?eng1))" .
  show ?thesis
  proof (cases "of_int (now - fp_lastFrameTimestamp fp) < fp_frameInterval fp")
    case True
    with handleScreencastFrame_gated [OF g, of frameObject tArrival now] assms show ?thesis
      by (simp add: Let_def processingCount_set_frameProcessor)
  next
    case False
    with handleScreencastFrame_gated [OF g, of frameObject tArrival now] acc show ?thesis
      by (simp add: Let_def)
  qed
qed

lemma balanced_runImmediate:
  assumes "\<forall>sid. inFlight sid eng = processingCount sid eng"
  shows "\<forall>sid. inFlight sid (runImmediate eng) = processingCount sid (runImmediate eng)"
proof (cases "immediates eng")
  case Nil
  with assms show ?thesis by (simp add: runImmediate_def)
next
  case (Cons x rest)
  obtain sessionId nextFrame where x: "x = (sessionId, nextFrame)" by (cases x)
  have "\<forall>sid. inFlight sid (eng\<lparr> immediates := rest \<rparr>) =
              processingCount sid (eng\<lparr> immediates := rest \<rparr>)"
    using assms by (simp add: inFlight_def processingCount_def)
  from balanced_processFrame [OF this, of sessionId nextFrame] Cons x show ?thesis
    by (simp add: runImmediate_def)
qed

lemma balanced_pipelineStep:
  assumes "\<forall>sid. inFlight sid eng = processingCount sid eng"
  shows "\<forall>sid. inFlight sid (pipelineStep api scfg live e eng) =
               processingCount sid (pipelineStep api scfg live e eng)"
proof (cases e)
  case (RawFrame pageId frameObject tArrival now)
  with balanced_handleScreencastFrame [OF assms, of pageId frameObject tArrival now]
  show ?thesis by (simp add: pipelineStep_def)
next
  case (EncodeDone sessionId write_ok tTick t0 t1)
  with balanced_processFrameRest [OF assms, of api scfg live write_ok sessionId tTick t0 t1]
  show ?thesis by (simp add: pipelineStep_def)
next
  case ImmediateRuns
  with balanced_runImmediate [OF assms] show ?thesis by (simp add: pipelineStep_def)
qed

lemma balanced_runPipeline:
  "\<forall>sid. inFlight sid eng = processingCount sid eng \<Longrightarrow>
   \<forall>sid. inFlight sid (runPipeline api scfg live evs eng) =
         processingCount sid (runPipeline api scfg live evs eng)"
proof (induction evs arbitrary: eng)
  case Nil
  then show ?case by simp
next
  case (Cons e es)
  from Cons.IH [OF balanced_pipelineStep [OF Cons.prems]] show ?case by simp
qed

lemma balanced_idle:
  assumes "encoding eng = []"
    and "list_all (\<lambda>(sid, fp). \<not> fp_processing fp) (frameProcessors eng)"
  shows "\<forall>sid. inFlight sid eng = processingCount sid eng"
proof
  fix sid
  show "inFlight sid eng = processingCount sid eng"
  proof (cases "map_of (frameProcessors eng) sid")
    case None
    with assms(1) show ?thesis by (simp add: inFlight_def processingCount_def)
  next
    case (Some fp)
    then have "(sid, fp) \<in> set (frameProcessors eng)" by (rule map_of_SomeD)
    with assms(2) have "\<not> fp_processing fp" by (auto simp: list_all_iff)
    with Some assms(1) show ?thesis by (simp add: inFlight_def processingCount_def)
  qed
qed

text \<open>
  The example burst: three frames accepted 100 ms apart while the encode of the first
  has not yet completed.
\<close>

lemma ex_burst_state:
  "map_of (frameProcessors
             (runPipeline CUDAEncoder_api STREAMING_CONFIG (\<lambda>c. c) ex_burst ex_engine)) ''s1'' =
     Some \<lparr> fp_lastFrameTimestamp = 300, fp_frameInterval = 100 / 3,
            fp_frameQueue = [''f2'', ''f3''], fp_processing = True, fp_dropped = 0,
            fp_processed = 0 \<rparr>"
  "encoding (runPipeline CUDAEncoder_api STREAMING_CONFIG (\<lambda>c. c) ex_burst ex_engine) =
     [(''s1'', ''f1'')]"
  "immediates (runPipeline CUDAEncoder_api STREAMING_CONFIG (\<lambda>c. c) ex_burst ex_engine) = []"
  by code_simp+

text \<open>
  C2, amended. Along every run of the pipeline from a state with no encode under way
  and no \<open>processing\<close> flag set, at most one encode is under way for a session. When
  \<open>processFrame\<close> is called for a session whose frame processor is processing, the
  frame is appended to the back of the frame queue, whatever the queue already holds,
  and no encode is started. When the encode under way completes, the frame at the head
  of the queue (if any) is taken off and handed to \<open>setImmediate\<close>, the frames behind
  it stay queued, the \<open>processing\<close> flag is cleared and no encode is under way.
\<close>

theorem one_encode_in_flight_fifo_queue:
  assumes idle: "encoding eng = []"
    and flags: "list_all (\<lambda>(sid, fp). \<not> fp_processing fp) (frameProcessors eng)"
    and run: "eng' = runPipeline api scfg live evs eng"
  shows "inFlight sessionId eng' \<le> 1 \<and>
         (map_of (frameProcessors eng') sessionId = Some fp \<and> fp_processing fp \<longrightarrow>
            processFrame sessionId frameObject eng' =
              (Some True,
               set_frameProcessor sessionId
                 (\<lambda>fp. fp\<lparr> fp_frameQueue := fp_frameQueue fp @ [frameObject] \<rparr>) eng') \<and>
            inFlight sessionId (snd (processFrame sessionId frameObject eng')) =
              inFlight sessionId eng') \<and>
         (map_of (frameProcessors eng') sessionId = Some fp \<and>
          map_of (encoding eng') sessionId = Some f0 \<longrightarrow>
            immediates (processFrameRest api scfg live write_ok sessionId tTick t0 t1 eng') =
              immediates eng' @
              (case fp_frameQueue fp of
                 [] \<Rightarrow> []
               | nextFrame # rest \<Rightarrow> [(sessionId, nextFrame)]) \<and>
            map_of (frameProcessors
                      (processFrameRest api scfg live write_ok sessionId tTick t0 t1 eng'))
              sessionId = Some (finishFrame fp) \<and>
            inFlight sessionId
              (processFrameRest api scfg live write_ok sessionId tTick t0 t1 eng') = 0)"
proof -
  from balanced_runPipeline [OF balanced_idle [OF idle flags], of api scfg live evs] run
  have bal: "\<forall>sid. inFlight sid eng' = processingCount sid eng'" by simp
  then have a: "inFlight sessionId eng' \<le> 1"
    using processingCount_le [of sessionId eng'] by simp
  have b: "processFrame sessionId frameObject eng' =
             (Some True,
              set_frameProcessor sessionId
                (\<lambda>fp. fp\<lparr> fp_frameQueue := fp_frameQueue fp @ [frameObject] \<rparr>) eng') \<and>
           inFlight sessionId (snd (processFrame sessionId frameObject eng')) =
             inFlight sessionId eng'"
    if "map_of (frameProcessors eng') sessionId = Some fp" and "fp_processing fp"
    using that by (simp add: processFrame_def)
  have c: "immediates (processFrameRest api scfg live write_ok sessionId tTick t0 t1 eng') =
             immediates eng' @
             (case fp_frameQueue fp of
                [] \<Rightarrow> []
              | nextFrame # rest \<Rightarrow> [(sessionId, nextFrame)]) \<and>
           map_of (frameProcessors
                     (processFrameRest api scfg live write_ok sessionId tTick t0 t1 eng'))
             sessionId = Some (finishFrame fp) \<and>
           inFlight sessionId
             (processFrameRest api scfg live write_ok sessionId tTick t0 t1 eng') = 0"
    if l: "map_of (frameProcessors eng') sessionId = Some fp"
      and e: "map_of (encoding eng') sessionId = Some f0"
  proof -
    from a have "inFlight sessionId eng' - 1 = 0" by simp
    with l e show ?thesis
      by (simp add: immediates_processFrameRest lookup_processFrameRest
          inFlight_processFrameRest)
  qed
  from a b c show ?thesis by blast
qed

theorem one_encode_in_flight_fifo_queue_witness:
  "encoding ex_engine = [] \<and>
   list_all (\<lambda>(sid, fp). \<not> fp_processing fp) (frameProcessors ex_engine) \<and>
   map_of (frameProcessors
             (runPipeline CUDAEncoder_api STREAMING_CONFIG (\<lambda>c. c) ex_burst ex_engine)) ''s1'' =
     Some \<lparr> fp_lastFrameTimestamp = 300, fp_frameInterval = 100 / 3,
            fp_frameQueue = [''f2'', ''f3''], fp_processing = True, fp_dropped = 0,
            fp_processed = 0 \<rparr> \<and>
   map_of (encoding (runPipeline CUDAEncoder_api STREAMING_CONFIG (\<lambda>c. c) ex_burst ex_engine))
     ''s1'' = Some ''f1'' \<and>
   inFlight ''s1'' (runPipeline CUDAEncoder_api STREAMING_CONFIG (\<lambda>c. c) ex_burst ex_engine)
     \<le> 1 \<and>
   fst (processFrame ''s1'' ''f4''
          (runPipeline CUDAEncoder_api STREAMING_CONFIG (\<lambda>c. c) ex_burst ex_engine)) =
     Some True \<and>
   immediates (processFrameRest CUDAEncoder_api STREAMING_CONFIG (\<lambda>c. c) True ''s1'' 310 310 320
                 (runPipeline CUDAEncoder_api STREAMING_CONFIG (\<lambda>c. c) ex_burst ex_engine)) =
     [(''s1'', ''f2'')] \<and>
   map_option fp_frameQueue
     (map_of (frameProcessors
                (processFrameRest CUDAEncoder_api STREAMING_CONFIG (\<lambda>c. c) True ''s1'' 310 310 320
                   (runPipeline CUDAEncoder_api STREAMING_CONFIG (\<lambda>c. c) ex_burst ex_engine)))
        ''s1'') = Some [''f3''] \<and>
   inFlight ''s1''
     (processFrameRest CUDAEncoder_api STREAMING_CONFIG (\<lambda>c. c) True ''s1'' 310 310 320
        (runPipeline CUDAEncoder_api STREAMING_CONFIG (\<lambda>c. c) ex_burst ex_engine)) = 0"
proof -
  have idle: "encoding ex_engine = []"
    and flags: "list_all (\<lambda>(sid, fp). \<not> fp_processing fp) (frameProcessors ex_engine)"
    by (simp_all add: ex_engine_eq)
  show ?thesis
    using one_encode_in_flight_fifo_queue [OF idle flags refl,
            of "''s1''" CUDAEncoder_api STREAMING_CONFIG "\<lambda>c. c" ex_burst
               "\<lparr> fp_lastFrameTimestamp = 300, fp_frameInterval = 100 / 3,
                  fp_frameQueue = [''f2'', ''f3''], fp_processing = True, fp_dropped = 0,
                  fp_processed = 0 \<rparr>"
               "''f4''" "''f1''" True 310 310 320]
      idle flags
    by (simp add: ex_burst_state finishFrame_def)
qed

text \<open>
  C2 as stated fails where it says the queue is a single slot in which a second arrival
  replaces the first: after the burst the queue holds both the second and the third
  frame, in arrival order, while the first is still being encoded.
\<close>

theorem burst_queues_two_frames_counterexample:
  "map_option fp_frameQueue
     (map_of (frameProcessors
                (handleScreencastFrame ''p1'' ''f3'' 300 300
                   (handleScreencastFrame ''p1'' ''f2'' 200 200
                      (handleScreencastFrame ''p1'' ''f1'' 100 100 ex_engine)))) ''s1'') =
     Some [''f2'', ''f3''] \<and>
   encoding (handleScreencastFrame ''p1'' ''f3'' 300 300
               (handleScreencastFrame ''p1'' ''f2'' 200 200
                  (handleScreencastFrame ''p1'' ''f1'' 100 100 ex_engine))) =
     [(''s1'', ''f1'')]"
  by code_simp

end
